theory Spec2Isabelle
  imports Complex_Main "HOL-Library.Char_ord" "HOL-Library.List_Lexorder" "HOL-Library.Multiset"
begin

section \<open>JavaScript values, exceptions and built-ins\<close>

text \<open>
  The module under verification is \<^verbatim>\<open>src/main/assetsUtil.ts\<close>.  Its function
  \<^verbatim>\<open>loadAssets\<close> reads three asset folders, parses one \<^verbatim>\<open>config.json\<close> per
  sub-folder and returns the validated assets together with the names of the folders
  that failed to load.

  A value read from a JSON file has the TypeScript type \<^verbatim>\<open>unknown\<close>; it is one of the
  constructors below.  An object is the list of its properties, each key once (of a key
  that the file repeats the parser keeps the last value).  \<open>JUndefined\<close> is the result of
  reading a property that an object does not have.  Numbers are the real values of the doubles that \<^verbatim>\<open>JSON.parse\<close>
  produces; the module only compares them with zero.

  Strings are \<^typ>\<open>string\<close>, read as the UTF-8 code units of a well-formed JavaScript
  string.  Comparison is lexicographic on code units (\<open>Char_ord\<close>, \<open>List_Lexorder\<close>), which
  is the order of \<^verbatim>\<open><\<close> and \<^verbatim>\<open>></\<close> on JavaScript strings of the Basic Multilingual
  Plane.

  An exception is a value of \<open>js_error\<close>, and a computation that may raise returns
  \<open>js_error + 'a\<close> with \<open>Inl\<close> for the exception.
\<close>

datatype js_error = TypeError | URIError | IOError

datatype json =
    JNull
  | JBool bool
  | JNum real
  | JStr string
  | JArr "json list"
  | JObj "(string \<times> json) list"
  | JUndefined

definition bindE :: "js_error + 'a \<Rightarrow> ('a \<Rightarrow> js_error + 'b) \<Rightarrow> js_error + 'b" where
  "bindE m f = (case m of Inl e \<Rightarrow> Inl e | Inr x \<Rightarrow> f x)"

text \<open>The operator \<^verbatim>\<open>&&\<close> on conditions that may raise: the right operand is evaluated
  only when the left one is true.\<close>

definition js_and :: "js_error + bool \<Rightarrow> js_error + bool \<Rightarrow> js_error + bool" where
  "js_and a b = (case a of Inl e \<Rightarrow> Inl e | Inr x \<Rightarrow> (if x then b else Inr False))"

text \<open>\<^verbatim>\<open>Array.prototype.every\<close> and \<^verbatim>\<open>Array.prototype.forEach\<close> with a callback that may
  raise: the first exception ends the loop; \<open>every\<close> also stops at the first false.\<close>

fun every_e :: "('a \<Rightarrow> js_error + bool) \<Rightarrow> 'a list \<Rightarrow> js_error + bool" where
  "every_e p [] = Inr True"
| "every_e p (x # xs) =
     (case p x of Inl e \<Rightarrow> Inl e | Inr b \<Rightarrow> (if b then every_e p xs else Inr False))"

fun foldE :: "('s \<Rightarrow> 'a \<Rightarrow> js_error + 's) \<Rightarrow> 's \<Rightarrow> 'a list \<Rightarrow> js_error + 's" where
  "foldE f s [] = Inr s"
| "foldE f s (x # xs) = (case f s x of Inl e \<Rightarrow> Inl e | Inr s' \<Rightarrow> foldE f s' xs)"

fun mapE :: "('a \<Rightarrow> js_error + 'b) \<Rightarrow> 'a list \<Rightarrow> js_error + 'b list" where
  "mapE f [] = Inr []"
| "mapE f (x # xs) =
     (case f x of Inl e \<Rightarrow> Inl e
      | Inr y \<Rightarrow> (case mapE f xs of Inl e \<Rightarrow> Inl e | Inr ys \<Rightarrow> Inr (y # ys)))"

fun typeof :: "json \<Rightarrow> string" where
  "typeof JNull = ''object''"
| "typeof (JBool b) = ''boolean''"
| "typeof (JNum r) = ''number''"
| "typeof (JStr s) = ''string''"
| "typeof (JArr xs) = ''object''"
| "typeof (JObj kvs) = ''object''"
| "typeof JUndefined = ''undefined''"

fun isArray :: "json \<Rightarrow> bool" where
  "isArray (JArr xs) = True"
| "isArray v = False"

text \<open>
  \<^verbatim>\<open>key in value\<close>.  On a primitive or on \<^verbatim>\<open>null\<close> the operator raises a TypeError.  On
  an object parsed from JSON it tests the object's keys, and on an array it is false:
  the module only asks for keys that are neither array indices nor properties that
  objects and arrays inherit.
\<close>

fun js_in :: "string \<Rightarrow> json \<Rightarrow> js_error + bool" where
  "js_in k (JObj kvs) = Inr (k \<in> set (map fst kvs))"
| "js_in k (JArr xs) = Inr False"
| "js_in k v = Inl TypeError"

text \<open>
  \<^verbatim>\<open>value.key\<close>, for a value on which \<^verbatim>\<open>key in value\<close> has been evaluated before (every
  property read of the module's parser is guarded that way, so a read never meets
  \<^verbatim>\<open>null\<close>).
\<close>

fun js_get :: "json \<Rightarrow> string \<Rightarrow> json" where
  "js_get (JObj kvs) k = (case map_of kvs k of Some v \<Rightarrow> v | None \<Rightarrow> JUndefined)"
| "js_get v k = JUndefined"

text \<open>The casts of TypeScript (\<^verbatim>\<open>as number[]\<close> and the assignments to typed fields): they
  are applied after the type of the value has been tested.\<close>

fun js_string :: "json \<Rightarrow> string" where
  "js_string (JStr s) = s"
| "js_string v = []"

fun js_number :: "json \<Rightarrow> real" where
  "js_number (JNum r) = r"
| "js_number v = 0"

fun js_bool :: "json \<Rightarrow> bool" where
  "js_bool (JBool b) = b"
| "js_bool v = False"

fun js_array :: "json \<Rightarrow> json list" where
  "js_array (JArr xs) = xs"
| "js_array v = []"

definition js_numbers :: "json \<Rightarrow> real list" where
  "js_numbers v = map js_number (js_array v)"

text \<open>
  Modelled from the spec: \<^verbatim>\<open>checkArrayType\<close> is imported from \<^verbatim>\<open>../shared/util\<close>, which
  is not among the sources.  The specification describes a field as overlaid only when
  it has the exact expected shape (correct primitive type, correct tuple arity): the
  function holds of a value and a type name when the value is an array whose elements
  all have that \<^verbatim>\<open>typeof\<close>.
\<close>

definition checkArrayType :: "json \<Rightarrow> string \<Rightarrow> bool" where
  "checkArrayType v t = (isArray v \<and> list_all (\<lambda>item. typeof item = t) (js_array v))"

text \<open>The guards of the parser.  \<open>in_typeof k raw t\<close> is
  \<^verbatim>\<open>k in raw && typeof raw.k === t\<close>; \<open>in_array k raw\<close> is
  \<^verbatim>\<open>k in raw && Array.isArray(raw.k)\<close>; \<open>in_tuple k raw t n\<close> is
  \<^verbatim>\<open>k in raw && checkArrayType(raw.k, t) && raw.k.length === n\<close>.\<close>

definition in_typeof :: "string \<Rightarrow> json \<Rightarrow> string \<Rightarrow> js_error + bool" where
  "in_typeof k raw t = js_and (js_in k raw) (Inr (typeof (js_get raw k) = t))"

definition in_array :: "string \<Rightarrow> json \<Rightarrow> js_error + bool" where
  "in_array k raw = js_and (js_in k raw) (Inr (isArray (js_get raw k)))"

definition in_tuple :: "string \<Rightarrow> json \<Rightarrow> string \<Rightarrow> nat \<Rightarrow> js_error + bool" where
  "in_tuple k raw t n =
     js_and (js_in k raw)
       (Inr (checkArrayType (js_get raw k) t \<and> length (js_array (js_get raw k)) = n))"

text \<open>A statement \<^verbatim>\<open>if (guard) { assignment }\<close> as a step on the object being built, and
  a sequence of such statements.\<close>

definition when_e :: "js_error + bool \<Rightarrow> ('c \<Rightarrow> 'c) \<Rightarrow> 'c \<Rightarrow> js_error + 'c" where
  "when_e guard assign c = bindE guard (\<lambda>b. Inr (if b then assign c else c))"

definition run_steps :: "'c \<Rightarrow> ('c \<Rightarrow> js_error + 'c) list \<Rightarrow> js_error + 'c" where
  "run_steps c steps = foldE (\<lambda>c step. step c) c steps"

subsection \<open>Strings\<close>

definition startsWith :: "string \<Rightarrow> string \<Rightarrow> bool" where
  "startsWith s p = (take (length p) s = p)"

definition endsWith :: "string \<Rightarrow> string \<Rightarrow> bool" where
  "endsWith s p = (length p \<le> length s \<and> drop (length s - length p) s = p)"

text \<open>\<^verbatim>\<open>s.slice(0, -k)\<close>: the string without its last \<open>k\<close> code units.\<close>

definition slice_end :: "string \<Rightarrow> nat \<Rightarrow> string" where
  "slice_end s k = take (length s - k) s"

definition digit_char :: "nat \<Rightarrow> char" where
  "digit_char d = ''0123456789'' ! d"

text \<open>\<^verbatim>\<open>index.toString()\<close> of an array index: its decimal digits.\<close>

function nat_toString :: "nat \<Rightarrow> string" where
  "nat_toString n =
     (if n < 10 then [digit_char n] else nat_toString (n div 10) @ [digit_char (n mod 10)])"
  by pat_completeness auto
termination
  by (relation "measure (\<lambda>n. n)") auto

declare nat_toString.simps [simp del]

subsection \<open>Percent-encoding\<close>

text \<open>
  \<^verbatim>\<open>encodeURIComponent\<close> keeps the unreserved characters and writes every other code unit
  of the UTF-8 form as \<^verbatim>\<open>%XX\<close> with upper-case hexadecimal digits.
  \<^verbatim>\<open>decodeURIComponent\<close> replaces every \<^verbatim>\<open>%XX\<close> by its code unit and raises a URIError at a
  \<^verbatim>\<open>%\<close> that two hexadecimal digits do not follow.  The built-in also raises when the
  escapes of one character are not its UTF-8 form, where the function below decodes
  each escape on its own.  The two agree on every result of \<^verbatim>\<open>encodeURIComponent\<close> and
  on every string without a percent sign; no other string is decoded by \<^verbatim>\<open>loadAssets\<close>
  unless the leading segment of a path ends in a colon and holds a percent sign.
\<close>

definition unreserved :: "char \<Rightarrow> bool" where
  "unreserved c =
     (c \<in> set ''ABCDEFGHIJKLMNOPQRSTUVWXYZabcdefghijklmnopqrstuvwxyz0123456789-_.!~*'()'')"

definition hex_digit :: "nat \<Rightarrow> char" where
  "hex_digit d = ''0123456789ABCDEF'' ! d"

definition encode_char :: "char \<Rightarrow> string" where
  "encode_char c =
     (if unreserved c then [c]
      else [CHR ''%'', hex_digit (of_char c div 16), hex_digit (of_char c mod 16)])"

definition encodeURIComponent :: "string \<Rightarrow> string" where
  "encodeURIComponent s = concat (map encode_char s)"

definition hex_value :: "char \<Rightarrow> nat option" where
  "hex_value c =
     (let n = of_char c :: nat in
      if 48 \<le> n \<and> n \<le> 57 then Some (n - 48)
      else if 65 \<le> n \<and> n \<le> 70 then Some (n - 55)
      else if 97 \<le> n \<and> n \<le> 102 then Some (n - 87)
      else None)"

definition consE :: "char \<Rightarrow> js_error + string \<Rightarrow> js_error + string" where
  "consE c r = (case r of Inl e \<Rightarrow> Inl e | Inr s \<Rightarrow> Inr (c # s))"

fun decodeURIComponent :: "string \<Rightarrow> js_error + string" where
  "decodeURIComponent [] = Inr []"
| "decodeURIComponent (c # h # l # rest) =
     (if c = CHR ''%'' then
        (case (hex_value h, hex_value l) of
           (Some a, Some b) \<Rightarrow> consE (char_of (16 * a + b)) (decodeURIComponent rest)
         | _ \<Rightarrow> Inl URIError)
      else consE c (decodeURIComponent (h # l # rest)))"
| "decodeURIComponent (c # cs) =
     (if c = CHR ''%'' then Inl URIError else consE c (decodeURIComponent cs))"

subsection \<open>Paths\<close>

text \<open>\<^verbatim>\<open>path.sep\<close> is \<^verbatim>\<open>/\<close> on POSIX and the backslash on Windows.\<close>

datatype platform = posix | win32

fun path_sep :: "platform \<Rightarrow> char" where
  "path_sep posix = CHR ''/''"
| "path_sep win32 = CHR 0x5C"

text \<open>\<^verbatim>\<open>s.split(sep)\<close> and \<^verbatim>\<open>parts.join(sep)\<close> for a separator of one character.\<close>

fun split_sep :: "char \<Rightarrow> string \<Rightarrow> string list" where
  "split_sep sep [] = [[]]"
| "split_sep sep (c # cs) =
     (if c = sep then [] # split_sep sep cs
      else (case split_sep sep cs of [] \<Rightarrow> [[c]] | w # ws \<Rightarrow> (c # w) # ws))"

fun join_sep :: "char \<Rightarrow> string list \<Rightarrow> string" where
  "join_sep sep [] = []"
| "join_sep sep [w] = w"
| "join_sep sep (w # ws) = w @ sep # join_sep sep ws"

text \<open>The callback of \<^verbatim>\<open>map\<close> in \<^verbatim>\<open>encodePath\<close> (lines 666--673), on the pair of the index
  and the component, and \<^verbatim>\<open>encodePath\<close> itself (lines 663--675).\<close>

definition encodePath_component :: "nat \<times> string \<Rightarrow> string" where
  "encodePath_component ic =
     (case ic of (index, component) \<Rightarrow>
        if index = 0 \<and> endsWith component '':'' then component
        else encodeURIComponent component)"

definition encodePath :: "platform \<Rightarrow> string \<Rightarrow> string" where
  "encodePath pf pathStr =
     join_sep (path_sep pf)
       (map encodePath_component (enumerate 0 (split_sep (path_sep pf) pathStr)))"

subsection \<open>Arrays: \<^verbatim>\<open>indexOf\<close>, \<^verbatim>\<open>splice\<close>, \<^verbatim>\<open>sort\<close>\<close>

text \<open>\<^verbatim>\<open>xs.indexOf(x)\<close> is the first index of \<open>x\<close>, or \<open>-1\<close>.  \<^verbatim>\<open>xs.splice(start, 1)\<close>
  removes one element at \<open>start\<close>; a negative \<open>start\<close> counts from the end of the array.\<close>

fun indexOf :: "'a list \<Rightarrow> 'a \<Rightarrow> int" where
  "indexOf [] x = - 1"
| "indexOf (y # ys) x =
     (if y = x then 0 else (let i = indexOf ys x in if i < 0 then - 1 else i + 1))"

definition splice1 :: "int \<Rightarrow> 'a list \<Rightarrow> 'a list" where
  "splice1 start xs =
     (let n = int (length xs);
          k = nat (if start < 0 then max (n + start) 0 else min start n)
      in take k xs @ drop (Suc k) xs)"

text \<open>
  \<^verbatim>\<open>Array.prototype.sort\<close> with a comparator.  ECMAScript fixes the result for a
  consistent comparator: the elements in ascending order of the comparator, equal
  elements in their original order.  Insertion from the left computes that result; the
  comparator is called on the element being inserted and an element already placed, and
  the new element goes before the first one it is less than.
\<close>

fun insert_sorted :: "('a \<Rightarrow> 'a \<Rightarrow> int) \<Rightarrow> 'a \<Rightarrow> 'a list \<Rightarrow> 'a list" where
  "insert_sorted cmp x [] = [x]"
| "insert_sorted cmp x (y # ys) =
     (if cmp x y < 0 then x # y # ys else y # insert_sorted cmp x ys)"

definition js_sort :: "('a \<Rightarrow> 'a \<Rightarrow> int) \<Rightarrow> 'a list \<Rightarrow> 'a list" where
  "js_sort cmp xs = foldl (\<lambda>sorted x. insert_sorted cmp x sorted) [] xs"

section \<open>The data model of \<^verbatim>\<open>AdvantageScopeAssets\<close>\<close>

text \<open>
  The interfaces come from \<^verbatim>\<open>../shared/AdvantageScopeAssets\<close>; the fields are the ones
  the object literals of \<^verbatim>\<open>loadAssets\<close> initialise.  Several interfaces use the same field
  names, so a field is written with its record: \<open>Config2d.name\<close>.  A field that the
  loader only copies from the file (rotation lists, driver stations) keeps the parsed
  value; an optional field is an \<open>option\<close>.
\<close>

record Config2d =
  name :: string
  path :: string
  sourceUrl :: "string option"
  topLeft :: "real list"
  bottomRight :: "real list"
  widthInches :: real
  heightInches :: real
  defaultOrigin :: string

record Config3dField_GamePiece =
  name :: string
  rotations :: json
  position :: "real list"
  stagedObjects :: "string list"

record Config3dField =
  name :: string
  path :: string
  sourceUrl :: "string option"
  rotations :: json
  widthInches :: real
  heightInches :: real
  defaultOrigin :: string
  driverStations :: json
  gamePieces :: "Config3dField_GamePiece list"

record Config3dRobot_Camera =
  name :: string
  rotations :: json
  position :: "real list"
  resolution :: "real list"
  fov :: real

record Config3dRobot_Component =
  zeroedRotations :: json
  zeroedPosition :: "real list"

record Config3dRobot =
  name :: string
  path :: string
  sourceUrl :: "string option"
  rotations :: json
  position :: "real list"
  cameras :: "Config3dRobot_Camera list"
  components :: "Config3dRobot_Component list"
  disableSimplification :: bool

record ConfigJoystick_Button =
  isYellow :: bool
  isEllipse :: bool
  centerPx :: "real list"
  sizePx :: "real list"
  sourceIndex :: real
  sourcePov :: "string option"

record ConfigJoystick_Joystick =
  isYellow :: bool
  centerPx :: "real list"
  radiusPx :: real
  xSourceIndex :: real
  xSourceInverted :: bool
  ySourceIndex :: real
  ySourceInverted :: bool
  buttonSourceIndex :: "real option"

record ConfigJoystick_Axis =
  isYellow :: bool
  centerPx :: "real list"
  sizePx :: "real list"
  sourceIndex :: real
  sourceRange :: "real list"

text \<open>The union type of joystick components; the constructor is the \<^verbatim>\<open>type\<close> field.\<close>

datatype ConfigJoystick_Component =
    Button ConfigJoystick_Button
  | Joystick ConfigJoystick_Joystick
  | Axis ConfigJoystick_Axis

record ConfigJoystick =
  name :: string
  path :: string
  components :: "ConfigJoystick_Component list"

record AdvantageScopeAssets =
  field2ds :: "Config2d list"
  field3ds :: "Config3dField list"
  robots :: "Config3dRobot list"
  joysticks :: "ConfigJoystick list"
  loadFailures :: "string list"

section \<open>The environment: file system, preferences and constants\<close>

text \<open>
  \<open>Dirent\<close> is an entry of \<^verbatim>\<open>fs.readdirSync(folder, {withFileTypes: true})\<close>.  The file
  system is what the loader observes of it: the entries of a folder (\<open>None\<close> when
  \<^verbatim>\<open>readdirSync\<close> raises), whether a path exists, and the value that
  \<^verbatim>\<open>jsonfile.readFileSync\<close> parses from a path (\<open>None\<close> when reading or parsing raises).
  The preferences file is read at the type \<^verbatim>\<open>Preferences\<close> its declaration gives it, of
  which the loader uses \<^verbatim>\<open>userAssetsFolder: string | null\<close>.

  The constants of \<^verbatim>\<open>./Constants\<close> and \<^verbatim>\<open>DEFAULT_DRIVER_STATIONS\<close> are not among the
  sources and are parameters, as are the platform of \<^verbatim>\<open>path\<close>, the normalisation that
  \<^verbatim>\<open>path.join\<close> applies to its result, and the collation of \<^verbatim>\<open>localeCompare\<close>.
\<close>

record Dirent =
  name :: string
  isDirectory :: bool

record Preferences =
  userAssetsFolder :: "string option"

record filesystem =
  readdirSync :: "string \<Rightarrow> Dirent list option"
  existsSync :: "string \<Rightarrow> bool"
  readFileSync :: "string \<Rightarrow> json option"
  readPreferences :: "string \<Rightarrow> Preferences option"

record environment =
  platform_of :: platform
  path_normalize :: "string \<Rightarrow> string"
  AUTO_ASSETS :: string
  BUNDLED_ASSETS :: string
  DEFAULT_USER_ASSETS :: string
  PREFS_FILENAME :: string
  DEFAULT_DRIVER_STATIONS :: json
  localeCompare :: "string \<Rightarrow> string \<Rightarrow> int"

text \<open>\<^verbatim>\<open>path.join(...parts)\<close>: the non-empty parts joined by the separator, then
  normalised; \<^verbatim>\<open>.\<close> when there is no such part.\<close>

definition path_join :: "environment \<Rightarrow> string list \<Rightarrow> string" where
  "path_join env parts =
     (let joined = join_sep (path_sep (platform_of env)) (filter (\<lambda>part. part \<noteq> []) parts)
      in if joined = [] then ''.'' else path_normalize env joined)"

text \<open>\<^verbatim>\<open>getUserAssetsPath\<close> (lines 35--42).\<close>

definition getUserAssetsPath :: "environment \<Rightarrow> filesystem \<Rightarrow> js_error + string" where
  "getUserAssetsPath env fs =
     (case readPreferences fs (PREFS_FILENAME env) of
        None \<Rightarrow> Inl IOError
      | Some prefs \<Rightarrow>
          (case userAssetsFolder prefs of
             None \<Rightarrow> Inr (DEFAULT_USER_ASSETS env)
           | Some folder \<Rightarrow> Inr folder))"


section \<open>The parser: one record per \<^verbatim>\<open>config.json\<close>\<close>

text \<open>
  Each builder starts from the literal of default values and runs the \<^verbatim>\<open>if\<close> statements
  of the source in their order.  The guards that recur:
  \<^item> \<open>is_rotation\<close> is the callback that \<^verbatim>\<open>every\<close> applies to a rotation list (lines
    245--250 and its four copies); \<^verbatim>\<open>typeof null\<close> is \<^verbatim>\<open>"object"\<close>, so the test of
    \<^verbatim>\<open>"axis" in rotation\<close> is reached for \<^verbatim>\<open>null\<close>;
  \<^item> \<open>in_rotations k raw\<close> is
    \<^verbatim>\<open>k in raw && Array.isArray(raw.k) && raw.k.every(is_rotation)\<close>;
  \<^item> \<open>in_typed_array k raw t\<close> is \<^verbatim>\<open>k in raw && checkArrayType(raw.k, t)\<close>;
  \<^item> \<open>in_choice k raw cs\<close> is \<^verbatim>\<open>k in raw && typeof raw.k === "string"\<close> followed by the
    comparison of \<^verbatim>\<open>raw.k\<close> with each string of \<open>cs\<close>.
\<close>

definition is_rotation :: "json \<Rightarrow> js_error + bool" where
  "is_rotation rotation =
     js_and (Inr (typeof rotation = ''object''))
    (js_and (js_in ''axis'' rotation)
    (js_and (Inr (js_get rotation ''axis'' = JStr ''x'' \<or> js_get rotation ''axis'' = JStr ''y''
                   \<or> js_get rotation ''axis'' = JStr ''z''))
    (js_and (js_in ''degrees'' rotation)
            (Inr (typeof (js_get rotation ''degrees'') = ''number'')))))"

definition in_rotations :: "string \<Rightarrow> json \<Rightarrow> js_error + bool" where
  "in_rotations k raw =
     js_and (js_in k raw)
    (js_and (Inr (isArray (js_get raw k)))
            (every_e is_rotation (js_array (js_get raw k))))"

definition in_typed_array :: "string \<Rightarrow> json \<Rightarrow> string \<Rightarrow> js_error + bool" where
  "in_typed_array k raw t = js_and (js_in k raw) (Inr (checkArrayType (js_get raw k) t))"

definition in_choice :: "string \<Rightarrow> json \<Rightarrow> string list \<Rightarrow> js_error + bool" where
  "in_choice k raw cs =
     js_and (in_typeof k raw ''string'') (Inr (js_string (js_get raw k) \<in> set cs))"

text \<open>The guard of \<^verbatim>\<open>driverStations\<close> (lines 270--275).\<close>

definition in_driverStations :: "json \<Rightarrow> js_error + bool" where
  "in_driverStations raw =
     js_and (in_array ''driverStations'' raw)
       (Inr (length (js_array (js_get raw ''driverStations'')) = 6
             \<and> list_all (\<lambda>position. checkArrayType position ''number''
                                      \<and> length (js_array position) = 2)
                   (js_array (js_get raw ''driverStations''))))"

subsection \<open>2D fields (lines 166--209)\<close>

definition build_Config2d ::
  "environment \<Rightarrow> string \<Rightarrow> string \<Rightarrow> json \<Rightarrow> js_error + Config2d" where
  "build_Config2d env parentFolder objectName configRaw =
     run_steps
       \<lparr> Config2d.name = [],
         Config2d.path =
           encodePath (platform_of env) (path_join env [parentFolder, objectName, ''image.png'']),
         Config2d.sourceUrl = None,
         Config2d.topLeft = [- 1, - 1],
         Config2d.bottomRight = [- 1, - 1],
         Config2d.widthInches = 0,
         Config2d.heightInches = 0,
         Config2d.defaultOrigin = ''auto'' \<rparr>
       [ when_e (in_typeof ''name'' configRaw ''string'')
           (\<lambda>config. config\<lparr>Config2d.name := js_string (js_get configRaw ''name'')\<rparr>),
         when_e (in_typeof ''sourceUrl'' configRaw ''string'')
           (\<lambda>config. config\<lparr>Config2d.sourceUrl := Some (js_string (js_get configRaw ''sourceUrl''))\<rparr>),
         when_e (in_tuple ''topLeft'' configRaw ''number'' 2)
           (\<lambda>config. config\<lparr>Config2d.topLeft := js_numbers (js_get configRaw ''topLeft'')\<rparr>),
         when_e (in_tuple ''bottomRight'' configRaw ''number'' 2)
           (\<lambda>config. config\<lparr>Config2d.bottomRight := js_numbers (js_get configRaw ''bottomRight'')\<rparr>),
         when_e (in_typeof ''widthInches'' configRaw ''number'')
           (\<lambda>config. config\<lparr>Config2d.widthInches := js_number (js_get configRaw ''widthInches'')\<rparr>),
         when_e (in_typeof ''heightInches'' configRaw ''number'')
           (\<lambda>config. config\<lparr>Config2d.heightInches := js_number (js_get configRaw ''heightInches'')\<rparr>),
         when_e (in_choice ''defaultOrigin'' configRaw [''auto'', ''red'', ''blue''])
           (\<lambda>config. config\<lparr>Config2d.defaultOrigin := js_string (js_get configRaw ''defaultOrigin'')\<rparr>) ]"

subsection \<open>3D fields (lines 225--315)\<close>

text \<open>The callback of \<^verbatim>\<open>gamePieces.forEach\<close> (lines 279--314).  Its first test,
  \<^verbatim>\<open>"name" in gamePieceRaw\<close>, raises when the element is not an object.\<close>

definition build_GamePiece :: "json \<Rightarrow> js_error + Config3dField_GamePiece" where
  "build_GamePiece gamePieceRaw =
     run_steps
       \<lparr> Config3dField_GamePiece.name = [],
         Config3dField_GamePiece.rotations = JArr [],
         Config3dField_GamePiece.position = [0, 0, 0],
         Config3dField_GamePiece.stagedObjects = [] \<rparr>
       [ when_e (in_typeof ''name'' gamePieceRaw ''string'')
           (\<lambda>gamePiece. gamePiece
              \<lparr>Config3dField_GamePiece.name := js_string (js_get gamePieceRaw ''name'')\<rparr>),
         when_e (in_rotations ''rotations'' gamePieceRaw)
           (\<lambda>gamePiece. gamePiece
              \<lparr>Config3dField_GamePiece.rotations := js_get gamePieceRaw ''rotations''\<rparr>),
         when_e (in_tuple ''position'' gamePieceRaw ''number'' 3)
           (\<lambda>gamePiece. gamePiece
              \<lparr>Config3dField_GamePiece.position := js_numbers (js_get gamePieceRaw ''position'')\<rparr>),
         when_e (in_typed_array ''stagedObjects'' gamePieceRaw ''string'')
           (\<lambda>gamePiece. gamePiece
              \<lparr>Config3dField_GamePiece.stagedObjects :=
                 map js_string (js_array (js_get gamePieceRaw ''stagedObjects''))\<rparr>) ]"

definition build_Config3dField ::
  "environment \<Rightarrow> string \<Rightarrow> string \<Rightarrow> json \<Rightarrow> js_error + Config3dField" where
  "build_Config3dField env parentFolder objectName configRaw =
     run_steps
       \<lparr> Config3dField.name = [],
         Config3dField.path =
           encodePath (platform_of env) (path_join env [parentFolder, objectName, ''model.glb'']),
         Config3dField.sourceUrl = None,
         Config3dField.rotations = JArr [],
         Config3dField.widthInches = 0,
         Config3dField.heightInches = 0,
         Config3dField.defaultOrigin = ''auto'',
         Config3dField.driverStations = DEFAULT_DRIVER_STATIONS env,
         Config3dField.gamePieces = [] \<rparr>
       [ when_e (in_typeof ''name'' configRaw ''string'')
           (\<lambda>config. config\<lparr>Config3dField.name := js_string (js_get configRaw ''name'')\<rparr>),
         when_e (in_typeof ''sourceUrl'' configRaw ''string'')
           (\<lambda>config. config
              \<lparr>Config3dField.sourceUrl := Some (js_string (js_get configRaw ''sourceUrl''))\<rparr>),
         when_e (in_rotations ''rotations'' configRaw)
           (\<lambda>config. config\<lparr>Config3dField.rotations := js_get configRaw ''rotations''\<rparr>),
         when_e (in_typeof ''widthInches'' configRaw ''number'')
           (\<lambda>config. config
              \<lparr>Config3dField.widthInches := js_number (js_get configRaw ''widthInches'')\<rparr>),
         when_e (in_typeof ''heightInches'' configRaw ''number'')
           (\<lambda>config. config
              \<lparr>Config3dField.heightInches := js_number (js_get configRaw ''heightInches'')\<rparr>),
         when_e (in_choice ''defaultOrigin'' configRaw [''auto'', ''red'', ''blue''])
           (\<lambda>config. config
              \<lparr>Config3dField.defaultOrigin := js_string (js_get configRaw ''defaultOrigin'')\<rparr>),
         when_e (in_driverStations configRaw)
           (\<lambda>config. config
              \<lparr>Config3dField.driverStations := js_get configRaw ''driverStations''\<rparr>),
         (\<lambda>config. bindE (in_array ''gamePieces'' configRaw) (\<lambda>isList.
            if isList then
              bindE (mapE build_GamePiece (js_array (js_get configRaw ''gamePieces'')))
                (\<lambda>pieces. Inr (config
                   \<lparr>Config3dField.gamePieces := Config3dField.gamePieces config @ pieces\<rparr>))
            else Inr config)) ]"


subsection \<open>Robots (lines 330--447)\<close>

text \<open>The callbacks of \<^verbatim>\<open>cameras.forEach\<close> (lines 373--416) and \<^verbatim>\<open>components.forEach\<close>
  (lines 419--446).  The statement of lines 345--347 only writes to the console and is
  left out.\<close>

definition build_Camera :: "json \<Rightarrow> js_error + Config3dRobot_Camera" where
  "build_Camera cameraRaw =
     run_steps
       \<lparr> Config3dRobot_Camera.name = [],
         Config3dRobot_Camera.rotations = JArr [],
         Config3dRobot_Camera.position = [0, 0, 0],
         Config3dRobot_Camera.resolution = [200, 100],
         Config3dRobot_Camera.fov = 90 \<rparr>
       [ when_e (in_typeof ''name'' cameraRaw ''string'')
           (\<lambda>camera. camera\<lparr>Config3dRobot_Camera.name := js_string (js_get cameraRaw ''name'')\<rparr>),
         when_e (in_rotations ''rotations'' cameraRaw)
           (\<lambda>camera. camera\<lparr>Config3dRobot_Camera.rotations := js_get cameraRaw ''rotations''\<rparr>),
         when_e (in_tuple ''position'' cameraRaw ''number'' 3)
           (\<lambda>camera. camera
              \<lparr>Config3dRobot_Camera.position := js_numbers (js_get cameraRaw ''position'')\<rparr>),
         when_e (in_tuple ''resolution'' cameraRaw ''number'' 2)
           (\<lambda>camera. camera
              \<lparr>Config3dRobot_Camera.resolution := js_numbers (js_get cameraRaw ''resolution'')\<rparr>),
         when_e (in_typeof ''fov'' cameraRaw ''number'')
           (\<lambda>camera. camera\<lparr>Config3dRobot_Camera.fov := js_number (js_get cameraRaw ''fov'')\<rparr>) ]"

definition build_Component :: "json \<Rightarrow> js_error + Config3dRobot_Component" where
  "build_Component componentRaw =
     run_steps
       \<lparr> Config3dRobot_Component.zeroedRotations = JArr [],
         Config3dRobot_Component.zeroedPosition = [0, 0, 0] \<rparr>
       [ when_e (in_rotations ''zeroedRotations'' componentRaw)
           (\<lambda>component. component
              \<lparr>Config3dRobot_Component.zeroedRotations := js_get componentRaw ''zeroedRotations''\<rparr>),
         when_e (in_tuple ''zeroedPosition'' componentRaw ''number'' 3)
           (\<lambda>component. component
              \<lparr>Config3dRobot_Component.zeroedPosition :=
                 js_numbers (js_get componentRaw ''zeroedPosition'')\<rparr>) ]"

definition build_Config3dRobot ::
  "environment \<Rightarrow> string \<Rightarrow> string \<Rightarrow> json \<Rightarrow> js_error + Config3dRobot" where
  "build_Config3dRobot env parentFolder objectName configRaw =
     run_steps
       \<lparr> Config3dRobot.name = [],
         Config3dRobot.path =
           encodePath (platform_of env) (path_join env [parentFolder, objectName, ''model.glb'']),
         Config3dRobot.sourceUrl = None,
         Config3dRobot.rotations = JArr [],
         Config3dRobot.position = [0, 0, 0],
         Config3dRobot.cameras = [],
         Config3dRobot.components = [],
         Config3dRobot.disableSimplification = False \<rparr>
       [ when_e (in_typeof ''name'' configRaw ''string'')
           (\<lambda>config. config\<lparr>Config3dRobot.name := js_string (js_get configRaw ''name'')\<rparr>),
         when_e (in_typeof ''sourceUrl'' configRaw ''string'')
           (\<lambda>config. config
              \<lparr>Config3dRobot.sourceUrl := Some (js_string (js_get configRaw ''sourceUrl''))\<rparr>),
         when_e (in_typeof ''disableSimplification'' configRaw ''boolean'')
           (\<lambda>config. config
              \<lparr>Config3dRobot.disableSimplification :=
                 js_bool (js_get configRaw ''disableSimplification'')\<rparr>),
         when_e (in_rotations ''rotations'' configRaw)
           (\<lambda>config. config\<lparr>Config3dRobot.rotations := js_get configRaw ''rotations''\<rparr>),
         when_e (in_tuple ''position'' configRaw ''number'' 3)
           (\<lambda>config. config\<lparr>Config3dRobot.position := js_numbers (js_get configRaw ''position'')\<rparr>),
         (\<lambda>config. bindE (in_array ''cameras'' configRaw) (\<lambda>isList.
            if isList then
              bindE (mapE build_Camera (js_array (js_get configRaw ''cameras'')))
                (\<lambda>built. Inr (config
                   \<lparr>Config3dRobot.cameras := Config3dRobot.cameras config @ built\<rparr>))
            else Inr config)),
         (\<lambda>config. bindE (in_array ''components'' configRaw) (\<lambda>isList.
            if isList then
              bindE (mapE build_Component (js_array (js_get configRaw ''components'')))
                (\<lambda>built. Inr (config
                   \<lparr>Config3dRobot.components := Config3dRobot.components config @ built\<rparr>))
            else Inr config)) ]"

subsection \<open>Joysticks (lines 461--584)\<close>

text \<open>The three cases of the \<^verbatim>\<open>switch\<close> on \<^verbatim>\<open>componentRaw.type\<close>, each given the values
  of \<^verbatim>\<open>isYellow\<close> and \<^verbatim>\<open>centerPx\<close> read before it.\<close>

definition build_Button :: "bool \<Rightarrow> real list \<Rightarrow> json \<Rightarrow> js_error + ConfigJoystick_Button" where
  "build_Button yellow center componentRaw =
     run_steps
       \<lparr> ConfigJoystick_Button.isYellow = yellow,
         ConfigJoystick_Button.isEllipse = False,
         ConfigJoystick_Button.centerPx = center,
         ConfigJoystick_Button.sizePx = [0, 0],
         ConfigJoystick_Button.sourceIndex = - 1,
         ConfigJoystick_Button.sourcePov = None \<rparr>
       [ when_e (in_typeof ''isEllipse'' componentRaw ''boolean'')
           (\<lambda>b. b\<lparr>ConfigJoystick_Button.isEllipse := js_bool (js_get componentRaw ''isEllipse'')\<rparr>),
         when_e (in_tuple ''sizePx'' componentRaw ''number'' 2)
           (\<lambda>b. b\<lparr>ConfigJoystick_Button.sizePx := js_numbers (js_get componentRaw ''sizePx'')\<rparr>),
         when_e (in_typeof ''sourceIndex'' componentRaw ''number'')
           (\<lambda>b. b\<lparr>ConfigJoystick_Button.sourceIndex := js_number (js_get componentRaw ''sourceIndex'')\<rparr>),
         when_e (in_choice ''sourcePov'' componentRaw [''up'', ''right'', ''down'', ''left''])
           (\<lambda>b. b\<lparr>ConfigJoystick_Button.sourcePov :=
                     Some (js_string (js_get componentRaw ''sourcePov''))\<rparr>) ]"

definition build_Joystick ::
  "bool \<Rightarrow> real list \<Rightarrow> json \<Rightarrow> js_error + ConfigJoystick_Joystick" where
  "build_Joystick yellow center componentRaw =
     run_steps
       \<lparr> ConfigJoystick_Joystick.isYellow = yellow,
         ConfigJoystick_Joystick.centerPx = center,
         ConfigJoystick_Joystick.radiusPx = 0,
         ConfigJoystick_Joystick.xSourceIndex = - 1,
         ConfigJoystick_Joystick.xSourceInverted = False,
         ConfigJoystick_Joystick.ySourceIndex = - 1,
         ConfigJoystick_Joystick.ySourceInverted = False,
         ConfigJoystick_Joystick.buttonSourceIndex = None \<rparr>
       [ when_e (in_typeof ''radiusPx'' componentRaw ''number'')
           (\<lambda>j. j\<lparr>ConfigJoystick_Joystick.radiusPx := js_number (js_get componentRaw ''radiusPx'')\<rparr>),
         when_e (in_typeof ''xSourceIndex'' componentRaw ''number'')
           (\<lambda>j. j\<lparr>ConfigJoystick_Joystick.xSourceIndex :=
                     js_number (js_get componentRaw ''xSourceIndex'')\<rparr>),
         when_e (in_typeof ''xSourceInverted'' componentRaw ''boolean'')
           (\<lambda>j. j\<lparr>ConfigJoystick_Joystick.xSourceInverted :=
                     js_bool (js_get componentRaw ''xSourceInverted'')\<rparr>),
         when_e (in_typeof ''ySourceIndex'' componentRaw ''number'')
           (\<lambda>j. j\<lparr>ConfigJoystick_Joystick.ySourceIndex :=
                     js_number (js_get componentRaw ''ySourceIndex'')\<rparr>),
         when_e (in_typeof ''ySourceInverted'' componentRaw ''boolean'')
           (\<lambda>j. j\<lparr>ConfigJoystick_Joystick.ySourceInverted :=
                     js_bool (js_get componentRaw ''ySourceInverted'')\<rparr>),
         when_e (in_typeof ''buttonSourceIndex'' componentRaw ''number'')
           (\<lambda>j. j\<lparr>ConfigJoystick_Joystick.buttonSourceIndex :=
                     Some (js_number (js_get componentRaw ''buttonSourceIndex''))\<rparr>) ]"

definition build_Axis :: "bool \<Rightarrow> real list \<Rightarrow> json \<Rightarrow> js_error + ConfigJoystick_Axis" where
  "build_Axis yellow center componentRaw =
     run_steps
       \<lparr> ConfigJoystick_Axis.isYellow = yellow,
         ConfigJoystick_Axis.centerPx = center,
         ConfigJoystick_Axis.sizePx = [0, 0],
         ConfigJoystick_Axis.sourceIndex = - 1,
         ConfigJoystick_Axis.sourceRange = [- 1, 1] \<rparr>
       [ when_e (in_tuple ''sizePx'' componentRaw ''number'' 2)
           (\<lambda>a. a\<lparr>ConfigJoystick_Axis.sizePx := js_numbers (js_get componentRaw ''sizePx'')\<rparr>),
         when_e (in_typeof ''sourceIndex'' componentRaw ''number'')
           (\<lambda>a. a\<lparr>ConfigJoystick_Axis.sourceIndex := js_number (js_get componentRaw ''sourceIndex'')\<rparr>),
         when_e (in_tuple ''sourceRange'' componentRaw ''number'' 2)
           (\<lambda>a. a\<lparr>ConfigJoystick_Axis.sourceRange :=
                     js_numbers (js_get componentRaw ''sourceRange'')\<rparr>) ]"

text \<open>The callback of \<^verbatim>\<open>components.forEach\<close> (lines 470--583): \<open>None\<close> when nothing is
  pushed, which is when \<^verbatim>\<open>type\<close> is absent, not a string, or none of the three cases.\<close>

definition build_JoystickComponent :: "json \<Rightarrow> js_error + ConfigJoystick_Component option" where
  "build_JoystickComponent componentRaw =
     bindE (in_typeof ''isYellow'' componentRaw ''boolean'') (\<lambda>hasYellow.
     bindE (in_tuple ''centerPx'' componentRaw ''number'' 2) (\<lambda>hasCenter.
     bindE (in_typeof ''type'' componentRaw ''string'') (\<lambda>hasType.
       let yellow = (if hasYellow then js_bool (js_get componentRaw ''isYellow'') else False);
           center = (if hasCenter then js_numbers (js_get componentRaw ''centerPx'') else [0, 0]);
           kind = js_string (js_get componentRaw ''type'')
       in if \<not> hasType then Inr None
          else if kind = ''button'' then
            bindE (build_Button yellow center componentRaw) (\<lambda>b. Inr (Some (Button b)))
          else if kind = ''joystick'' then
            bindE (build_Joystick yellow center componentRaw) (\<lambda>j. Inr (Some (Joystick j)))
          else if kind = ''axis'' then
            bindE (build_Axis yellow center componentRaw) (\<lambda>a. Inr (Some (Axis a)))
          else Inr None)))"

definition build_ConfigJoystick ::
  "environment \<Rightarrow> string \<Rightarrow> string \<Rightarrow> json \<Rightarrow> js_error + ConfigJoystick" where
  "build_ConfigJoystick env parentFolder objectName configRaw =
     run_steps
       \<lparr> ConfigJoystick.name = [],
         ConfigJoystick.path =
           encodePath (platform_of env) (path_join env [parentFolder, objectName, ''image.png'']),
         ConfigJoystick.components = [] \<rparr>
       [ when_e (in_typeof ''name'' configRaw ''string'')
           (\<lambda>config. config\<lparr>ConfigJoystick.name := js_string (js_get configRaw ''name'')\<rparr>),
         (\<lambda>config. bindE (in_array ''components'' configRaw) (\<lambda>isList.
            if isList then
              bindE (mapE build_JoystickComponent (js_array (js_get configRaw ''components'')))
                (\<lambda>built. Inr (config
                   \<lparr>ConfigJoystick.components :=
                      ConfigJoystick.components config @ List.map_filter (\<lambda>c. c) built\<rparr>))
            else Inr config)) ]"


section \<open>Admission\<close>

text \<open>
  The conditions of the four \<^verbatim>\<open>if\<close> statements that push a record (lines 210--219,
  316--324, 448--455 and 585--598).  The conjuncts are evaluated from left to right, so
  \<^verbatim>\<open>decodeURIComponent\<close>, which may raise, is called only when the conjuncts before it
  hold.  \<open>existsDecoded\<close> is \<^verbatim>\<open>fs.existsSync(decodeURIComponent(path))\<close>, and
  \<open>existsAuxiliary\<close> is the callback of \<^verbatim>\<open>every\<close> on game pieces and robot components:
  \<^verbatim>\<open>fs.existsSync(decodeURIComponent(path).slice(0, -4) + "_" + index.toString() + ".glb")\<close>.
\<close>

definition existsDecoded :: "filesystem \<Rightarrow> string \<Rightarrow> js_error + bool" where
  "existsDecoded fs encoded = bindE (decodeURIComponent encoded) (\<lambda>p. Inr (existsSync fs p))"

definition auxiliaryPath :: "string \<Rightarrow> nat \<Rightarrow> string" where
  "auxiliaryPath p index = slice_end p 4 @ ''_'' @ nat_toString index @ ''.glb''"

definition existsAuxiliary :: "filesystem \<Rightarrow> string \<Rightarrow> nat \<times> 'a \<Rightarrow> js_error + bool" where
  "existsAuxiliary fs encoded iv =
     bindE (decodeURIComponent encoded) (\<lambda>p. Inr (existsSync fs (auxiliaryPath p (fst iv))))"

definition admit_Config2d :: "filesystem \<Rightarrow> Config2d \<Rightarrow> js_error + bool" where
  "admit_Config2d fs config =
     js_and (Inr (Config2d.name config \<noteq> []
                  \<and> Config2d.topLeft config ! 0 \<ge> 0
                  \<and> Config2d.topLeft config ! 1 \<ge> 0
                  \<and> Config2d.bottomRight config ! 0 \<ge> 0
                  \<and> Config2d.bottomRight config ! 1 \<ge> 0
                  \<and> Config2d.widthInches config > 0
                  \<and> Config2d.heightInches config > 0))
            (existsDecoded fs (Config2d.path config))"

definition admit_Config3dField :: "filesystem \<Rightarrow> Config3dField \<Rightarrow> js_error + bool" where
  "admit_Config3dField fs config =
     js_and (Inr (Config3dField.name config \<noteq> []
                  \<and> Config3dField.widthInches config > 0
                  \<and> Config3dField.heightInches config > 0))
    (js_and (existsDecoded fs (Config3dField.path config))
            (every_e (existsAuxiliary fs (Config3dField.path config))
               (enumerate 0 (Config3dField.gamePieces config))))"

definition admit_Config3dRobot :: "filesystem \<Rightarrow> Config3dRobot \<Rightarrow> js_error + bool" where
  "admit_Config3dRobot fs config =
     js_and (Inr (Config3dRobot.name config \<noteq> []
                  \<and> list_all (\<lambda>camera. Config3dRobot_Camera.name camera \<noteq> [])
                       (Config3dRobot.cameras config)))
    (js_and (existsDecoded fs (Config3dRobot.path config))
            (every_e (existsAuxiliary fs (Config3dRobot.path config))
               (enumerate 0 (Config3dRobot.components config))))"

text \<open>The callback of \<^verbatim>\<open>every\<close> on joystick components (lines 587--596).\<close>

fun component_ok :: "ConfigJoystick_Component \<Rightarrow> bool" where
  "component_ok (Button component) =
     (ConfigJoystick_Button.sizePx component ! 0 > 0
      \<and> ConfigJoystick_Button.sizePx component ! 1 > 0
      \<and> ConfigJoystick_Button.sourceIndex component \<ge> 0)"
| "component_ok (Joystick component) =
     (ConfigJoystick_Joystick.radiusPx component > 0
      \<and> ConfigJoystick_Joystick.xSourceIndex component \<ge> 0
      \<and> ConfigJoystick_Joystick.ySourceIndex component \<ge> 0)"
| "component_ok (Axis component) =
     (ConfigJoystick_Axis.sizePx component ! 0 > 0
      \<and> ConfigJoystick_Axis.sizePx component ! 1 > 0
      \<and> ConfigJoystick_Axis.sourceIndex component \<ge> 0)"

definition admit_ConfigJoystick :: "filesystem \<Rightarrow> ConfigJoystick \<Rightarrow> js_error + bool" where
  "admit_ConfigJoystick fs config =
     js_and (Inr (ConfigJoystick.name config \<noteq> []
                  \<and> list_all component_ok (ConfigJoystick.components config)))
            (existsDecoded fs (ConfigJoystick.path config))"

section \<open>\<^verbatim>\<open>loadAssets\<close> (lines 133--658)\<close>

text \<open>\<^verbatim>\<open>assets.loadFailures.splice(assets.loadFailures.indexOf(object.name), 1)\<close>.\<close>

definition remove_failure :: "string \<Rightarrow> string list \<Rightarrow> string list" where
  "remove_failure objectName failures = splice1 (indexOf failures objectName) failures"

text \<open>
  The callback of the inner \<^verbatim>\<open>forEach\<close> (lines 146--603) on one directory entry, as a
  step on the assets collected so far.  Every \<^verbatim>\<open>return\<close> of the callback is a branch
  that gives the assets back; an exception of a builder or of an admission condition is
  not caught and ends the step with \<open>Inl\<close>.
\<close>

definition visit ::
  "environment \<Rightarrow> filesystem \<Rightarrow> string \<Rightarrow> AdvantageScopeAssets \<Rightarrow> Dirent
     \<Rightarrow> js_error + AdvantageScopeAssets" where
  "visit env fs parentFolder assets0 object =
     (if \<not> Dirent.isDirectory object \<or> startsWith (Dirent.name object) ''.'' then Inr assets0
      else
        let assets = assets0\<lparr>loadFailures := loadFailures assets0 @ [Dirent.name object]\<rparr>;
            isField2d = startsWith (Dirent.name object) ''Field2d_'';
            isField3d = startsWith (Dirent.name object) ''Field3d_'';
            isRobot = startsWith (Dirent.name object) ''Robot_'';
            isJoystick = startsWith (Dirent.name object) ''Joystick_'';
            configPath = path_join env [parentFolder, Dirent.name object, ''config.json'']
        in
          if \<not> existsSync fs configPath then Inr assets
          else
            (case readFileSync fs configPath of
               None \<Rightarrow> Inr assets
             | Some configRaw \<Rightarrow>
                 if configRaw = JNull \<or> typeof configRaw \<noteq> ''object'' then Inr assets
                 else if isField2d then
                   bindE (build_Config2d env parentFolder (Dirent.name object) configRaw)
                     (\<lambda>config. bindE (admit_Config2d fs config) (\<lambda>admitted.
                        Inr (if admitted then
                               assets\<lparr>field2ds := field2ds assets @ [config],
                                      loadFailures :=
                                        remove_failure (Dirent.name object) (loadFailures assets)\<rparr>
                             else assets)))
                 else if isField3d then
                   bindE (build_Config3dField env parentFolder (Dirent.name object) configRaw)
                     (\<lambda>config. bindE (admit_Config3dField fs config) (\<lambda>admitted.
                        Inr (if admitted then
                               assets\<lparr>field3ds := field3ds assets @ [config],
                                      loadFailures :=
                                        remove_failure (Dirent.name object) (loadFailures assets)\<rparr>
                             else assets)))
                 else if isRobot then
                   bindE (build_Config3dRobot env parentFolder (Dirent.name object) configRaw)
                     (\<lambda>config. bindE (admit_Config3dRobot fs config) (\<lambda>admitted.
                        Inr (if admitted then
                               assets\<lparr>robots := robots assets @ [config],
                                      loadFailures :=
                                        remove_failure (Dirent.name object) (loadFailures assets)\<rparr>
                             else assets)))
                 else if isJoystick then
                   bindE (build_ConfigJoystick env parentFolder (Dirent.name object) configRaw)
                     (\<lambda>config. bindE (admit_ConfigJoystick fs config) (\<lambda>admitted.
                        Inr (if admitted then
                               assets\<lparr>joysticks := joysticks assets @ [config],
                                      loadFailures :=
                                        remove_failure (Dirent.name object) (loadFailures assets)\<rparr>
                             else assets)))
                 else Inr assets))"

text \<open>The comparator of line 145 (descending names) and the callback of the outer
  \<^verbatim>\<open>forEach\<close> (lines 143--604) on one parent folder.\<close>

definition compare_entries :: "Dirent \<Rightarrow> Dirent \<Rightarrow> int" where
  "compare_entries a b =
     (if Dirent.name a < Dirent.name b then 1
      else if Dirent.name a > Dirent.name b then - 1 else 0)"

definition scan_folder ::
  "environment \<Rightarrow> filesystem \<Rightarrow> AdvantageScopeAssets \<Rightarrow> string
     \<Rightarrow> js_error + AdvantageScopeAssets" where
  "scan_folder env fs assets parentFolder =
     (case readdirSync fs parentFolder of
        None \<Rightarrow> Inl IOError
      | Some entries \<Rightarrow> foldE (visit env fs parentFolder) assets (js_sort compare_entries entries))"

text \<open>Removal of duplicate names (lines 606--634): the callback of each of the four
  \<^verbatim>\<open>forEach\<close> loops, for the field \<open>name\<close> of the kind, and the loop.\<close>

definition push_unique :: "('a \<Rightarrow> string) \<Rightarrow> 'a list \<Rightarrow> 'a \<Rightarrow> 'a list" where
  "push_unique name_of uniqueAssets asset =
     (if find (\<lambda>other. name_of other = name_of asset) uniqueAssets = None
      then uniqueAssets @ [asset] else uniqueAssets)"

definition unique_names :: "('a \<Rightarrow> string) \<Rightarrow> 'a list \<Rightarrow> 'a list" where
  "unique_names name_of assets = foldl (push_unique name_of) [] assets"

definition unique_assets :: "AdvantageScopeAssets \<Rightarrow> AdvantageScopeAssets" where
  "unique_assets assets =
     \<lparr> field2ds = unique_names Config2d.name (field2ds assets),
       field3ds = unique_names Config3dField.name (field3ds assets),
       robots = unique_names Config3dRobot.name (robots assets),
       joysticks = unique_names ConfigJoystick.name (joysticks assets),
       loadFailures = loadFailures assets \<rparr>"

text \<open>The comparators of lines 639--643 (2D fields) and of lines 646 and 652 (3D fields
  and joysticks), and the sorting block (lines 637--656).\<close>

definition compare_field2ds :: "Config2d \<Rightarrow> Config2d \<Rightarrow> int" where
  "compare_field2ds a b =
     (if Config2d.name a = ''Evergreen'' then 1
      else if Config2d.name b = ''Evergreen'' then - 1
      else if Config2d.name a > Config2d.name b then - 1
      else if Config2d.name b > Config2d.name a then 1 else 0)"

definition compare_names :: "string \<Rightarrow> string \<Rightarrow> int" where
  "compare_names a b = (if a > b then - 1 else if b > a then 1 else 0)"

definition sort_assets :: "environment \<Rightarrow> AdvantageScopeAssets \<Rightarrow> AdvantageScopeAssets" where
  "sort_assets env assets =
     \<lparr> field2ds = js_sort compare_field2ds (field2ds assets),
       field3ds =
         js_sort (\<lambda>a b. compare_names (Config3dField.name a) (Config3dField.name b))
           (field3ds assets),
       robots =
         js_sort (\<lambda>a b. localeCompare env (Config3dRobot.name a) (Config3dRobot.name b))
           (robots assets),
       joysticks =
         js_sort (\<lambda>a b. compare_names (ConfigJoystick.name a) (ConfigJoystick.name b))
           (joysticks assets),
       loadFailures = js_sort (localeCompare env) (loadFailures assets) \<rparr>"

definition empty_assets :: AdvantageScopeAssets where
  "empty_assets =
     \<lparr> field2ds = [], field3ds = [], robots = [], joysticks = [], loadFailures = [] \<rparr>"

definition scan_all :: "environment \<Rightarrow> filesystem \<Rightarrow> js_error + AdvantageScopeAssets" where
  "scan_all env fs =
     bindE (getUserAssetsPath env fs) (\<lambda>userAssets.
       foldE (scan_folder env fs) empty_assets
         [userAssets, AUTO_ASSETS env, BUNDLED_ASSETS env])"

definition loadAssets :: "environment \<Rightarrow> filesystem \<Rightarrow> js_error + AdvantageScopeAssets" where
  "loadAssets env fs =
     bindE (scan_all env fs) (\<lambda>assets. Inr (sort_assets env (unique_assets assets)))"

section \<open>Notions used to state the properties\<close>

text \<open>
  A candidate is an entry that the callback does not skip at line 147.  The entries of
  a folder are listed in the order of the visit, and the three folders in the order of
  line 143.  The contribution of an entry is what the callback does with it on an
  empty collection: the record it pushes, or the failure it leaves.
\<close>

definition is_candidate :: "Dirent \<Rightarrow> bool" where
  "is_candidate d = (Dirent.isDirectory d \<and> \<not> startsWith (Dirent.name d) ''.'')"

definition folder_entries :: "filesystem \<Rightarrow> string \<Rightarrow> Dirent list" where
  "folder_entries fs parentFolder =
     (case readdirSync fs parentFolder of
        None \<Rightarrow> []
      | Some entries \<Rightarrow> js_sort compare_entries entries)"

definition user_folder :: "environment \<Rightarrow> filesystem \<Rightarrow> string" where
  "user_folder env fs = (case getUserAssetsPath env fs of Inl e \<Rightarrow> [] | Inr folder \<Rightarrow> folder)"

definition scan_order :: "environment \<Rightarrow> filesystem \<Rightarrow> (string \<times> Dirent) list" where
  "scan_order env fs =
     map (Pair (user_folder env fs)) (folder_entries fs (user_folder env fs))
     @ map (Pair (AUTO_ASSETS env)) (folder_entries fs (AUTO_ASSETS env))
     @ map (Pair (BUNDLED_ASSETS env)) (folder_entries fs (BUNDLED_ASSETS env))"

definition contribution ::
  "environment \<Rightarrow> filesystem \<Rightarrow> string \<Rightarrow> Dirent \<Rightarrow> AdvantageScopeAssets" where
  "contribution env fs parentFolder d =
     (case visit env fs parentFolder empty_assets d of
        Inl e \<Rightarrow> empty_assets
      | Inr assets \<Rightarrow> assets)"

text \<open>What the entries of one folder contribute to a field of the collection, in the
  order of the visit, and the same over the three folders in their order of priority.\<close>

definition folder_records ::
  "(AdvantageScopeAssets \<Rightarrow> 'a list) \<Rightarrow> environment \<Rightarrow> filesystem \<Rightarrow> string \<Rightarrow> 'a list" where
  "folder_records field env fs parentFolder =
     concat (map (\<lambda>d. field (contribution env fs parentFolder d))
       (folder_entries fs parentFolder))"

definition scanned ::
  "(AdvantageScopeAssets \<Rightarrow> 'a list) \<Rightarrow> environment \<Rightarrow> filesystem \<Rightarrow> 'a list" where
  "scanned field env fs =
     folder_records field env fs (user_folder env fs)
     @ folder_records field env fs (AUTO_ASSETS env)
     @ folder_records field env fs (BUNDLED_ASSETS env)"

definition record_count :: "AdvantageScopeAssets \<Rightarrow> nat" where
  "record_count assets =
     length (field2ds assets) + length (field3ds assets)
     + length (robots assets) + length (joysticks assets)"

text \<open>The descriptor of a candidate: \<^verbatim>\<open>config.json\<close> exists in its folder, is read and
  parsed without an exception, and the parsed value passes the test of line 162.\<close>

definition has_config ::
  "environment \<Rightarrow> filesystem \<Rightarrow> string \<Rightarrow> Dirent \<Rightarrow> json \<Rightarrow> bool" where
  "has_config env fs parentFolder d configRaw =
     (existsSync fs (path_join env [parentFolder, Dirent.name d, ''config.json''])
      \<and> readFileSync fs (path_join env [parentFolder, Dirent.name d, ''config.json''])
            = Some configRaw
      \<and> configRaw \<noteq> JNull \<and> typeof configRaw = ''object'')"

text \<open>The two results of the callback on a candidate: its name stays in the failure
  list, or a record is pushed and one occurrence of the name is removed.\<close>

definition fail_candidate :: "Dirent \<Rightarrow> AdvantageScopeAssets \<Rightarrow> AdvantageScopeAssets" where
  "fail_candidate d assets = assets\<lparr>loadFailures := loadFailures assets @ [Dirent.name d]\<rparr>"

definition clear_candidate :: "Dirent \<Rightarrow> AdvantageScopeAssets \<Rightarrow> AdvantageScopeAssets" where
  "clear_candidate d assets =
     assets\<lparr>loadFailures := remove1 (Dirent.name d) (loadFailures assets @ [Dirent.name d])\<rparr>"

text \<open>A step from \<open>a\<close> to \<open>a'\<close> appends the records of \<open>r\<close> and adds the failures of
  \<open>r\<close> (the failure list as a multiset: \<^verbatim>\<open>splice\<close> removes the first occurrence of a
  name, which need not be the one just pushed).\<close>

definition framed ::
  "AdvantageScopeAssets \<Rightarrow> AdvantageScopeAssets \<Rightarrow> AdvantageScopeAssets \<Rightarrow> bool" where
  "framed a r a' =
     (field2ds a' = field2ds a @ field2ds r
      \<and> field3ds a' = field3ds a @ field3ds r
      \<and> robots a' = robots a @ robots r
      \<and> joysticks a' = joysticks a @ joysticks r
      \<and> mset (loadFailures a') = mset (loadFailures a) + mset (loadFailures r))"

text \<open>The contributions of a list of entries of one folder, gathered field by field.\<close>

definition gathered ::
  "environment \<Rightarrow> filesystem \<Rightarrow> string \<Rightarrow> Dirent list \<Rightarrow> AdvantageScopeAssets" where
  "gathered env fs parentFolder ds =
     \<lparr> field2ds = concat (map (\<lambda>d. field2ds (contribution env fs parentFolder d)) ds),
       field3ds = concat (map (\<lambda>d. field3ds (contribution env fs parentFolder d)) ds),
       robots = concat (map (\<lambda>d. robots (contribution env fs parentFolder d)) ds),
       joysticks = concat (map (\<lambda>d. joysticks (contribution env fs parentFolder d)) ds),
       loadFailures = concat (map (\<lambda>d. loadFailures (contribution env fs parentFolder d)) ds) \<rparr>"

text \<open>The order of the sorted 2D fields: \<open>a\<close> may stand before \<open>b\<close> when \<open>a\<close> is not
  \<^verbatim>\<open>Evergreen\<close> and \<open>b\<close> is \<^verbatim>\<open>Evergreen\<close> or a smaller name.\<close>

definition evergreen_last :: "string \<Rightarrow> string \<Rightarrow> bool" where
  "evergreen_last a b = (a \<noteq> ''Evergreen'' \<and> (b = ''Evergreen'' \<or> b < a))"

text \<open>First-seen-wins over the three folders: the names of the result are distinct, and
  the record of a name is the first one of that name in the user folder, else in the
  automatic folder, else in the bundled folder.\<close>

definition first_wins ::
  "('a \<Rightarrow> string) \<Rightarrow> 'a list \<Rightarrow> 'a list \<Rightarrow> 'a list \<Rightarrow> 'a list \<Rightarrow> bool" where
  "first_wins name_of fromUser fromAuto fromBundled result =
     (distinct (map name_of result)
      \<and> (\<forall>n. find (\<lambda>other. name_of other = n) result =
            (case find (\<lambda>other. name_of other = n) fromUser of
               Some c \<Rightarrow> Some c
             | None \<Rightarrow>
                 (case find (\<lambda>other. name_of other = n) fromAuto of
                    Some c \<Rightarrow> Some c
                  | None \<Rightarrow> find (\<lambda>other. name_of other = n) fromBundled))))"

text \<open>First-seen-wins over the scanned records in their order: the names of the result
  are distinct, and the record of a name is the first scanned one of that name.  A
  scanned record is then in the result if and only if no earlier scanned record has its
  name.\<close>

definition first_scanned_kept :: "('a \<Rightarrow> string) \<Rightarrow> 'a list \<Rightarrow> 'a list \<Rightarrow> bool" where
  "first_scanned_kept name_of found result =
     (distinct (map name_of result)
      \<and> (\<forall>n. find (\<lambda>other. name_of other = n) result
              = find (\<lambda>other. name_of other = n) found))"

text \<open>A path whose leading segment, if it ends in a colon, holds no percent sign.  The
  paths of the loader are absolute: their leading segment is empty or a drive letter.
  \<^verbatim>\<open>encodePath\<close> leaves such a segment as it is, and \<^verbatim>\<open>decodeURIComponent\<close> maps the
  encoded path back to the path.\<close>

definition plain_drive :: "platform \<Rightarrow> string \<Rightarrow> bool" where
  "plain_drive pf pathStr =
     (endsWith (hd (split_sep (path_sep pf) pathStr)) '':''
        \<longrightarrow> CHR ''%'' \<notin> set (hd (split_sep (path_sep pf) pathStr)))"

text \<open>The inverse direction, used to state the round trip: percent-decoding applied to
  every segment of an encoded path except a leading drive letter, the segments joined
  again by the separator.\<close>

definition decodePath_component :: "nat \<times> string \<Rightarrow> js_error + string" where
  "decodePath_component ic =
     (case ic of (index, component) \<Rightarrow>
        if index = 0 \<and> endsWith component '':'' then Inr component
        else decodeURIComponent component)"

definition decodePath :: "platform \<Rightarrow> string \<Rightarrow> js_error + string" where
  "decodePath pf s =
     bindE (mapE decodePath_component (enumerate 0 (split_sep (path_sep pf) s)))
       (\<lambda>parts. Inr (join_sep (path_sep pf) parts))"


section \<open>Concrete environments\<close>

text \<open>
  A POSIX environment with the three asset folders \<^verbatim>\<open>/user\<close>, \<^verbatim>\<open>/auto\<close> and
  \<^verbatim>\<open>/bundled\<close>, and file systems given by their folders, their parsed descriptors and
  the files that exist.  They are the inputs of the examples that follow the theorems.
\<close>

definition test_env :: environment where
  "test_env =
     \<lparr> platform_of = posix,
       path_normalize = (\<lambda>p. p),
       AUTO_ASSETS = ''/auto'',
       BUNDLED_ASSETS = ''/bundled'',
       DEFAULT_USER_ASSETS = ''/user'',
       PREFS_FILENAME = ''/prefs.json'',
       DEFAULT_DRIVER_STATIONS = JArr [],
       localeCompare = (\<lambda>a b. if a < b then - 1 else if b < a then 1 else 0) \<rparr>"

definition directory :: "string \<Rightarrow> Dirent" where
  "directory n = \<lparr> Dirent.name = n, Dirent.isDirectory = True \<rparr>"

definition test_fs ::
  "(string \<times> Dirent list) list \<Rightarrow> (string \<times> json) list \<Rightarrow> string list \<Rightarrow> filesystem" where
  "test_fs folders descriptors files =
     \<lparr> readdirSync = map_of folders,
       existsSync = (\<lambda>p. p \<in> set files),
       readFileSync = map_of descriptors,
       readPreferences = (\<lambda>p. Some \<lparr> userAssetsFolder = None \<rparr>) \<rparr>"

text \<open>A descriptor of a 2D field that passes every test of the admission.\<close>

definition field2d_descriptor :: "string \<Rightarrow> json" where
  "field2d_descriptor n =
     JObj [(''name'', JStr n), (''topLeft'', JArr [JNum 0, JNum 0]),
           (''bottomRight'', JArr [JNum 100, JNum 50]),
           (''widthInches'', JNum 648), (''heightInches'', JNum 324)]"

definition field2d_record :: "string \<Rightarrow> string \<Rightarrow> Config2d" where
  "field2d_record n imagePath =
     \<lparr> Config2d.name = n, Config2d.path = imagePath, Config2d.sourceUrl = None,
       Config2d.topLeft = [0, 0], Config2d.bottomRight = [100, 50],
       Config2d.widthInches = 648, Config2d.heightInches = 324,
       Config2d.defaultOrigin = ''auto'' \<rparr>"

text \<open>Two folders of the user assets whose descriptors give the same display name.\<close>

definition fs_same_name :: filesystem where
  "fs_same_name =
     test_fs
       [(''/user'', [directory ''Field2d_A'', directory ''Field2d_B'']),
        (''/auto'', []), (''/bundled'', [])]
       [(''/user/Field2d_A/config.json'', field2d_descriptor ''Field''),
        (''/user/Field2d_B/config.json'', field2d_descriptor ''Field'')]
       [''/user/Field2d_A/config.json'', ''/user/Field2d_A/image.png'',
        ''/user/Field2d_B/config.json'', ''/user/Field2d_B/image.png'']"

text \<open>A folder whose name has none of the four prefixes.\<close>

definition fs_other_folder :: filesystem where
  "fs_other_folder =
     test_fs
       [(''/user'', [directory ''Notes'']), (''/auto'', []), (''/bundled'', [])]
       [] []"

text \<open>Three 2D fields named \<^verbatim>\<open>Alpha\<close>, \<^verbatim>\<open>Evergreen\<close> and \<^verbatim>\<open>Zeta\<close>.\<close>

definition fs_three_fields :: filesystem where
  "fs_three_fields =
     test_fs
       [(''/user'', [directory ''Field2d_A'', directory ''Field2d_E'', directory ''Field2d_Z'']),
        (''/auto'', []), (''/bundled'', [])]
       [(''/user/Field2d_A/config.json'', field2d_descriptor ''Alpha''),
        (''/user/Field2d_E/config.json'', field2d_descriptor ''Evergreen''),
        (''/user/Field2d_Z/config.json'', field2d_descriptor ''Zeta'')]
       [''/user/Field2d_A/config.json'', ''/user/Field2d_A/image.png'',
        ''/user/Field2d_E/config.json'', ''/user/Field2d_E/image.png'',
        ''/user/Field2d_Z/config.json'', ''/user/Field2d_Z/image.png'']"

text \<open>A valid 2D field beside a 3D field whose \<^verbatim>\<open>gamePieces\<close> holds a number.\<close>

definition fs_number_piece :: filesystem where
  "fs_number_piece =
     test_fs
       [(''/user'', [directory ''Field2d_A'', directory ''Field3d_X'']),
        (''/auto'', []), (''/bundled'', [])]
       [(''/user/Field2d_A/config.json'', field2d_descriptor ''Alpha''),
        (''/user/Field3d_X/config.json'', JObj [(''name'', JStr ''X''), (''gamePieces'', JArr [JNum 5])])]
       [''/user/Field2d_A/config.json'', ''/user/Field2d_A/image.png'',
        ''/user/Field3d_X/config.json'', ''/user/Field3d_X/model.glb'']"

text \<open>
  Assets in all three folders.  The user folder holds a 2D field named \<^verbatim>\<open>Field\<close>, a
  folder without prefix, a hidden folder, a plain file and a joystick folder without
  descriptor.  The automatic folder holds another 2D field named \<^verbatim>\<open>Field\<close> and one
  whose image is missing.  The bundled folder holds the 2D field \<^verbatim>\<open>Evergreen\<close>.
\<close>

definition fs_layers :: filesystem where
  "fs_layers =
     test_fs
       [(''/user'', [directory ''Field2d_A'', directory ''Notes'', directory ''.git'',
                     \<lparr> Dirent.name = ''README.txt'', Dirent.isDirectory = False \<rparr>,
                     directory ''Joystick_Bad'']),
        (''/auto'', [directory ''Field2d_B'', directory ''Field2d_Old'']),
        (''/bundled'', [directory ''Field2d_E''])]
       [(''/user/Field2d_A/config.json'', field2d_descriptor ''Field''),
        (''/auto/Field2d_B/config.json'', field2d_descriptor ''Field''),
        (''/auto/Field2d_Old/config.json'', field2d_descriptor ''Old''),
        (''/bundled/Field2d_E/config.json'', field2d_descriptor ''Evergreen'')]
       [''/user/Field2d_A/config.json'', ''/user/Field2d_A/image.png'',
        ''/auto/Field2d_B/config.json'', ''/auto/Field2d_B/image.png'',
        ''/auto/Field2d_Old/config.json'',
        ''/bundled/Field2d_E/config.json'', ''/bundled/Field2d_E/image.png'']"

definition layers_loaded :: AdvantageScopeAssets where
  "layers_loaded =
     \<lparr> field2ds = [field2d_record ''Field'' ''/user/Field2d_A/image.png'',
                   field2d_record ''Evergreen'' ''/bundled/Field2d_E/image.png''],
       field3ds = [], robots = [], joysticks = [],
       loadFailures = [''Field2d_Old'', ''Joystick_Bad'', ''Notes''] \<rparr>"

text \<open>
  Assets of every kind in the user folder: a 3D field with two game pieces and both
  auxiliary models; a robot with one component whose auxiliary model is missing; a
  joystick without components; a joystick with a button of size \<^verbatim>\<open>[0, 5]\<close>; a joystick
  whose two components have no recognised type; a 2D field without \<^verbatim>\<open>topLeft\<close>; a
  valid 2D field; and a 3D field without game pieces and a robot without components,
  each with its primary model only.
\<close>

definition fs_models :: filesystem where
  "fs_models =
     test_fs
       [(''/user'', [directory ''Field3d_F'', directory ''Robot_R'', directory ''Joystick_J'',
                     directory ''Joystick_K'', directory ''Joystick_L'', directory ''Field2d_U'',
                     directory ''Field2d_A'', directory ''Field3d_G'', directory ''Robot_S'']),
        (''/auto'', []), (''/bundled'', [])]
       [(''/user/Field3d_F/config.json'',
           JObj [(''name'', JStr ''F''), (''widthInches'', JNum 100), (''heightInches'', JNum 50),
                 (''gamePieces'', JArr [JObj [(''name'', JStr ''ball'')], JObj []])]),
        (''/user/Robot_R/config.json'',
           JObj [(''name'', JStr ''R''), (''cameras'', JArr [JObj [(''name'', JStr ''front'')]]),
                 (''components'', JArr [JObj []])]),
        (''/user/Joystick_J/config.json'', JObj [(''name'', JStr ''J'')]),
        (''/user/Joystick_K/config.json'',
           JObj [(''name'', JStr ''K''),
                 (''components'',
                    JArr [JObj [(''type'', JStr ''button''), (''sizePx'', JArr [JNum 0, JNum 5]),
                                (''sourceIndex'', JNum 1)]])]),
        (''/user/Joystick_L/config.json'',
           JObj [(''name'', JStr ''L''),
                 (''components'', JArr [JObj [(''type'', JStr ''slider'')], JObj []])]),
        (''/user/Field2d_U/config.json'',
           JObj [(''name'', JStr ''U''), (''bottomRight'', JArr [JNum 100, JNum 50]),
                 (''widthInches'', JNum 648), (''heightInches'', JNum 324)]),
        (''/user/Field2d_A/config.json'', field2d_descriptor ''Alpha''),
        (''/user/Field3d_G/config.json'',
           JObj [(''name'', JStr ''G''), (''widthInches'', JNum 100), (''heightInches'', JNum 50)]),
        (''/user/Robot_S/config.json'', JObj [(''name'', JStr ''S'')])]
       [''/user/Field3d_F/config.json'', ''/user/Field3d_F/model.glb'',
        ''/user/Field3d_F/model_0.glb'', ''/user/Field3d_F/model_1.glb'',
        ''/user/Robot_R/config.json'', ''/user/Robot_R/model.glb'',
        ''/user/Joystick_J/config.json'', ''/user/Joystick_J/image.png'',
        ''/user/Joystick_K/config.json'', ''/user/Joystick_K/image.png'',
        ''/user/Joystick_L/config.json'', ''/user/Joystick_L/image.png'',
        ''/user/Field2d_U/config.json'', ''/user/Field2d_U/image.png'',
        ''/user/Field2d_A/config.json'', ''/user/Field2d_A/image.png'',
        ''/user/Field3d_G/config.json'', ''/user/Field3d_G/model.glb'',
        ''/user/Robot_S/config.json'', ''/user/Robot_S/model.glb'']"


section \<open>Auxiliary lemmas\<close>

subsection \<open>Splitting, joining and percent-encoding\<close>

lemma join_sep_Cons: "ws \<noteq> [] \<Longrightarrow> join_sep sep (w # ws) = w @ sep # join_sep sep ws"
  by (cases ws) auto

lemma split_sep_nonempty: "split_sep sep s \<noteq> []"
  by (induction s) (auto split: list.splits)

lemma join_split_sep: "join_sep sep (split_sep sep s) = s"
proof (induction s)
  case Nil show ?case by simp
next
  case (Cons c cs)
  obtain w ws where sp: "split_sep sep cs = w # ws"
    using split_sep_nonempty [of sep cs] by (cases "split_sep sep cs") auto
  show ?case
  proof (cases "c = sep")
    case True
    then show ?thesis using Cons sp by (simp add: join_sep_Cons)
  next
    case False
    then show ?thesis using Cons sp by (cases ws) auto
  qed
qed

lemma split_sep_no_sep: "w \<in> set (split_sep sep s) \<Longrightarrow> sep \<notin> set w"
  by (induction s arbitrary: w) (auto split: list.splits if_splits)

lemma split_sep_plain: "sep \<notin> set w \<Longrightarrow> split_sep sep w = [w]"
  by (induction w) auto

lemma split_sep_append:
  "sep \<notin> set w \<Longrightarrow> split_sep sep (w @ sep # s) = w # split_sep sep s"
  by (induction w) auto

lemma split_join_sep:
  "ws \<noteq> [] \<Longrightarrow> \<forall>w \<in> set ws. sep \<notin> set w \<Longrightarrow> split_sep sep (join_sep sep ws) = ws"
proof (induction ws)
  case Nil then show ?case by simp
next
  case (Cons w ws)
  show ?case
  proof (cases ws)
    case Nil
    then show ?thesis using Cons.prems by (simp add: split_sep_plain)
  next
    case (Cons v vs)
    then show ?thesis using Cons.IH Cons.prems by (simp add: split_sep_append)
  qed
qed

lemma of_char_lt_256: "of_char c < (256::nat)"
  by (metis of_char_mod_256 mod_less_divisor zero_less_numeral)

lemma lt16_cases:
  "d < (16::nat) \<Longrightarrow> d \<in> {0, 1, 2, 3, 4, 5, 6, 7, 8, 9, 10, 11, 12, 13, 14, 15}"
  by simp arith

lemma hex_value_hex_digit: "d < 16 \<Longrightarrow> hex_value (hex_digit d) = Some d"
  using lt16_cases [of d] by (auto simp: hex_value_def hex_digit_def)

lemma hex_digit_not_percent: "d < 16 \<Longrightarrow> hex_digit d \<noteq> CHR ''%''"
  using lt16_cases [of d] by (auto simp: hex_digit_def)

lemma decode_cons_plain:
  "c \<noteq> CHR ''%'' \<Longrightarrow> decodeURIComponent (c # cs) = consE c (decodeURIComponent cs)"
  by (cases cs rule: decodeURIComponent.cases) auto

lemma unreserved_not_percent: "unreserved c \<Longrightarrow> c \<noteq> CHR ''%''"
  by (auto simp: unreserved_def)

lemma char_of_nibbles: "char_of (16 * (of_char c div 16) + of_char c mod (16::nat)) = c"
  by simp

lemma decode_encode_char:
  "decodeURIComponent (encode_char c @ rest) = consE c (decodeURIComponent rest)"
proof (cases "unreserved c")
  case True
  then show ?thesis
    by (simp add: encode_char_def decode_cons_plain unreserved_not_percent)
next
  case False
  have hi: "of_char c div 16 < (16::nat)" using of_char_lt_256 [of c] by arith
  have lo: "of_char c mod 16 < (16::nat)" by simp
  show ?thesis using False
    by (simp add: encode_char_def hex_value_hex_digit [OF hi] hex_value_hex_digit [OF lo]
        char_of_nibbles)
qed

lemma decode_encode: "decodeURIComponent (encodeURIComponent s) = Inr s"
  by (induction s) (simp_all add: encodeURIComponent_def decode_encode_char consE_def)


lemma hex_digit_unreserved: "d < 16 \<Longrightarrow> unreserved (hex_digit d)"
  using lt16_cases [of d] by (auto simp: hex_digit_def unreserved_def)

lemma encode_char_alphabet:
  "x \<in> set (encode_char c) \<Longrightarrow> unreserved x \<or> x = CHR ''%''"
proof -
  assume x: "x \<in> set (encode_char c)"
  have hi: "of_char c div 16 < (16::nat)" using of_char_lt_256 [of c] by arith
  have lo: "of_char c mod 16 < (16::nat)" by simp
  show ?thesis
    using x hex_digit_unreserved [OF hi] hex_digit_unreserved [OF lo]
    by (auto simp: encode_char_def split: if_splits)
qed

lemma encodeURIComponent_alphabet:
  "x \<in> set (encodeURIComponent s) \<Longrightarrow> unreserved x \<or> x = CHR ''%''"
  by (auto simp: encodeURIComponent_def dest: encode_char_alphabet)

lemma encodeURIComponent_append:
  "encodeURIComponent (a @ b) = encodeURIComponent a @ encodeURIComponent b"
  by (simp add: encodeURIComponent_def)

lemma encodeURIComponent_space: "encodeURIComponent '' '' = ''%20''"
  by (simp add: encodeURIComponent_def encode_char_def unreserved_def hex_digit_def)

lemma encodeURIComponent_hash: "encodeURIComponent ''#'' = ''%23''"
  by (simp add: encodeURIComponent_def encode_char_def unreserved_def hex_digit_def)

lemma path_sep_reserved: "\<not> unreserved (path_sep pf) \<and> path_sep pf \<noteq> CHR ''%''"
  by (cases pf) (auto simp: unreserved_def)

lemma endsWith_colon: "endsWith s '':'' \<Longrightarrow> CHR '':'' \<in> set s"
proof -
  assume "endsWith s '':''"
  then have "drop (length s - 1) s = '':''" and "1 \<le> length s"
    by (auto simp: endsWith_def)
  then have "CHR '':'' \<in> set (drop (length s - 1) s)" by simp
  then show ?thesis by (rule in_set_dropD)
qed

lemma encoded_not_drive: "\<not> endsWith (encodeURIComponent s) '':''"
proof
  assume "endsWith (encodeURIComponent s) '':''"
  then have "CHR '':'' \<in> set (encodeURIComponent s)" by (rule endsWith_colon)
  then show False by (auto dest!: encodeURIComponent_alphabet simp: unreserved_def)
qed

lemma encodePath_component_no_sep:
  "sep \<notin> set seg \<Longrightarrow> \<not> unreserved sep \<Longrightarrow> sep \<noteq> CHR ''%'' \<Longrightarrow>
   sep \<notin> set (encodePath_component (i, seg))"
  by (auto simp: encodePath_component_def dest: encodeURIComponent_alphabet)

lemma split_encodePath:
  "split_sep (path_sep pf) (encodePath pf p) =
     map encodePath_component (enumerate 0 (split_sep (path_sep pf) p))"
  unfolding encodePath_def
proof (rule split_join_sep)
  show "map encodePath_component (enumerate 0 (split_sep (path_sep pf) p)) \<noteq> []"
    by (metis length_enumerate length_0_conv length_map split_sep_nonempty)
  show "\<forall>w\<in>set (map encodePath_component (enumerate 0 (split_sep (path_sep pf) p))).
          path_sep pf \<notin> set w"
  proof
    fix w assume "w \<in> set (map encodePath_component (enumerate 0 (split_sep (path_sep pf) p)))"
    then obtain i seg where mem: "(i, seg) \<in> set (enumerate 0 (split_sep (path_sep pf) p))"
      and w: "w = encodePath_component (i, seg)" by auto
    from mem have "seg \<in> set (split_sep (path_sep pf) p)" by (auto simp: in_set_enumerate_eq)
    then have "path_sep pf \<notin> set seg" by (rule split_sep_no_sep)
    then show "path_sep pf \<notin> set w"
      using w path_sep_reserved [of pf] by (simp add: encodePath_component_no_sep)
  qed
qed

lemma decode_component_roundtrip:
  "decodePath_component (i, encodePath_component (i, seg)) = Inr seg"
  by (simp add: decodePath_component_def encodePath_component_def encoded_not_drive
      decode_encode)

lemma mapE_decode_components:
  "mapE decodePath_component (enumerate n (map encodePath_component (enumerate n segs)))
     = Inr segs"
  by (induction segs arbitrary: n) (simp_all add: decode_component_roundtrip)

lemma decodePath_encodePath: "decodePath pf (encodePath pf p) = Inr p"
  by (simp add: decodePath_def split_encodePath mapE_decode_components bindE_def
      join_split_sep)

lemma encoded_segments_clean:
  assumes "(i, seg) \<in> set (enumerate 0 (split_sep (path_sep pf) (encodePath pf p)))"
    and "\<not> (i = 0 \<and> endsWith seg '':'')"
  shows "CHR '' '' \<notin> set seg \<and> CHR ''#'' \<notin> set seg"
proof -
  let ?segs = "split_sep (path_sep pf) p"
  from assms(1) have i: "i < length ?segs" and seg: "seg = encodePath_component (i, ?segs ! i)"
    by (auto simp: split_encodePath in_set_enumerate_eq nth_enumerate_eq)
  from seg assms(2) have "seg = encodeURIComponent (?segs ! i)"
    by (auto simp: encodePath_component_def split: if_splits)
  then show ?thesis
    by (auto dest!: encodeURIComponent_alphabet simp: unreserved_def)
qed

subsection \<open>Sorting, removal and duplicate names\<close>

lemma mset_insert_sorted: "mset (insert_sorted cmp x xs) = add_mset x (mset xs)"
  by (induction xs) auto

lemma mset_sort_fold:
  "mset (foldl (\<lambda>sorted x. insert_sorted cmp x sorted) acc xs) = mset acc + mset xs"
  by (induction xs arbitrary: acc) (auto simp: mset_insert_sorted)

lemma mset_js_sort: "mset (js_sort cmp xs) = mset xs"
  by (simp add: js_sort_def mset_sort_fold)

lemma set_js_sort: "set (js_sort cmp xs) = set xs"
  by (metis mset_js_sort set_mset_mset)

lemma sorted_wrt_insert_sorted:
  assumes "transp R" and "sorted_wrt R ys"
    and "\<And>y. y \<in> set ys \<Longrightarrow> cmp x y < 0 \<Longrightarrow> R x y"
    and "\<And>y. y \<in> set ys \<Longrightarrow> \<not> cmp x y < 0 \<Longrightarrow> R y x"
  shows "sorted_wrt R (insert_sorted cmp x ys)"
  using assms(2-)
proof (induction ys)
  case Nil then show ?case by simp
next
  case (Cons y ys)
  show ?case
  proof (cases "cmp x y < 0")
    case True
    then have xy: "R x y" using Cons.prems by simp
    have "\<forall>z \<in> set ys. R x z"
    proof
      fix z assume "z \<in> set ys"
      then have "R y z" using Cons.prems(1) by simp
      with xy show "R x z" using assms(1) by (meson transpD)
    qed
    with True xy Cons.prems(1) show ?thesis by simp
  next
    case False
    then have yx: "R y x" using Cons.prems by simp
    have "sorted_wrt R (insert_sorted cmp x ys)"
      using Cons.IH Cons.prems by simp
    moreover have "\<forall>z \<in> set (insert_sorted cmp x ys). R y z"
    proof
      fix z assume "z \<in> set (insert_sorted cmp x ys)"
      then have "z \<in># mset (insert_sorted cmp x ys)" by simp
      then have "z = x \<or> z \<in> set ys" by (simp add: mset_insert_sorted)
      then show "R y z" using yx Cons.prems(1) by auto
    qed
    ultimately show ?thesis using False by simp
  qed
qed

subsection \<open>indexOf and splice\<close>

lemma indexOf_range: "- 1 \<le> indexOf xs x \<and> indexOf xs x < int (length xs)"
  by (induction xs) (auto simp: Let_def)

lemma indexOf_member: "x \<in> set xs \<Longrightarrow> 0 \<le> indexOf xs x"
  by (induction xs) (auto simp: Let_def)

lemma splice1_Cons_0: "splice1 0 (y # ys) = ys"
  by (simp add: splice1_def)

lemma splice1_Cons_Suc:
  "0 \<le> i \<Longrightarrow> splice1 (i + 1) (y # ys) = y # splice1 i ys"
  by (auto simp: splice1_def Let_def nat_add_distrib min_def)

lemma splice1_indexOf: "x \<in> set xs \<Longrightarrow> splice1 (indexOf xs x) xs = remove1 x xs"
proof (induction xs)
  case Nil then show ?case by simp
next
  case (Cons y ys)
  show ?case
  proof (cases "y = x")
    case True then show ?thesis by (simp add: splice1_Cons_0)
  next
    case False
    then have mem: "x \<in> set ys" using Cons.prems by simp
    then have "0 \<le> indexOf ys x" by (rule indexOf_member)
    then show ?thesis using False Cons.IH [OF mem]
      by (simp add: Let_def splice1_Cons_Suc)
  qed
qed

lemma remove_failure_pushed:
  "remove_failure n (failures @ [n]) = remove1 n (failures @ [n])"
  by (simp add: remove_failure_def splice1_indexOf)

lemma mset_remove_failure_pushed: "mset (remove_failure n (failures @ [n])) = mset failures"
  by (simp add: remove_failure_pushed)

subsection \<open>Deduplication\<close>

lemma find_append_cases:
  "find P (xs @ ys) = (case find P xs of None \<Rightarrow> find P ys | Some x \<Rightarrow> Some x)"
  by (induction xs) auto

lemma find_unique_fold:
  "find (\<lambda>other. name_of other = n) (foldl (push_unique name_of) acc xs)
     = find (\<lambda>other. name_of other = n) (acc @ xs)"
proof (induction xs arbitrary: acc)
  case Nil then show ?case by simp
next
  case (Cons x xs)
  show ?case
  proof (cases "find (\<lambda>other. name_of other = name_of x) acc")
    case None
    then show ?thesis using Cons.IH [of "acc @ [x]"] by (simp add: push_unique_def)
  next
    case (Some y)
    then have y: "name_of y = name_of x" "y \<in> set acc"
      by (auto simp: find_Some_iff)
    have "find (\<lambda>other. name_of other = n) (acc @ x # xs)
        = find (\<lambda>other. name_of other = n) (acc @ xs)"
    proof (cases "find (\<lambda>other. name_of other = n) acc")
      case None
      then have "name_of x \<noteq> n" using y by (auto simp: find_None_iff)
      then show ?thesis using None by (simp add: find_append_cases)
    next
      case (Some z) then show ?thesis by (simp add: find_append_cases)
    qed
    then show ?thesis using Some Cons.IH [of acc] by (simp add: push_unique_def)
  qed
qed

lemma find_unique_names:
  "find (\<lambda>other. name_of other = n) (unique_names name_of xs)
     = find (\<lambda>other. name_of other = n) xs"
  by (simp add: unique_names_def find_unique_fold)

lemma distinct_unique_fold:
  "distinct (map name_of acc) \<Longrightarrow> distinct (map name_of (foldl (push_unique name_of) acc xs))"
proof (induction xs arbitrary: acc)
  case Nil then show ?case by simp
next
  case (Cons x xs)
  have "distinct (map name_of (push_unique name_of acc x))"
    using Cons.prems by (auto simp: push_unique_def find_None_iff)
  then show ?case using Cons.IH by simp
qed

lemma distinct_unique_names: "distinct (map name_of (unique_names name_of xs))"
  by (simp add: unique_names_def distinct_unique_fold)

lemma set_unique_fold:
  "set (foldl (push_unique name_of) acc xs) \<subseteq> set acc \<union> set xs"
proof (induction xs arbitrary: acc)
  case Nil then show ?case by simp
next
  case (Cons x xs)
  have "set (push_unique name_of acc x) \<subseteq> set acc \<union> {x}" by (auto simp: push_unique_def)
  then show ?case using Cons.IH [of "push_unique name_of acc x"] by auto
qed

lemma set_unique_names: "set (unique_names name_of xs) \<subseteq> set xs"
  using set_unique_fold [of name_of "[]" xs] by (simp add: unique_names_def)

lemma find_name_in_set:
  "find (\<lambda>other. name_of other = n) xs = None \<longleftrightarrow> n \<notin> name_of ` set xs"
  by (auto simp: find_None_iff)

lemma names_unique_names: "name_of ` set (unique_names name_of xs) = name_of ` set xs"
proof -
  have "\<And>n. n \<in> name_of ` set (unique_names name_of xs) \<longleftrightarrow> n \<in> name_of ` set xs"
    using find_unique_names [of name_of _ xs] find_name_in_set [of name_of]
    by metis
  then show ?thesis by blast
qed

text \<open>With distinct names, looking a name up does not depend on the order.\<close>

lemma find_distinct_name:
  assumes "distinct (map name_of xs)" and "x \<in> set xs"
  shows "find (\<lambda>other. name_of other = name_of x) xs = Some x"
  using assms
proof (induction xs)
  case Nil then show ?case by simp
next
  case (Cons y ys) then show ?case by (auto simp: image_iff)
qed

lemma find_permuted:
  assumes "distinct (map name_of xs)" and "mset ys = mset xs"
  shows "find (\<lambda>other. name_of other = n) ys = find (\<lambda>other. name_of other = n) xs"
proof -
  have "mset (map name_of ys) = mset (map name_of xs)" using assms(2) by simp
  then have dy: "distinct (map name_of ys)"
    using assms(1) mset_eq_imp_distinct_iff by blast
  have s: "set ys = set xs" using assms(2) by (rule mset_eq_setD)
  show ?thesis
  proof (cases "find (\<lambda>other. name_of other = n) xs")
    case None
    then have "find (\<lambda>other. name_of other = n) ys = None"
      using s by (simp add: find_None_iff)
    with None show ?thesis by simp
  next
    case (Some x)
    then have "x \<in> set xs" "name_of x = n" by (auto simp: find_Some_iff)
    then show ?thesis using Some find_distinct_name [OF dy, of x] s by simp
  qed
qed

lemma set_insert_sorted: "set (insert_sorted cmp x xs) = insert x (set xs)"
  by (induction xs) auto

lemma distinct_insert_sorted: "distinct (insert_sorted cmp x xs) \<longleftrightarrow> x \<notin> set xs \<and> distinct xs"
  by (induction xs) (auto simp: set_insert_sorted)

lemma sorted_sort_fold:
  assumes "transp R"
    and "\<And>x y. x \<in> set (acc @ xs) \<Longrightarrow> y \<in> set (acc @ xs) \<Longrightarrow> x \<noteq> y \<Longrightarrow>
           (cmp x y < 0 \<longrightarrow> R x y) \<and> (\<not> cmp x y < 0 \<longrightarrow> R y x)"
    and "distinct (acc @ xs)" and "sorted_wrt R acc"
  shows "sorted_wrt R (foldl (\<lambda>sorted x. insert_sorted cmp x sorted) acc xs)"
  using assms(2-)
proof (induction xs arbitrary: acc)
  case Nil then show ?case by simp
next
  case (Cons x xs)
  have ins: "sorted_wrt R (insert_sorted cmp x acc)"
  proof (rule sorted_wrt_insert_sorted [OF assms(1) Cons.prems(3)])
    fix y assume y: "y \<in> set acc" and lt: "cmp x y < 0"
    then have "x \<noteq> y" using Cons.prems(2) by auto
    then show "R x y" using Cons.prems(1) [of x y] y lt by simp
  next
    fix y assume y: "y \<in> set acc" and ge: "\<not> cmp x y < 0"
    then have "x \<noteq> y" using Cons.prems(2) by auto
    then show "R y x" using Cons.prems(1) [of x y] y ge by simp
  qed
  have "sorted_wrt R (foldl (\<lambda>sorted x. insert_sorted cmp x sorted) (insert_sorted cmp x acc) xs)"
  proof (rule Cons.IH)
    show "distinct (insert_sorted cmp x acc @ xs)"
      using Cons.prems(2) by (auto simp: distinct_insert_sorted set_insert_sorted)
    show "sorted_wrt R (insert_sorted cmp x acc)" by (rule ins)
    fix a b assume "a \<in> set (insert_sorted cmp x acc @ xs)" "b \<in> set (insert_sorted cmp x acc @ xs)"
      "a \<noteq> b"
    then show "(cmp a b < 0 \<longrightarrow> R a b) \<and> (\<not> cmp a b < 0 \<longrightarrow> R b a)"
      using Cons.prems(1) [of a b] by (auto simp: set_insert_sorted)
  qed
  then show ?case by simp
qed

lemma sorted_js_sort:
  assumes "transp R" and "distinct xs"
    and "\<And>x y. x \<in> set xs \<Longrightarrow> y \<in> set xs \<Longrightarrow> x \<noteq> y \<Longrightarrow>
           (cmp x y < 0 \<longrightarrow> R x y) \<and> (\<not> cmp x y < 0 \<longrightarrow> R y x)"
  shows "sorted_wrt R (js_sort cmp xs)"
  unfolding js_sort_def
  by (rule sorted_sort_fold [OF assms(1)]) (use assms in auto)

lemma transp_evergreen_last: "transp (\<lambda>a b. evergreen_last (Config2d.name a) (Config2d.name b))"
  by (rule transpI) (auto simp: evergreen_last_def)

lemma compare_field2ds_order:
  assumes "Config2d.name x \<noteq> Config2d.name y"
  shows "(compare_field2ds x y < 0 \<longrightarrow> evergreen_last (Config2d.name x) (Config2d.name y))
       \<and> (\<not> compare_field2ds x y < 0 \<longrightarrow> evergreen_last (Config2d.name y) (Config2d.name x))"
  using assms by (auto simp: compare_field2ds_def evergreen_last_def)

lemma distinct_names_imp:
  "distinct (map name_of xs) \<Longrightarrow> distinct xs \<and> (\<forall>x \<in> set xs. \<forall>y \<in> set xs. x \<noteq> y \<longrightarrow> name_of x \<noteq> name_of y)"
  by (auto simp: distinct_map inj_on_def)

subsection \<open>One directory entry\<close>

lemma remove_failure_single: "remove_failure n [n] = []"
  using remove_failure_pushed [of n "[]"] by simp

lemma startsWith_hd: "startsWith s p \<Longrightarrow> p \<noteq> [] \<Longrightarrow> s \<noteq> [] \<and> hd s = hd p"
  by (cases s; cases p) (auto simp: startsWith_def)

lemma prefixes_exclusive:
  "startsWith s ''Field3d_'' \<Longrightarrow> \<not> startsWith s ''Field2d_''"
  "startsWith s ''Robot_'' \<Longrightarrow> \<not> startsWith s ''Field2d_'' \<and> \<not> startsWith s ''Field3d_''"
  "startsWith s ''Joystick_'' \<Longrightarrow>
     \<not> startsWith s ''Field2d_'' \<and> \<not> startsWith s ''Field3d_'' \<and> \<not> startsWith s ''Robot_''"
proof -
  show "startsWith s ''Field3d_'' \<Longrightarrow> \<not> startsWith s ''Field2d_''"
    by (auto simp: startsWith_def)
  show "startsWith s ''Robot_'' \<Longrightarrow> \<not> startsWith s ''Field2d_'' \<and> \<not> startsWith s ''Field3d_''"
    using startsWith_hd [of s "''Robot_''"] startsWith_hd [of s "''Field2d_''"]
      startsWith_hd [of s "''Field3d_''"] by auto
  show "startsWith s ''Joystick_'' \<Longrightarrow>
     \<not> startsWith s ''Field2d_'' \<and> \<not> startsWith s ''Field3d_'' \<and> \<not> startsWith s ''Robot_''"
    using startsWith_hd [of s "''Joystick_''"] startsWith_hd [of s "''Field2d_''"]
      startsWith_hd [of s "''Field3d_''"] startsWith_hd [of s "''Robot_''"] by auto
qed

lemma visit_skip: "\<not> is_candidate d \<Longrightarrow> visit env fs p a d = Inr a"
  by (auto simp: visit_def is_candidate_def)

lemma visit_no_config:
  assumes "is_candidate d" and "\<And>raw. \<not> has_config env fs p d raw"
  shows "visit env fs p a d = Inr (fail_candidate d a)"
proof (cases "existsSync fs (path_join env [p, Dirent.name d, ''config.json''])")
  case False
  then show ?thesis using assms(1)
    by (simp add: visit_def is_candidate_def fail_candidate_def Let_def)
next
  case ex: True
  show ?thesis
  proof (cases "readFileSync fs (path_join env [p, Dirent.name d, ''config.json''])")
    case None
    then show ?thesis using assms(1) ex
      by (simp add: visit_def is_candidate_def fail_candidate_def Let_def)
  next
    case (Some raw)
    then have "raw = JNull \<or> typeof raw \<noteq> ''object''"
      using assms(2) [of raw] ex by (auto simp: has_config_def)
    then show ?thesis using assms(1) ex Some
      by (simp add: visit_def is_candidate_def fail_candidate_def Let_def)
  qed
qed

lemma visit_unclassified:
  assumes "is_candidate d"
    and "\<not> startsWith (Dirent.name d) ''Field2d_''" and "\<not> startsWith (Dirent.name d) ''Field3d_''"
    and "\<not> startsWith (Dirent.name d) ''Robot_''" and "\<not> startsWith (Dirent.name d) ''Joystick_''"
  shows "visit env fs p a d = Inr (fail_candidate d a)"
  using assms
  by (simp add: visit_def is_candidate_def fail_candidate_def Let_def split: option.splits)

lemma visit_field2d:
  assumes "is_candidate d" and "has_config env fs p d raw"
    and "startsWith (Dirent.name d) ''Field2d_''"
  shows "visit env fs p a d =
     bindE (build_Config2d env p (Dirent.name d) raw) (\<lambda>config.
     bindE (admit_Config2d fs config) (\<lambda>admitted.
       Inr (if admitted then clear_candidate d (a\<lparr>field2ds := field2ds a @ [config]\<rparr>)
            else fail_candidate d a)))"
  using assms
  by (simp add: visit_def is_candidate_def has_config_def fail_candidate_def clear_candidate_def
      Let_def remove_failure_pushed cong: if_cong)

lemma visit_field3d:
  assumes "is_candidate d" and "has_config env fs p d raw"
    and "startsWith (Dirent.name d) ''Field3d_''"
  shows "visit env fs p a d =
     bindE (build_Config3dField env p (Dirent.name d) raw) (\<lambda>config.
     bindE (admit_Config3dField fs config) (\<lambda>admitted.
       Inr (if admitted then clear_candidate d (a\<lparr>field3ds := field3ds a @ [config]\<rparr>)
            else fail_candidate d a)))"
  using assms prefixes_exclusive(1) [of "Dirent.name d"]
  by (simp add: visit_def is_candidate_def has_config_def fail_candidate_def clear_candidate_def
      Let_def remove_failure_pushed cong: if_cong)

lemma visit_robot:
  assumes "is_candidate d" and "has_config env fs p d raw"
    and "startsWith (Dirent.name d) ''Robot_''"
  shows "visit env fs p a d =
     bindE (build_Config3dRobot env p (Dirent.name d) raw) (\<lambda>config.
     bindE (admit_Config3dRobot fs config) (\<lambda>admitted.
       Inr (if admitted then clear_candidate d (a\<lparr>robots := robots a @ [config]\<rparr>)
            else fail_candidate d a)))"
  using assms prefixes_exclusive(2) [of "Dirent.name d"]
  by (simp add: visit_def is_candidate_def has_config_def fail_candidate_def clear_candidate_def
      Let_def remove_failure_pushed cong: if_cong)

lemma visit_joystick:
  assumes "is_candidate d" and "has_config env fs p d raw"
    and "startsWith (Dirent.name d) ''Joystick_''"
  shows "visit env fs p a d =
     bindE (build_ConfigJoystick env p (Dirent.name d) raw) (\<lambda>config.
     bindE (admit_ConfigJoystick fs config) (\<lambda>admitted.
       Inr (if admitted then clear_candidate d (a\<lparr>joysticks := joysticks a @ [config]\<rparr>)
            else fail_candidate d a)))"
  using assms prefixes_exclusive(3) [of "Dirent.name d"]
  by (simp add: visit_def is_candidate_def has_config_def fail_candidate_def clear_candidate_def
      Let_def remove_failure_pushed cong: if_cong)

lemma framed_fail: "framed a (fail_candidate d empty_assets) (fail_candidate d a)"
  by (simp add: framed_def fail_candidate_def empty_assets_def)

lemma framed_clear:
  "framed a (clear_candidate d (empty_assets\<lparr>field2ds := field2ds empty_assets @ [c]\<rparr>))
     (clear_candidate d (a\<lparr>field2ds := field2ds a @ [c]\<rparr>))"
  "framed a (clear_candidate d (empty_assets\<lparr>field3ds := field3ds empty_assets @ [c3]\<rparr>))
     (clear_candidate d (a\<lparr>field3ds := field3ds a @ [c3]\<rparr>))"
  "framed a (clear_candidate d (empty_assets\<lparr>robots := robots empty_assets @ [cr]\<rparr>))
     (clear_candidate d (a\<lparr>robots := robots a @ [cr]\<rparr>))"
  "framed a (clear_candidate d (empty_assets\<lparr>joysticks := joysticks empty_assets @ [cj]\<rparr>))
     (clear_candidate d (a\<lparr>joysticks := joysticks a @ [cj]\<rparr>))"
  by (simp_all add: framed_def clear_candidate_def empty_assets_def)

lemma branch_frame:
  assumes eq: "\<And>x. visit env fs p x d =
       bindE B (\<lambda>config. bindE (A config) (\<lambda>admitted.
         Inr (if admitted then clear_candidate d (push config x) else fail_candidate d x)))"
    and fr: "\<And>config. framed a (clear_candidate d (push config empty_assets))
                (clear_candidate d (push config a))"
    and v: "visit env fs p a d = Inr a'"
  shows "visit env fs p empty_assets d = Inr (contribution env fs p d)
       \<and> framed a (contribution env fs p d) a'"
proof -
  from v eq [of a] obtain c ok where B: "B = Inr c" and A: "A c = Inr ok"
    and a': "a' = (if ok then clear_candidate d (push c a) else fail_candidate d a)"
    by (auto simp: bindE_def split: sum.splits)
  have alone: "visit env fs p empty_assets d =
      Inr (if ok then clear_candidate d (push c empty_assets) else fail_candidate d empty_assets)"
    using eq [of empty_assets] B A by (simp add: bindE_def)
  then have c: "contribution env fs p d =
      (if ok then clear_candidate d (push c empty_assets) else fail_candidate d empty_assets)"
    by (simp add: contribution_def)
  show ?thesis using alone c a' fr [of c] framed_fail [of a d] by (cases ok) simp_all
qed

lemma visit_frame:
  assumes v: "visit env fs p a d = Inr a'"
  shows "visit env fs p empty_assets d = Inr (contribution env fs p d)
       \<and> framed a (contribution env fs p d) a'"
proof (cases "is_candidate d")
  case False
  then show ?thesis using v
    by (simp add: visit_skip contribution_def framed_def empty_assets_def)
next
  case cand: True
  show ?thesis
  proof (cases "\<exists>raw. has_config env fs p d raw")
    case False
    then have "\<And>x. visit env fs p x d = Inr (fail_candidate d x)"
      using cand by (simp add: visit_no_config)
    then show ?thesis using v framed_fail [of a d] by (simp add: contribution_def)
  next
    case True
    then obtain raw where cfg: "has_config env fs p d raw" by blast
    consider (f2) "startsWith (Dirent.name d) ''Field2d_''"
      | (f3) "startsWith (Dirent.name d) ''Field3d_''"
      | (ro) "startsWith (Dirent.name d) ''Robot_''"
      | (jo) "startsWith (Dirent.name d) ''Joystick_''"
      | (no) "\<not> startsWith (Dirent.name d) ''Field2d_''" "\<not> startsWith (Dirent.name d) ''Field3d_''"
             "\<not> startsWith (Dirent.name d) ''Robot_''" "\<not> startsWith (Dirent.name d) ''Joystick_''"
      by blast
    then show ?thesis
    proof cases
      case f2
      show ?thesis
        by (rule branch_frame [where push = "\<lambda>c x. x\<lparr>field2ds := field2ds x @ [c]\<rparr>",
              OF visit_field2d [OF cand cfg f2] framed_clear(1) v])
    next
      case f3
      show ?thesis
        by (rule branch_frame [where push = "\<lambda>c x. x\<lparr>field3ds := field3ds x @ [c]\<rparr>",
              OF visit_field3d [OF cand cfg f3] framed_clear(2) v])
    next
      case ro
      show ?thesis
        by (rule branch_frame [where push = "\<lambda>c x. x\<lparr>robots := robots x @ [c]\<rparr>",
              OF visit_robot [OF cand cfg ro] framed_clear(3) v])
    next
      case jo
      show ?thesis
        by (rule branch_frame [where push = "\<lambda>c x. x\<lparr>joysticks := joysticks x @ [c]\<rparr>",
              OF visit_joystick [OF cand cfg jo] framed_clear(4) v])
    next
      case no
      then have "\<And>x. visit env fs p x d = Inr (fail_candidate d x)"
        using cand by (simp add: visit_unclassified)
      then show ?thesis using v framed_fail [of a d] by (simp add: contribution_def)
    qed
  qed
qed

subsection \<open>The scan of the three folders\<close>

lemma framed_refl: "framed a empty_assets a"
  by (simp add: framed_def empty_assets_def)

lemma framed_trans:
  "framed a r a' \<Longrightarrow> framed a' r' a'' \<Longrightarrow>
   framed a \<lparr> field2ds = field2ds r @ field2ds r', field3ds = field3ds r @ field3ds r',
              robots = robots r @ robots r', joysticks = joysticks r @ joysticks r',
              loadFailures = loadFailures r @ loadFailures r' \<rparr> a''"
  by (simp add: framed_def)

lemma gathered_Nil: "gathered env fs p [] = empty_assets"
  by (simp add: gathered_def empty_assets_def)

lemma gathered_Cons:
  "gathered env fs p (d # ds) =
     \<lparr> field2ds = field2ds (contribution env fs p d) @ field2ds (gathered env fs p ds),
       field3ds = field3ds (contribution env fs p d) @ field3ds (gathered env fs p ds),
       robots = robots (contribution env fs p d) @ robots (gathered env fs p ds),
       joysticks = joysticks (contribution env fs p d) @ joysticks (gathered env fs p ds),
       loadFailures = loadFailures (contribution env fs p d) @ loadFailures (gathered env fs p ds) \<rparr>"
  by (simp add: gathered_def)

lemma fold_visit_frame:
  "foldE (visit env fs p) a ds = Inr a' \<Longrightarrow>
     framed a (gathered env fs p ds) a'
     \<and> (\<forall>d \<in> set ds. visit env fs p empty_assets d = Inr (contribution env fs p d))"
proof (induction ds arbitrary: a)
  case Nil
  then show ?case by (simp add: gathered_Nil framed_refl)
next
  case (Cons d ds)
  from Cons.prems obtain b where b: "visit env fs p a d = Inr b"
    and rest: "foldE (visit env fs p) b ds = Inr a'"
    by (auto split: sum.splits)
  from visit_frame [OF b] have one: "visit env fs p empty_assets d = Inr (contribution env fs p d)"
    and f1: "framed a (contribution env fs p d) b" by simp_all
  from Cons.IH [OF rest] have f2: "framed b (gathered env fs p ds) a'"
    and all: "\<forall>d \<in> set ds. visit env fs p empty_assets d = Inr (contribution env fs p d)"
    by simp_all
  show ?case using framed_trans [OF f1 f2] one all by (simp add: gathered_Cons)
qed

lemma scan_folder_frame:
  assumes "scan_folder env fs a p = Inr a'"
  shows "framed a (gathered env fs p (folder_entries fs p)) a'
     \<and> (\<forall>d \<in> set (folder_entries fs p).
           visit env fs p empty_assets d = Inr (contribution env fs p d))"
  using assms fold_visit_frame [of env fs p a "folder_entries fs p" a']
  by (auto simp: scan_folder_def folder_entries_def split: option.splits)

lemma field_gathered:
  "field2ds (gathered env fs p (folder_entries fs p)) = folder_records field2ds env fs p"
  "field3ds (gathered env fs p (folder_entries fs p)) = folder_records field3ds env fs p"
  "robots (gathered env fs p (folder_entries fs p)) = folder_records robots env fs p"
  "joysticks (gathered env fs p (folder_entries fs p)) = folder_records joysticks env fs p"
  "loadFailures (gathered env fs p (folder_entries fs p)) = folder_records loadFailures env fs p"
  by (simp_all add: gathered_def folder_records_def)

lemma scan_all_frame:
  assumes "scan_all env fs = Inr a"
  shows "field2ds a = scanned field2ds env fs"
    and "field3ds a = scanned field3ds env fs"
    and "robots a = scanned robots env fs"
    and "joysticks a = scanned joysticks env fs"
    and "mset (loadFailures a) = mset (scanned loadFailures env fs)"
    and "\<forall>pd \<in> set (scan_order env fs).
           visit env fs (fst pd) empty_assets (snd pd) = Inr (contribution env fs (fst pd) (snd pd))"
proof -
  from assms obtain u where u: "getUserAssetsPath env fs = Inr u"
    and f: "foldE (scan_folder env fs) empty_assets [u, AUTO_ASSETS env, BUNDLED_ASSETS env] = Inr a"
    by (auto simp: scan_all_def bindE_def split: sum.splits)
  have uf: "user_folder env fs = u" using u by (simp add: user_folder_def)
  from f obtain a1 a2 where s1: "scan_folder env fs empty_assets u = Inr a1"
    and s2: "scan_folder env fs a1 (AUTO_ASSETS env) = Inr a2"
    and s3: "scan_folder env fs a2 (BUNDLED_ASSETS env) = Inr a"
    by (auto split: sum.splits)
  note f1 = scan_folder_frame [OF s1] and f2 = scan_folder_frame [OF s2]
    and f3 = scan_folder_frame [OF s3]
  show "field2ds a = scanned field2ds env fs"
    using f1 f2 f3 by (simp add: framed_def scanned_def uf field_gathered empty_assets_def)
  show "field3ds a = scanned field3ds env fs"
    using f1 f2 f3 by (simp add: framed_def scanned_def uf field_gathered empty_assets_def)
  show "robots a = scanned robots env fs"
    using f1 f2 f3 by (simp add: framed_def scanned_def uf field_gathered empty_assets_def)
  show "joysticks a = scanned joysticks env fs"
    using f1 f2 f3 by (simp add: framed_def scanned_def uf field_gathered empty_assets_def)
  show "mset (loadFailures a) = mset (scanned loadFailures env fs)"
    using f1 f2 f3 by (simp add: framed_def scanned_def uf field_gathered empty_assets_def)
  show "\<forall>pd \<in> set (scan_order env fs).
           visit env fs (fst pd) empty_assets (snd pd) = Inr (contribution env fs (fst pd) (snd pd))"
    using f1 f2 f3 by (auto simp: scan_order_def uf)
qed

lemma loadAssets_result:
  assumes "loadAssets env fs = Inr out"
  obtains a where "scan_all env fs = Inr a" and "out = sort_assets env (unique_assets a)"
  using assms by (auto simp: loadAssets_def bindE_def split: sum.splits)

lemma contribution_cases:
  assumes v: "visit env fs p empty_assets d = Inr r" and cand: "is_candidate d"
  shows "(loadFailures r = [Dirent.name d] \<and> record_count r = 0)
       \<or> (loadFailures r = [] \<and> record_count r = 1)"
proof -
  have fail: "loadFailures (fail_candidate d empty_assets) = [Dirent.name d]
      \<and> record_count (fail_candidate d empty_assets) = 0"
    by (simp add: fail_candidate_def empty_assets_def record_count_def)
  have branch: "(loadFailures r = [Dirent.name d] \<and> record_count r = 0)
       \<or> (loadFailures r = [] \<and> record_count r = 1)"
    if eq: "visit env fs p empty_assets d =
       bindE B (\<lambda>config. bindE (A config) (\<lambda>admitted.
         Inr (if admitted then clear_candidate d (push config empty_assets)
              else fail_candidate d empty_assets)))"
      and one: "\<And>config. loadFailures (clear_candidate d (push config empty_assets)) = []
         \<and> record_count (clear_candidate d (push config empty_assets)) = 1"
    for B :: "js_error + 'c" and A push
  proof -
    from v eq obtain c ok where
      "r = (if ok then clear_candidate d (push c empty_assets) else fail_candidate d empty_assets)"
      by (auto simp: bindE_def split: sum.splits)
    then show ?thesis using one [of c] fail by (cases ok) simp_all
  qed
  show ?thesis
  proof (cases "\<exists>raw. has_config env fs p d raw")
    case False
    then have "visit env fs p empty_assets d = Inr (fail_candidate d empty_assets)"
      using cand by (simp add: visit_no_config)
    then show ?thesis using v fail by simp
  next
    case True
    then obtain raw where cfg: "has_config env fs p d raw" by blast
    consider (f2) "startsWith (Dirent.name d) ''Field2d_''"
      | (f3) "startsWith (Dirent.name d) ''Field3d_''"
      | (ro) "startsWith (Dirent.name d) ''Robot_''"
      | (jo) "startsWith (Dirent.name d) ''Joystick_''"
      | (no) "\<not> startsWith (Dirent.name d) ''Field2d_''" "\<not> startsWith (Dirent.name d) ''Field3d_''"
             "\<not> startsWith (Dirent.name d) ''Robot_''" "\<not> startsWith (Dirent.name d) ''Joystick_''"
      by blast
    then show ?thesis
    proof cases
      case f2
      show ?thesis
        by (rule branch [where push = "\<lambda>c x. x\<lparr>field2ds := field2ds x @ [c]\<rparr>",
              OF visit_field2d [OF cand cfg f2]])
          (simp add: clear_candidate_def empty_assets_def record_count_def)
    next
      case f3
      show ?thesis
        by (rule branch [where push = "\<lambda>c x. x\<lparr>field3ds := field3ds x @ [c]\<rparr>",
              OF visit_field3d [OF cand cfg f3]])
          (simp add: clear_candidate_def empty_assets_def record_count_def)
    next
      case ro
      show ?thesis
        by (rule branch [where push = "\<lambda>c x. x\<lparr>robots := robots x @ [c]\<rparr>",
              OF visit_robot [OF cand cfg ro]])
          (simp add: clear_candidate_def empty_assets_def record_count_def)
    next
      case jo
      show ?thesis
        by (rule branch [where push = "\<lambda>c x. x\<lparr>joysticks := joysticks x @ [c]\<rparr>",
              OF visit_joystick [OF cand cfg jo]])
          (simp add: clear_candidate_def empty_assets_def record_count_def)
    next
      case no
      then have "visit env fs p empty_assets d = Inr (fail_candidate d empty_assets)"
        using cand by (simp add: visit_unclassified)
      then show ?thesis using v fail by simp
    qed
  qed
qed

lemma unique_sorted_set:
  "set (js_sort cmp (unique_names name_of xs)) \<subseteq> set xs"
  using set_unique_names [of name_of xs] by (simp add: set_js_sort)

lemma unique_sorted_names:
  "name_of ` set (js_sort cmp (unique_names name_of xs)) = name_of ` set xs"
  by (simp add: set_js_sort names_unique_names)

lemma unique_sorted_find:
  "find (\<lambda>other. name_of other = n) (js_sort cmp (unique_names name_of xs))
     = find (\<lambda>other. name_of other = n) xs"
proof -
  have "find (\<lambda>other. name_of other = n) (js_sort cmp (unique_names name_of xs))
      = find (\<lambda>other. name_of other = n) (unique_names name_of xs)"
    by (rule find_permuted [OF distinct_unique_names mset_js_sort])
  then show ?thesis by (simp add: find_unique_names)
qed

lemma unique_sorted_distinct:
  "distinct (map name_of (js_sort cmp (unique_names name_of xs)))"
proof -
  have "mset (map name_of (js_sort cmp (unique_names name_of xs)))
      = mset (map name_of (unique_names name_of xs))"
    by (simp add: mset_js_sort)
  then show ?thesis
    using distinct_unique_names [of name_of xs] mset_eq_imp_distinct_iff by blast
qed

lemma loadAssets_fields:
  assumes "loadAssets env fs = Inr out"
  shows "field2ds out = js_sort compare_field2ds (unique_names Config2d.name (scanned field2ds env fs))"
    and "field3ds out =
      js_sort (\<lambda>a b. compare_names (Config3dField.name a) (Config3dField.name b))
        (unique_names Config3dField.name (scanned field3ds env fs))"
    and "robots out =
      js_sort (\<lambda>a b. localeCompare env (Config3dRobot.name a) (Config3dRobot.name b))
        (unique_names Config3dRobot.name (scanned robots env fs))"
    and "joysticks out =
      js_sort (\<lambda>a b. compare_names (ConfigJoystick.name a) (ConfigJoystick.name b))
        (unique_names ConfigJoystick.name (scanned joysticks env fs))"
    and "mset (loadFailures out) = mset (scanned loadFailures env fs)"
    and "\<forall>pd \<in> set (scan_order env fs).
           visit env fs (fst pd) empty_assets (snd pd) = Inr (contribution env fs (fst pd) (snd pd))"
proof -
  from assms obtain a where a: "scan_all env fs = Inr a"
    and out: "out = sort_assets env (unique_assets a)"
    by (rule loadAssets_result)
  note fr = scan_all_frame [OF a]
  show "field2ds out = js_sort compare_field2ds (unique_names Config2d.name (scanned field2ds env fs))"
    using fr(1) by (simp add: out sort_assets_def unique_assets_def)
  show "field3ds out =
      js_sort (\<lambda>a b. compare_names (Config3dField.name a) (Config3dField.name b))
        (unique_names Config3dField.name (scanned field3ds env fs))"
    using fr(2) by (simp add: out sort_assets_def unique_assets_def)
  show "robots out =
      js_sort (\<lambda>a b. localeCompare env (Config3dRobot.name a) (Config3dRobot.name b))
        (unique_names Config3dRobot.name (scanned robots env fs))"
    using fr(3) by (simp add: out sort_assets_def unique_assets_def)
  show "joysticks out =
      js_sort (\<lambda>a b. compare_names (ConfigJoystick.name a) (ConfigJoystick.name b))
        (unique_names ConfigJoystick.name (scanned joysticks env fs))"
    using fr(4) by (simp add: out sort_assets_def unique_assets_def)
  show "mset (loadFailures out) = mset (scanned loadFailures env fs)"
    using fr(5) by (simp add: out sort_assets_def unique_assets_def mset_js_sort)
  show "\<forall>pd \<in> set (scan_order env fs).
           visit env fs (fst pd) empty_assets (snd pd) = Inr (contribution env fs (fst pd) (snd pd))"
    by (rule fr(6))
qed

lemma scanned_eq_scan_order:
  "scanned field env fs
     = concat (map (\<lambda>pd. field (contribution env fs (fst pd) (snd pd))) (scan_order env fs))"
  by (simp add: scanned_def scan_order_def folder_records_def comp_def)

subsection \<open>Builders and admission\<close>

lemma js_and_Inr: "js_and (Inr x) (Inr y) = Inr (x \<and> y)"
  by (simp add: js_and_def)

lemma js_and_False: "js_and (Inr False) r = Inr False"
  by (simp add: js_and_def)

lemma js_and_True: "js_and (Inr True) r = r"
  by (simp add: js_and_def)

lemma every_auxiliary:
  assumes "decodeURIComponent encoded = Inr model"
  shows "every_e (existsAuxiliary fs encoded) (enumerate n xs)
     = Inr (\<forall>i < length xs. existsSync fs (auxiliaryPath model (n + i)))"
proof (induction xs arbitrary: n)
  case Nil then show ?case by simp
next
  case (Cons x xs)
  have "(\<forall>i < Suc (length xs). existsSync fs (auxiliaryPath model (n + i)))
      \<longleftrightarrow> existsSync fs (auxiliaryPath model n)
          \<and> (\<forall>i < length xs. existsSync fs (auxiliaryPath model (Suc n + i)))"
    by (auto simp: less_Suc_eq_0_disj)
  then show ?case using Cons.IH [of "Suc n"] assms
    by (simp add: existsAuxiliary_def bindE_def)
qed

lemma existsDecoded_Inr:
  "decodeURIComponent encoded = Inr p \<Longrightarrow> existsDecoded fs encoded = Inr (existsSync fs p)"
  by (simp add: existsDecoded_def bindE_def)

lemma admit_Config2d_decoded:
  assumes "decodeURIComponent (Config2d.path config) = Inr imagePath"
  shows "admit_Config2d fs config =
     Inr (Config2d.name config \<noteq> []
          \<and> 0 \<le> Config2d.topLeft config ! 0 \<and> 0 \<le> Config2d.topLeft config ! 1
          \<and> 0 \<le> Config2d.bottomRight config ! 0 \<and> 0 \<le> Config2d.bottomRight config ! 1
          \<and> 0 < Config2d.widthInches config \<and> 0 < Config2d.heightInches config
          \<and> existsSync fs imagePath)"
  by (simp add: admit_Config2d_def existsDecoded_Inr [OF assms] js_and_Inr conj_assoc)

lemma admit_Config3dField_decoded:
  assumes "decodeURIComponent (Config3dField.path config) = Inr model"
  shows "admit_Config3dField fs config =
     Inr (Config3dField.name config \<noteq> []
          \<and> 0 < Config3dField.widthInches config \<and> 0 < Config3dField.heightInches config
          \<and> existsSync fs model
          \<and> (\<forall>i < length (Config3dField.gamePieces config).
                existsSync fs (auxiliaryPath model i)))"
  using every_auxiliary [OF assms, of fs 0 "Config3dField.gamePieces config"]
  by (simp add: admit_Config3dField_def existsDecoded_Inr [OF assms] js_and_Inr conj_assoc)

lemma admit_Config3dRobot_decoded:
  assumes "decodeURIComponent (Config3dRobot.path config) = Inr model"
  shows "admit_Config3dRobot fs config =
     Inr (Config3dRobot.name config \<noteq> []
          \<and> list_all (\<lambda>camera. Config3dRobot_Camera.name camera \<noteq> [])
               (Config3dRobot.cameras config)
          \<and> existsSync fs model
          \<and> (\<forall>i < length (Config3dRobot.components config).
                existsSync fs (auxiliaryPath model i)))"
  using every_auxiliary [OF assms, of fs 0 "Config3dRobot.components config"]
  by (simp add: admit_Config3dRobot_def existsDecoded_Inr [OF assms] js_and_Inr conj_assoc)

lemma admit_ConfigJoystick_decoded:
  assumes "decodeURIComponent (ConfigJoystick.path config) = Inr imagePath"
  shows "admit_ConfigJoystick fs config =
     Inr (ConfigJoystick.name config \<noteq> []
          \<and> list_all component_ok (ConfigJoystick.components config)
          \<and> existsSync fs imagePath)"
  by (simp add: admit_ConfigJoystick_def existsDecoded_Inr [OF assms] js_and_Inr conj_assoc)

lemma run_steps_invariant:
  assumes "run_steps c0 steps = Inr c" and "P c0"
    and "\<And>s x y. s \<in> set steps \<Longrightarrow> P x \<Longrightarrow> s x = Inr y \<Longrightarrow> P y"
  shows "P c"
proof -
  have "foldE (\<lambda>c step. step c) c0 steps = Inr c \<Longrightarrow> P c0 \<Longrightarrow> P c"
    using assms(3)
  proof (induction steps arbitrary: c0)
    case Nil then show ?case by simp
  next
    case (Cons s steps)
    from Cons.prems(1) obtain c1 where s: "s c0 = Inr c1"
      and rest: "foldE (\<lambda>c step. step c) c1 steps = Inr c"
      by (auto split: sum.splits)
    have "P c1" using Cons.prems(3) [of s c0 c1] Cons.prems(2) s by simp
    then show ?case using Cons.IH [OF rest] Cons.prems(3) by auto
  qed
  then show ?thesis using assms(1,2) by (simp add: run_steps_def)
qed

lemma when_e_cases:
  assumes "when_e guard assign x = Inr y"
  shows "(guard = Inr True \<and> y = assign x) \<or> (guard = Inr False \<and> y = x)"
  using assms by (cases guard) (auto simp: when_e_def bindE_def split: if_splits)

lemma object_cases:
  assumes "raw \<noteq> JNull" and "typeof raw = ''object''"
  shows "(\<exists>kvs. raw = JObj kvs) \<or> (\<exists>xs. raw = JArr xs)"
  using assms by (cases raw) auto

lemma js_in_object:
  assumes "raw \<noteq> JNull" and "typeof raw = ''object''"
  shows "\<exists>b. js_in k raw = Inr b"
  using object_cases [OF assms] by auto

lemma guards_object:
  assumes "raw \<noteq> JNull" and "typeof raw = ''object''"
  shows "\<exists>b. in_typeof k raw t = Inr b" and "\<exists>b. in_array k raw = Inr b"
    and "\<exists>b. in_tuple k raw t n = Inr b" and "\<exists>b. in_typed_array k raw t = Inr b"
    and "\<exists>b. in_choice k raw cs = Inr b"
  using js_in_object [OF assms, of k]
  by (auto simp: in_typeof_def in_array_def in_tuple_def in_typed_array_def in_choice_def
      js_and_def)

lemma build_Config2d_default_topLeft:
  assumes "build_Config2d env p n raw = Inr config"
    and "in_tuple ''topLeft'' raw ''number'' 2 = Inr False"
  shows "Config2d.topLeft config = [- 1, - 1]"
  using assms(1) unfolding build_Config2d_def
proof (rule run_steps_invariant [where P = "\<lambda>c. Config2d.topLeft c = [- 1, - 1]"])
  show "Config2d.topLeft \<lparr> Config2d.name = [],
         Config2d.path =
           encodePath (platform_of env) (path_join env [p, n, ''image.png'']),
         Config2d.sourceUrl = None,
         Config2d.topLeft = [- 1, - 1],
         Config2d.bottomRight = [- 1, - 1],
         Config2d.widthInches = 0,
         Config2d.heightInches = 0,
         Config2d.defaultOrigin = ''auto'' \<rparr> = [- 1, - 1]" by simp
next
  fix s x y
  assume s: "s \<in> set [ when_e (in_typeof ''name'' raw ''string'')
           (\<lambda>config. config\<lparr>Config2d.name := js_string (js_get raw ''name'')\<rparr>),
         when_e (in_typeof ''sourceUrl'' raw ''string'')
           (\<lambda>config. config\<lparr>Config2d.sourceUrl := Some (js_string (js_get raw ''sourceUrl''))\<rparr>),
         when_e (in_tuple ''topLeft'' raw ''number'' 2)
           (\<lambda>config. config\<lparr>Config2d.topLeft := js_numbers (js_get raw ''topLeft'')\<rparr>),
         when_e (in_tuple ''bottomRight'' raw ''number'' 2)
           (\<lambda>config. config\<lparr>Config2d.bottomRight := js_numbers (js_get raw ''bottomRight'')\<rparr>),
         when_e (in_typeof ''widthInches'' raw ''number'')
           (\<lambda>config. config\<lparr>Config2d.widthInches := js_number (js_get raw ''widthInches'')\<rparr>),
         when_e (in_typeof ''heightInches'' raw ''number'')
           (\<lambda>config. config\<lparr>Config2d.heightInches := js_number (js_get raw ''heightInches'')\<rparr>),
         when_e (in_choice ''defaultOrigin'' raw [''auto'', ''red'', ''blue''])
           (\<lambda>config. config\<lparr>Config2d.defaultOrigin := js_string (js_get raw ''defaultOrigin'')\<rparr>) ]"
    and x: "Config2d.topLeft x = [- 1, - 1]" and y: "s x = Inr y"
  from s y x assms(2) show "Config2d.topLeft y = [- 1, - 1]"
    by (auto dest!: when_e_cases)
qed

lemma component_ok_all:
  "list_all component_ok cs \<longleftrightarrow>
     (\<forall>b. Button b \<in> set cs \<longrightarrow>
        0 < ConfigJoystick_Button.sizePx b ! 0 \<and> 0 < ConfigJoystick_Button.sizePx b ! 1
        \<and> 0 \<le> ConfigJoystick_Button.sourceIndex b)
   \<and> (\<forall>j. Joystick j \<in> set cs \<longrightarrow>
        0 < ConfigJoystick_Joystick.radiusPx j \<and> 0 \<le> ConfigJoystick_Joystick.xSourceIndex j
        \<and> 0 \<le> ConfigJoystick_Joystick.ySourceIndex j)
   \<and> (\<forall>x. Axis x \<in> set cs \<longrightarrow>
        0 < ConfigJoystick_Axis.sizePx x ! 0 \<and> 0 < ConfigJoystick_Axis.sizePx x ! 1
        \<and> 0 \<le> ConfigJoystick_Axis.sourceIndex x)"
proof (induction cs)
  case Nil then show ?case by simp
next
  case (Cons c cs)
  then show ?case by (cases c) auto
qed

lemma mapE_all_None:
  "\<forall>item \<in> set items. f item = Inr None \<Longrightarrow>
   mapE f items = Inr (replicate (length items) None)"
  by (induction items) auto

lemma map_filter_replicate_None: "List.map_filter (\<lambda>c. c) (replicate n None) = []"
  by (induction n) (auto simp: List.map_filter_def)

lemma build_ConfigJoystick_empty:
  assumes "raw \<noteq> JNull" and "typeof raw = ''object''"
    and "in_array ''components'' raw = Inr False
       \<or> (\<forall>item \<in> set (js_array (js_get raw ''components'')).
             build_JoystickComponent item = Inr None)"
  shows "\<exists>config. build_ConfigJoystick env p n raw = Inr config
           \<and> ConfigJoystick.components config = []"
proof -
  obtain b1 where b1: "in_typeof ''name'' raw ''string'' = Inr b1"
    using guards_object(1) [OF assms(1,2)] by blast
  obtain b2 where b2: "in_array ''components'' raw = Inr b2"
    using guards_object(2) [OF assms(1,2)] by blast
  show ?thesis
  proof (cases b2)
    case False
    then show ?thesis using b1 b2
      by (simp add: build_ConfigJoystick_def run_steps_def when_e_def bindE_def)
  next
    case True
    then have "\<forall>item \<in> set (js_array (js_get raw ''components'')).
             build_JoystickComponent item = Inr None"
      using assms(3) b2 by simp
    then have "mapE build_JoystickComponent (js_array (js_get raw ''components''))
        = Inr (replicate (length (js_array (js_get raw ''components''))) None)"
      by (rule mapE_all_None)
    then show ?thesis using b1 b2 True
      by (simp add: build_ConfigJoystick_def run_steps_def when_e_def bindE_def
          map_filter_replicate_None)
  qed
qed

lemma build_JoystickComponent_dropped:
  assumes "item \<noteq> JNull" and "typeof item = ''object''"
    and "in_typeof ''type'' item ''string'' = Inr False
       \<or> js_string (js_get item ''type'') \<notin> set [''button'', ''joystick'', ''axis'']"
  shows "build_JoystickComponent item = Inr None"
proof -
  obtain b1 where b1: "in_typeof ''isYellow'' item ''boolean'' = Inr b1"
    using guards_object(1) [OF assms(1,2)] by blast
  obtain b2 where b2: "in_tuple ''centerPx'' item ''number'' 2 = Inr b2"
    using guards_object(3) [OF assms(1,2)] by blast
  obtain b3 where b3: "in_typeof ''type'' item ''string'' = Inr b3"
    using guards_object(1) [OF assms(1,2)] by blast
  show ?thesis using assms(3) b1 b2 b3
    by (auto simp: build_JoystickComponent_def bindE_def Let_def)
qed

lemma decode_plain_append:
  "CHR ''%'' \<notin> set s \<Longrightarrow>
   decodeURIComponent (s @ rest)
     = (case decodeURIComponent rest of Inl e \<Rightarrow> Inl e | Inr r \<Rightarrow> Inr (s @ r))"
  by (induction s) (auto simp: decode_cons_plain consE_def split: sum.splits)

lemma decode_encoded_append:
  "decodeURIComponent (encodeURIComponent s @ rest)
     = (case decodeURIComponent rest of Inl e \<Rightarrow> Inl e | Inr r \<Rightarrow> Inr (s @ r))"
proof (induction s)
  case Nil
  then show ?case by (simp add: encodeURIComponent_def split: sum.splits)
next
  case (Cons c s)
  have "encodeURIComponent (c # s) @ rest = encode_char c @ (encodeURIComponent s @ rest)"
    by (simp add: encodeURIComponent_def)
  then show ?case using Cons.IH
    by (simp add: decode_encode_char consE_def split: sum.splits)
qed

lemma decode_component_append:
  assumes "i = 0 \<Longrightarrow> endsWith seg '':'' \<Longrightarrow> CHR ''%'' \<notin> set seg"
  shows "decodeURIComponent (encodePath_component (i, seg) @ rest)
     = (case decodeURIComponent rest of Inl e \<Rightarrow> Inl e | Inr r \<Rightarrow> Inr (seg @ r))"
  using assms
  by (auto simp: encodePath_component_def decode_plain_append decode_encoded_append)

lemma decode_component:
  assumes "i = 0 \<Longrightarrow> endsWith seg '':'' \<Longrightarrow> CHR ''%'' \<notin> set seg"
  shows "decodeURIComponent (encodePath_component (i, seg)) = Inr seg"
  using decode_component_append [OF assms, where rest = "[]"] by simp

lemma decode_join_components:
  assumes "sep \<noteq> CHR ''%''"
    and "n = 0 \<Longrightarrow> segs \<noteq> [] \<Longrightarrow> endsWith (hd segs) '':'' \<Longrightarrow> CHR ''%'' \<notin> set (hd segs)"
  shows "decodeURIComponent (join_sep sep (map encodePath_component (enumerate n segs)))
     = Inr (join_sep sep segs)"
  using assms(2)
proof (induction segs arbitrary: n)
  case Nil then show ?case by simp
next
  case (Cons seg segs)
  have first: "n = 0 \<Longrightarrow> endsWith seg '':'' \<Longrightarrow> CHR ''%'' \<notin> set seg"
    using Cons.prems by simp
  show ?case
  proof (cases segs)
    case Nil
    then show ?thesis using decode_component [of n seg] first by simp
  next
    case (Cons s2 rest)
    have tail: "decodeURIComponent (join_sep sep (map encodePath_component (enumerate (Suc n) segs)))
        = Inr (join_sep sep segs)"
      by (rule Cons.IH) simp
    have "join_sep sep (map encodePath_component (enumerate n (seg # segs)))
        = encodePath_component (n, seg)
          @ sep # join_sep sep (map encodePath_component (enumerate (Suc n) segs))"
      using Cons by simp
    then show ?thesis
      using decode_component_append [of n seg] first tail assms(1) Cons
      by (simp add: decode_cons_plain consE_def)
  qed
qed

lemma decode_encodePath:
  assumes "endsWith (hd (split_sep (path_sep pf) p)) '':''
     \<Longrightarrow> CHR ''%'' \<notin> set (hd (split_sep (path_sep pf) p))"
  shows "decodeURIComponent (encodePath pf p) = Inr p"
proof -
  have "path_sep pf \<noteq> CHR ''%''" by (cases pf) simp_all
  then have "decodeURIComponent (encodePath pf p) = Inr (join_sep (path_sep pf) (split_sep (path_sep pf) p))"
    unfolding encodePath_def using assms by (intro decode_join_components) simp_all
  then show ?thesis by (simp add: join_split_sep)
qed

lemma build_Config2d_path:
  assumes "build_Config2d env p n raw = Inr config"
  shows "Config2d.path config
     = encodePath (platform_of env) (path_join env [p, n, ''image.png''])"
  using assms unfolding build_Config2d_def
  by (elim run_steps_invariant
        [where P = "\<lambda>c. Config2d.path c
           = encodePath (platform_of env) (path_join env [p, n, ''image.png''])"])
     (auto dest!: when_e_cases)

lemma build_Config3dField_path:
  assumes "build_Config3dField env p n raw = Inr config"
  shows "Config3dField.path config
     = encodePath (platform_of env) (path_join env [p, n, ''model.glb''])"
  using assms unfolding build_Config3dField_def
  by (elim run_steps_invariant
        [where P = "\<lambda>c. Config3dField.path c
           = encodePath (platform_of env) (path_join env [p, n, ''model.glb''])"])
     (auto dest!: when_e_cases simp: bindE_def split: sum.splits if_splits)

lemma build_Config3dRobot_path:
  assumes "build_Config3dRobot env p n raw = Inr config"
  shows "Config3dRobot.path config
     = encodePath (platform_of env) (path_join env [p, n, ''model.glb''])"
  using assms unfolding build_Config3dRobot_def
  by (elim run_steps_invariant
        [where P = "\<lambda>c. Config3dRobot.path c
           = encodePath (platform_of env) (path_join env [p, n, ''model.glb''])"])
     (auto dest!: when_e_cases simp: bindE_def split: sum.splits if_splits)

lemma build_ConfigJoystick_path:
  assumes "build_ConfigJoystick env p n raw = Inr config"
  shows "ConfigJoystick.path config
     = encodePath (platform_of env) (path_join env [p, n, ''image.png''])"
  using assms unfolding build_ConfigJoystick_def
  by (elim run_steps_invariant
        [where P = "\<lambda>c. ConfigJoystick.path c
           = encodePath (platform_of env) (path_join env [p, n, ''image.png''])"])
     (auto dest!: when_e_cases simp: bindE_def split: sum.splits if_splits)


lemma decode_built_path:
  "plain_drive pf q \<Longrightarrow> decodeURIComponent (encodePath pf q) = Inr q"
  by (rule decode_encodePath) (simp add: plain_drive_def)

section \<open>The properties\<close>

text \<open>
  Claim C1, as stated, fails.  In \<open>fs_same_name\<close> the folders \<^verbatim>\<open>Field2d_A\<close> and
  \<^verbatim>\<open>Field2d_B\<close> are both admitted; the removal of duplicate names keeps the record of
  \<^verbatim>\<open>Field2d_B\<close>, which is visited first, and \<^verbatim>\<open>Field2d_A\<close> is then neither the folder of
  a returned record nor a name of the failure list.
\<close>

theorem candidate_in_neither_place:
  "loadAssets test_env fs_same_name =
     Inr \<lparr> field2ds = [field2d_record ''Field'' ''/user/Field2d_B/image.png''],
           field3ds = [], robots = [], joysticks = [], loadFailures = [] \<rparr>"
  by code_simp

text \<open>
  Claim C1, amended.  When \<^verbatim>\<open>loadAssets\<close> returns, every scanned candidate is settled in
  exactly one way: either it is admitted, which yields one record and no failure, or it
  leaves its bare name as one failure and yields no record; an entry that is not a
  candidate yields nothing.  The scanned records and failures are those of the entries
  in the order of the scan.  The returned failure list holds exactly the failures of
  the candidates (one entry per failed candidate).  Every returned record is the record
  of an admitted candidate, the names of the returned records of a kind are distinct,
  and the returned record of a name is the first scanned record of that name.  So the
  display name of every admitted candidate is the name of a returned record of its
  kind: the candidate's own record, unless an earlier scanned candidate was admitted
  with the same display name, whose record is then the one returned; the later
  candidate then backs no returned record and has left no failure either.
\<close>

theorem candidates_accounted_for:
  assumes "loadAssets env fs = Inr out"
  shows "(\<forall>pd \<in> set (scan_order env fs).
            (is_candidate (snd pd) \<longrightarrow>
               (loadFailures (contribution env fs (fst pd) (snd pd)) = [Dirent.name (snd pd)]
                \<and> record_count (contribution env fs (fst pd) (snd pd)) = 0)
             \<or> (loadFailures (contribution env fs (fst pd) (snd pd)) = []
                \<and> record_count (contribution env fs (fst pd) (snd pd)) = 1))
          \<and> (\<not> is_candidate (snd pd) \<longrightarrow>
               contribution env fs (fst pd) (snd pd) = empty_assets))
       \<and> scanned field env fs
            = concat (map (\<lambda>pd. field (contribution env fs (fst pd) (snd pd)))
                (scan_order env fs))
       \<and> mset (loadFailures out) = mset (scanned loadFailures env fs)
       \<and> set (field2ds out) \<subseteq> set (scanned field2ds env fs)
       \<and> Config2d.name ` set (field2ds out) = Config2d.name ` set (scanned field2ds env fs)
       \<and> first_scanned_kept Config2d.name (scanned field2ds env fs) (field2ds out)
       \<and> set (field3ds out) \<subseteq> set (scanned field3ds env fs)
       \<and> Config3dField.name ` set (field3ds out) = Config3dField.name ` set (scanned field3ds env fs)
       \<and> first_scanned_kept Config3dField.name (scanned field3ds env fs) (field3ds out)
       \<and> set (robots out) \<subseteq> set (scanned robots env fs)
       \<and> Config3dRobot.name ` set (robots out) = Config3dRobot.name ` set (scanned robots env fs)
       \<and> first_scanned_kept Config3dRobot.name (scanned robots env fs) (robots out)
       \<and> set (joysticks out) \<subseteq> set (scanned joysticks env fs)
       \<and> ConfigJoystick.name ` set (joysticks out)
            = ConfigJoystick.name ` set (scanned joysticks env fs)
       \<and> first_scanned_kept ConfigJoystick.name (scanned joysticks env fs) (joysticks out)"
proof -
  note f = loadAssets_fields [OF assms]
  have each: "\<forall>pd \<in> set (scan_order env fs).
            (is_candidate (snd pd) \<longrightarrow>
               (loadFailures (contribution env fs (fst pd) (snd pd)) = [Dirent.name (snd pd)]
                \<and> record_count (contribution env fs (fst pd) (snd pd)) = 0)
             \<or> (loadFailures (contribution env fs (fst pd) (snd pd)) = []
                \<and> record_count (contribution env fs (fst pd) (snd pd)) = 1))
          \<and> (\<not> is_candidate (snd pd) \<longrightarrow>
               contribution env fs (fst pd) (snd pd) = empty_assets)"
  proof
    fix pd assume "pd \<in> set (scan_order env fs)"
    then have v: "visit env fs (fst pd) empty_assets (snd pd)
        = Inr (contribution env fs (fst pd) (snd pd))"
      using f(6) by blast
    show "(is_candidate (snd pd) \<longrightarrow>
               (loadFailures (contribution env fs (fst pd) (snd pd)) = [Dirent.name (snd pd)]
                \<and> record_count (contribution env fs (fst pd) (snd pd)) = 0)
             \<or> (loadFailures (contribution env fs (fst pd) (snd pd)) = []
                \<and> record_count (contribution env fs (fst pd) (snd pd)) = 1))
          \<and> (\<not> is_candidate (snd pd) \<longrightarrow>
               contribution env fs (fst pd) (snd pd) = empty_assets)"
      using contribution_cases [OF v] visit_skip [of "snd pd" env fs "fst pd" empty_assets] v
      by auto
  qed
  have order: "scanned field env fs
            = concat (map (\<lambda>pd. field (contribution env fs (fst pd) (snd pd)))
                (scan_order env fs))"
    by (simp add: scanned_def folder_records_def scan_order_def comp_def)
  have kept: "first_scanned_kept name_of found (js_sort cmp (unique_names name_of found))"
    for name_of :: "'r \<Rightarrow> string" and found cmp
    unfolding first_scanned_kept_def
    by (simp add: unique_sorted_distinct unique_sorted_find)
  show ?thesis
    using each f(5) order
    by (simp only: f(1-4) unique_sorted_set unique_sorted_names kept simp_thms)
qed

theorem candidates_accounted_for_witness:
  "loadAssets test_env fs_layers = Inr layers_loaded
   \<and> (''/auto'', directory ''Field2d_B'') \<in> set (scan_order test_env fs_layers)
   \<and> is_candidate (directory ''Field2d_B'')
   \<and> loadFailures (contribution test_env fs_layers ''/auto'' (directory ''Field2d_B'')) = []
   \<and> record_count (contribution test_env fs_layers ''/auto'' (directory ''Field2d_B'')) = 1
   \<and> (''/auto'', directory ''Field2d_Old'') \<in> set (scan_order test_env fs_layers)
   \<and> loadFailures (contribution test_env fs_layers ''/auto'' (directory ''Field2d_Old''))
        = [''Field2d_Old'']
   \<and> mset (loadFailures layers_loaded) = mset (scanned loadFailures test_env fs_layers)
   \<and> Config2d.name ` set (field2ds layers_loaded)
        = Config2d.name ` set (scanned field2ds test_env fs_layers)
   \<and> scanned field2ds test_env fs_layers
        = [field2d_record ''Field'' ''/user/Field2d_A/image.png'',
           field2d_record ''Field'' ''/auto/Field2d_B/image.png'',
           field2d_record ''Evergreen'' ''/bundled/Field2d_E/image.png'']
   \<and> first_scanned_kept Config2d.name
        [field2d_record ''Field'' ''/user/Field2d_A/image.png'',
         field2d_record ''Field'' ''/auto/Field2d_B/image.png'',
         field2d_record ''Evergreen'' ''/bundled/Field2d_E/image.png'']
        (field2ds layers_loaded)
   \<and> field2d_record ''Field'' ''/user/Field2d_A/image.png'' \<in> set (field2ds layers_loaded)
   \<and> field2d_record ''Field'' ''/auto/Field2d_B/image.png'' \<notin> set (field2ds layers_loaded)"
proof -
  have l: "loadAssets test_env fs_layers = Inr layers_loaded" by code_simp
  note t = candidates_accounted_for [OF l, of field2ds]
  have m1: "(''/auto'', directory ''Field2d_B'') \<in> set (scan_order test_env fs_layers)"
    by code_simp
  have c1: "is_candidate (directory ''Field2d_B'')" by code_simp
  have r1: "loadFailures (contribution test_env fs_layers ''/auto'' (directory ''Field2d_B'')) = []"
    by code_simp
  have m2: "(''/auto'', directory ''Field2d_Old'') \<in> set (scan_order test_env fs_layers)"
    by code_simp
  have r2: "loadFailures (contribution test_env fs_layers ''/auto'' (directory ''Field2d_Old''))
        = [''Field2d_Old'']"
    by code_simp
  have s: "scanned field2ds test_env fs_layers
        = [field2d_record ''Field'' ''/user/Field2d_A/image.png'',
           field2d_record ''Field'' ''/auto/Field2d_B/image.png'',
           field2d_record ''Evergreen'' ''/bundled/Field2d_E/image.png'']"
    by code_simp
  have o: "field2d_record ''Field'' ''/user/Field2d_A/image.png'' \<in> set (field2ds layers_loaded)"
    "field2d_record ''Field'' ''/auto/Field2d_B/image.png'' \<notin> set (field2ds layers_loaded)"
    by code_simp+
  from t m1 c1 r1
  have n: "record_count (contribution test_env fs_layers ''/auto'' (directory ''Field2d_B'')) = 1"
    by fastforce
  from t have "first_scanned_kept Config2d.name (scanned field2ds test_env fs_layers)
      (field2ds layers_loaded)"
    by (elim conjE)
  then have k: "first_scanned_kept Config2d.name
        [field2d_record ''Field'' ''/user/Field2d_A/image.png'',
         field2d_record ''Field'' ''/auto/Field2d_B/image.png'',
         field2d_record ''Evergreen'' ''/bundled/Field2d_E/image.png'']
        (field2ds layers_loaded)"
    by (simp only: s)
  from t have f: "mset (loadFailures layers_loaded) = mset (scanned loadFailures test_env fs_layers)"
    by (elim conjE)
  from t have i: "Config2d.name ` set (field2ds layers_loaded)
        = Config2d.name ` set (scanned field2ds test_env fs_layers)"
    by (elim conjE)
  from l m1 c1 r1 n m2 r2 f i s k o show ?thesis by (intro conjI)
qed

text \<open>
  Claim C2, as stated, fails.  The callback pushes the name of every candidate onto the
  failure list (line 148) before it looks at the prefix, and nothing removes the name
  of a folder without prefix: the folder \<^verbatim>\<open>Notes\<close> of \<open>fs_other_folder\<close> is returned as
  a failure.
\<close>

theorem folder_without_prefix_is_listed:
  "loadAssets test_env fs_other_folder =
     Inr \<lparr> field2ds = [], field3ds = [], robots = [], joysticks = [],
           loadFailures = [''Notes''] \<rparr>"
  by code_simp

text \<open>
  Claim C2, amended.  A non-hidden immediate subdirectory whose name has none of the
  four prefixes produces no record, whatever its folder holds; the callback leaves all
  collected records as they are and appends the name to the failure list, and the name
  is in the failure list that \<^verbatim>\<open>loadAssets\<close> returns.
\<close>

theorem folder_without_prefix_fails:
  assumes "is_candidate d"
    and "\<not> startsWith (Dirent.name d) ''Field2d_''"
    and "\<not> startsWith (Dirent.name d) ''Field3d_''"
    and "\<not> startsWith (Dirent.name d) ''Robot_''"
    and "\<not> startsWith (Dirent.name d) ''Joystick_''"
  shows "visit env fs p a d = Inr (a\<lparr>loadFailures := loadFailures a @ [Dirent.name d]\<rparr>)
       \<and> record_count (contribution env fs p d) = 0
       \<and> (loadAssets env fs = Inr out \<and> (p, d) \<in> set (scan_order env fs)
            \<longrightarrow> Dirent.name d \<in> set (loadFailures out))"
proof -
  have v: "\<And>x. visit env fs p x d = Inr (fail_candidate d x)"
    using assms by (simp add: visit_unclassified)
  then have c: "contribution env fs p d = fail_candidate d empty_assets"
    by (simp add: contribution_def)
  have listed: "Dirent.name d \<in> set (loadFailures out)"
    if l: "loadAssets env fs = Inr out" and m: "(p, d) \<in> set (scan_order env fs)"
  proof -
    have "Dirent.name d \<in> set (loadFailures (contribution env fs (fst (p, d)) (snd (p, d))))"
      by (simp add: c fail_candidate_def empty_assets_def)
    then have "Dirent.name d \<in> set (scanned loadFailures env fs)"
      using m unfolding scanned_eq_scan_order by (auto intro!: bexI [of _ "(p, d)"])
    then show ?thesis
      using loadAssets_fields(5) [OF l] by (metis set_mset_mset)
  qed
  show ?thesis
    using v [of a] listed
    by (simp add: c fail_candidate_def empty_assets_def record_count_def)
qed

theorem folder_without_prefix_fails_witness:
  "is_candidate (directory ''Notes'')
   \<and> visit test_env fs_layers ''/user'' empty_assets (directory ''Notes'')
       = Inr (empty_assets\<lparr>loadFailures := [''Notes'']\<rparr>)
   \<and> loadAssets test_env fs_layers = Inr layers_loaded
   \<and> (''/user'', directory ''Notes'') \<in> set (scan_order test_env fs_layers)
   \<and> ''Notes'' \<in> set (loadFailures layers_loaded)"
proof -
  have c: "is_candidate (directory ''Notes'')" by code_simp
  have n: "Dirent.name (directory ''Notes'') = ''Notes''" by (simp add: directory_def)
  have p: "\<not> startsWith (Dirent.name (directory ''Notes'')) ''Field2d_''"
    "\<not> startsWith (Dirent.name (directory ''Notes'')) ''Field3d_''"
    "\<not> startsWith (Dirent.name (directory ''Notes'')) ''Robot_''"
    "\<not> startsWith (Dirent.name (directory ''Notes'')) ''Joystick_''"
    by code_simp+
  have l: "loadAssets test_env fs_layers = Inr layers_loaded" by code_simp
  have m: "(''/user'', directory ''Notes'') \<in> set (scan_order test_env fs_layers)" by code_simp
  note t = folder_without_prefix_fails [OF c p, of test_env fs_layers "''/user''" empty_assets
      layers_loaded]
  from t l m n have "''Notes'' \<in> set (loadFailures layers_loaded)" by simp
  moreover from t n have "visit test_env fs_layers ''/user'' empty_assets (directory ''Notes'')
       = Inr (empty_assets\<lparr>loadFailures := [''Notes'']\<rparr>)"
    by (simp add: empty_assets_def)
  ultimately show ?thesis using c l m by simp
qed

text \<open>
  Claim C3, as stated, fails.  The comparator of lines 639--643 returns \<open>-1\<close> when the
  first name is the greater one, so the greater name comes first: the fields named
  \<^verbatim>\<open>Alpha\<close>, \<^verbatim>\<open>Evergreen\<close> and \<^verbatim>\<open>Zeta\<close> are returned in the order \<^verbatim>\<open>Zeta\<close>, \<^verbatim>\<open>Alpha\<close>,
  \<^verbatim>\<open>Evergreen\<close>, not \<^verbatim>\<open>Alpha\<close>, \<^verbatim>\<open>Zeta\<close>, \<^verbatim>\<open>Evergreen\<close>.
\<close>

theorem field2ds_not_ascending:
  "loadAssets test_env fs_three_fields =
     Inr \<lparr> field2ds = [field2d_record ''Zeta'' ''/user/Field2d_Z/image.png'',
                       field2d_record ''Alpha'' ''/user/Field2d_A/image.png'',
                       field2d_record ''Evergreen'' ''/user/Field2d_E/image.png''],
           field3ds = [], robots = [], joysticks = [], loadFailures = [] \<rparr>"
  by code_simp

text \<open>
  Claim C3, amended.  The final list of 2D fields is sorted by name in descending order
  under the ordinal comparison of strings, except that a record named exactly
  \<^verbatim>\<open>Evergreen\<close> stands at the end; the names of the list are distinct.  For the names
  \<^verbatim>\<open>Alpha\<close>, \<^verbatim>\<open>Evergreen\<close>, \<^verbatim>\<open>Zeta\<close> the order is \<^verbatim>\<open>Zeta\<close>, \<^verbatim>\<open>Alpha\<close>, \<^verbatim>\<open>Evergreen\<close>.
\<close>

theorem field2ds_sorted_descending_evergreen_last:
  assumes "loadAssets env fs = Inr out"
  shows "sorted_wrt evergreen_last (map Config2d.name (field2ds out))
       \<and> distinct (map Config2d.name (field2ds out))"
proof -
  from assms obtain a where out: "out = sort_assets env (unique_assets a)"
    by (rule loadAssets_result)
  let ?u = "unique_names Config2d.name (field2ds a)"
  have f: "field2ds out = js_sort compare_field2ds ?u"
    by (simp add: out sort_assets_def unique_assets_def)
  have d: "distinct (map Config2d.name ?u)" by (rule distinct_unique_names)
  note di = distinct_names_imp [OF d]
  have "sorted_wrt (\<lambda>a b. evergreen_last (Config2d.name a) (Config2d.name b))
          (js_sort compare_field2ds ?u)"
  proof (rule sorted_js_sort [OF transp_evergreen_last])
    show "distinct ?u" using di by simp
    fix x y assume "x \<in> set ?u" "y \<in> set ?u" "x \<noteq> y"
    then have "Config2d.name x \<noteq> Config2d.name y" using di by blast
    then show "(compare_field2ds x y < 0 \<longrightarrow> evergreen_last (Config2d.name x) (Config2d.name y))
       \<and> (\<not> compare_field2ds x y < 0 \<longrightarrow> evergreen_last (Config2d.name y) (Config2d.name x))"
      by (rule compare_field2ds_order)
  qed
  then have s: "sorted_wrt evergreen_last (map Config2d.name (field2ds out))"
    by (simp add: f sorted_wrt_map)
  have "mset (map Config2d.name (field2ds out)) = mset (map Config2d.name ?u)"
    by (simp add: f mset_js_sort)
  then have "distinct (map Config2d.name (field2ds out))"
    using d mset_eq_imp_distinct_iff by blast
  with s show ?thesis by simp
qed


theorem field2ds_sorted_descending_evergreen_last_witness:
  "loadAssets test_env fs_three_fields =
     Inr \<lparr> field2ds = [field2d_record ''Zeta'' ''/user/Field2d_Z/image.png'',
                       field2d_record ''Alpha'' ''/user/Field2d_A/image.png'',
                       field2d_record ''Evergreen'' ''/user/Field2d_E/image.png''],
           field3ds = [], robots = [], joysticks = [], loadFailures = [] \<rparr>
   \<and> sorted_wrt evergreen_last [''Zeta'', ''Alpha'', ''Evergreen'']
   \<and> distinct [''Zeta'', ''Alpha'', ''Evergreen'']"
proof -
  have l: "loadAssets test_env fs_three_fields =
     Inr \<lparr> field2ds = [field2d_record ''Zeta'' ''/user/Field2d_Z/image.png'',
                       field2d_record ''Alpha'' ''/user/Field2d_A/image.png'',
                       field2d_record ''Evergreen'' ''/user/Field2d_E/image.png''],
           field3ds = [], robots = [], joysticks = [], loadFailures = [] \<rparr>"
    by code_simp
  from field2ds_sorted_descending_evergreen_last [OF l] l show ?thesis
    by (simp add: field2d_record_def)
qed

text \<open>
  Claim C4: the code raises where the claim promises recovery.  The callback of
  \<^verbatim>\<open>gamePieces.forEach\<close> applies \<^verbatim>\<open>"name" in gamePieceRaw\<close> to every element (line 287)
  without the test that line 162 applies to the descriptor itself.  For an element that
  is a number the operator raises a TypeError, which nothing catches: \<^verbatim>\<open>loadAssets\<close>
  ends with the exception, and the valid 2D field beside the 3D field is not loaded.
  The callbacks for cameras, robot components and joystick components raise in the same
  way, and so does the test of a rotation that is \<^verbatim>\<open>null\<close>.
\<close>

theorem number_as_game_piece_raises:
  "build_GamePiece (JNum 5) = Inl TypeError
   \<and> build_Camera (JStr ''front'') = Inl TypeError
   \<and> build_Component JNull = Inl TypeError
   \<and> build_JoystickComponent (JNum 1) = Inl TypeError
   \<and> is_rotation JNull = Inl TypeError
   \<and> loadAssets test_env fs_number_piece = Inl TypeError"
  by code_simp

text \<open>
  Claim C5.  Take a candidate with the prefix \<^verbatim>\<open>Field3d_\<close> whose record has a non-empty
  name and positive dimensions, or one with the prefix \<^verbatim>\<open>Robot_\<close> whose record has a
  non-empty name and only named cameras, and let \<open>model\<close> be the decoded path of the
  primary model.  The callback admits the candidate if and only if \<open>model\<close> exists and,
  for every index \<open>i\<close> below the number of game pieces (of robot components), the file
  named by \<open>model\<close> without its last four characters followed by \<^verbatim>\<open>_i.glb\<close> exists.  If
  one of these files is missing, no record is pushed and the name stays in the failure
  list.  The primary model is \<^verbatim>\<open>model.glb\<close> in the folder of the candidate (for a path
  whose leading segment holds no percent sign).
\<close>

theorem auxiliary_models_decide_admission:
  assumes "is_candidate d" and "has_config env fs p d raw"
  shows "(startsWith (Dirent.name d) ''Field3d_''
          \<and> build_Config3dField env p (Dirent.name d) raw = Inr field
          \<and> Config3dField.name field \<noteq> []
          \<and> 0 < Config3dField.widthInches field \<and> 0 < Config3dField.heightInches field
          \<and> decodeURIComponent (Config3dField.path field) = Inr model
          \<longrightarrow> visit env fs p a d =
                Inr (if existsSync fs model
                        \<and> (\<forall>i < length (Config3dField.gamePieces field).
                              existsSync fs (slice_end model 4 @ ''_'' @ nat_toString i @ ''.glb''))
                     then a\<lparr>field3ds := field3ds a @ [field],
                            loadFailures :=
                              remove1 (Dirent.name d) (loadFailures a @ [Dirent.name d])\<rparr>
                     else a\<lparr>loadFailures := loadFailures a @ [Dirent.name d]\<rparr>))
       \<and> (startsWith (Dirent.name d) ''Robot_''
          \<and> build_Config3dRobot env p (Dirent.name d) raw = Inr robot
          \<and> Config3dRobot.name robot \<noteq> []
          \<and> (\<forall>camera \<in> set (Config3dRobot.cameras robot). Config3dRobot_Camera.name camera \<noteq> [])
          \<and> decodeURIComponent (Config3dRobot.path robot) = Inr robotModel
          \<longrightarrow> visit env fs p a d =
                Inr (if existsSync fs robotModel
                        \<and> (\<forall>i < length (Config3dRobot.components robot).
                              existsSync fs
                                (slice_end robotModel 4 @ ''_'' @ nat_toString i @ ''.glb''))
                     then a\<lparr>robots := robots a @ [robot],
                            loadFailures :=
                              remove1 (Dirent.name d) (loadFailures a @ [Dirent.name d])\<rparr>
                     else a\<lparr>loadFailures := loadFailures a @ [Dirent.name d]\<rparr>))
       \<and> (plain_drive (platform_of env) (path_join env [p, Dirent.name d, ''model.glb''])
          \<longrightarrow> (build_Config3dField env p (Dirent.name d) raw = Inr field
                 \<longrightarrow> decodeURIComponent (Config3dField.path field)
                       = Inr (path_join env [p, Dirent.name d, ''model.glb'']))
              \<and> (build_Config3dRobot env p (Dirent.name d) raw = Inr robot
                 \<longrightarrow> decodeURIComponent (Config3dRobot.path robot)
                       = Inr (path_join env [p, Dirent.name d, ''model.glb''])))"
proof -
  have 1: "visit env fs p a d =
                Inr (if existsSync fs model
                        \<and> (\<forall>i < length (Config3dField.gamePieces field).
                              existsSync fs (slice_end model 4 @ ''_'' @ nat_toString i @ ''.glb''))
                     then a\<lparr>field3ds := field3ds a @ [field],
                            loadFailures :=
                              remove1 (Dirent.name d) (loadFailures a @ [Dirent.name d])\<rparr>
                     else a\<lparr>loadFailures := loadFailures a @ [Dirent.name d]\<rparr>)"
    if pre: "startsWith (Dirent.name d) ''Field3d_''"
      and b: "build_Config3dField env p (Dirent.name d) raw = Inr field"
      and ok: "Config3dField.name field \<noteq> []" "0 < Config3dField.widthInches field"
        "0 < Config3dField.heightInches field"
      and dec: "decodeURIComponent (Config3dField.path field) = Inr model"
  proof -
    have adm: "admit_Config3dField fs field =
        Inr (existsSync fs model
             \<and> (\<forall>i < length (Config3dField.gamePieces field).
                   existsSync fs (slice_end model 4 @ ''_'' @ nat_toString i @ ''.glb'')))"
      using ok admit_Config3dField_decoded [OF dec, of fs] by (simp add: auxiliaryPath_def)
    define admitted where "admitted \<longleftrightarrow> existsSync fs model
             \<and> (\<forall>i < length (Config3dField.gamePieces field).
                   existsSync fs (slice_end model 4 @ ''_'' @ nat_toString i @ ''.glb''))"
    have "visit env fs p a d =
        Inr (if admitted
             then a\<lparr>field3ds := field3ds a @ [field],
                    loadFailures := remove1 (Dirent.name d) (loadFailures a @ [Dirent.name d])\<rparr>
             else a\<lparr>loadFailures := loadFailures a @ [Dirent.name d]\<rparr>)"
      using adm unfolding admitted_def [symmetric]
      by (simp add: visit_field3d [OF assms pre] b bindE_def clear_candidate_def
          fail_candidate_def)
    then show ?thesis by (simp only: admitted_def)
  qed
  have 2: "visit env fs p a d =
                Inr (if existsSync fs robotModel
                        \<and> (\<forall>i < length (Config3dRobot.components robot).
                              existsSync fs
                                (slice_end robotModel 4 @ ''_'' @ nat_toString i @ ''.glb''))
                     then a\<lparr>robots := robots a @ [robot],
                            loadFailures :=
                              remove1 (Dirent.name d) (loadFailures a @ [Dirent.name d])\<rparr>
                     else a\<lparr>loadFailures := loadFailures a @ [Dirent.name d]\<rparr>)"
    if pre: "startsWith (Dirent.name d) ''Robot_''"
      and b: "build_Config3dRobot env p (Dirent.name d) raw = Inr robot"
      and ok: "Config3dRobot.name robot \<noteq> []"
        "\<forall>camera \<in> set (Config3dRobot.cameras robot). Config3dRobot_Camera.name camera \<noteq> []"
      and dec: "decodeURIComponent (Config3dRobot.path robot) = Inr robotModel"
  proof -
    have adm: "admit_Config3dRobot fs robot =
        Inr (existsSync fs robotModel
             \<and> (\<forall>i < length (Config3dRobot.components robot).
                   existsSync fs (slice_end robotModel 4 @ ''_'' @ nat_toString i @ ''.glb'')))"
      using ok admit_Config3dRobot_decoded [OF dec, of fs]
      by (simp add: auxiliaryPath_def list_all_iff)
    define admitted where "admitted \<longleftrightarrow> existsSync fs robotModel
             \<and> (\<forall>i < length (Config3dRobot.components robot).
                   existsSync fs (slice_end robotModel 4 @ ''_'' @ nat_toString i @ ''.glb''))"
    have "visit env fs p a d =
        Inr (if admitted
             then a\<lparr>robots := robots a @ [robot],
                    loadFailures := remove1 (Dirent.name d) (loadFailures a @ [Dirent.name d])\<rparr>
             else a\<lparr>loadFailures := loadFailures a @ [Dirent.name d]\<rparr>)"
      using adm unfolding admitted_def [symmetric]
      by (simp add: visit_robot [OF assms pre] b bindE_def clear_candidate_def
          fail_candidate_def)
    then show ?thesis by (simp only: admitted_def)
  qed
  have 3: "decodeURIComponent (Config3dField.path field)
                       = Inr (path_join env [p, Dirent.name d, ''model.glb''])"
    if "plain_drive (platform_of env) (path_join env [p, Dirent.name d, ''model.glb''])"
      "build_Config3dField env p (Dirent.name d) raw = Inr field"
    using that by (simp add: build_Config3dField_path [OF that(2)] decode_built_path)
  have 4: "decodeURIComponent (Config3dRobot.path robot)
                       = Inr (path_join env [p, Dirent.name d, ''model.glb''])"
    if "plain_drive (platform_of env) (path_join env [p, Dirent.name d, ''model.glb''])"
      "build_Config3dRobot env p (Dirent.name d) raw = Inr robot"
    using that by (simp add: build_Config3dRobot_path [OF that(2)] decode_built_path)
  from 1 2 3 4 show ?thesis by blast
qed

theorem auxiliary_models_decide_admission_witness:
  "existsSync fs_models ''/user/Field3d_F/model.glb''
   \<and> existsSync fs_models ''/user/Field3d_F/model_0.glb''
   \<and> existsSync fs_models ''/user/Field3d_F/model_1.glb''
   \<and> (\<exists>field. length (Config3dField.gamePieces field) = 2
         \<and> visit test_env fs_models ''/user'' empty_assets (directory ''Field3d_F'')
             = Inr (empty_assets\<lparr>field3ds := [field]\<rparr>))
   \<and> existsSync fs_models ''/user/Robot_R/model.glb''
   \<and> \<not> existsSync fs_models ''/user/Robot_R/model_0.glb''
   \<and> visit test_env fs_models ''/user'' empty_assets (directory ''Robot_R'')
       = Inr (empty_assets\<lparr>loadFailures := [''Robot_R'']\<rparr>)"
proof -
  let ?rawF = "JObj [(''name'', JStr ''F''), (''widthInches'', JNum 100), (''heightInches'', JNum 50),
                 (''gamePieces'', JArr [JObj [(''name'', JStr ''ball'')], JObj []])]"
  let ?rawR = "JObj [(''name'', JStr ''R''), (''cameras'', JArr [JObj [(''name'', JStr ''front'')]]),
                 (''components'', JArr [JObj []])]"
  let ?F = "\<lparr> Config3dField.name = ''F'', Config3dField.path = ''/user/Field3d_F/model.glb'',
       Config3dField.sourceUrl = None, Config3dField.rotations = JArr [],
       Config3dField.widthInches = 100, Config3dField.heightInches = 50,
       Config3dField.defaultOrigin = ''auto'', Config3dField.driverStations = JArr [],
       Config3dField.gamePieces =
         [\<lparr> Config3dField_GamePiece.name = ''ball'', Config3dField_GamePiece.rotations = JArr [],
            Config3dField_GamePiece.position = [0, 0, 0],
            Config3dField_GamePiece.stagedObjects = [] \<rparr>,
          \<lparr> Config3dField_GamePiece.name = [], Config3dField_GamePiece.rotations = JArr [],
            Config3dField_GamePiece.position = [0, 0, 0],
            Config3dField_GamePiece.stagedObjects = [] \<rparr>] \<rparr>"
  let ?R = "\<lparr> Config3dRobot.name = ''R'', Config3dRobot.path = ''/user/Robot_R/model.glb'',
       Config3dRobot.sourceUrl = None, Config3dRobot.rotations = JArr [],
       Config3dRobot.position = [0, 0, 0],
       Config3dRobot.cameras =
         [\<lparr> Config3dRobot_Camera.name = ''front'', Config3dRobot_Camera.rotations = JArr [],
            Config3dRobot_Camera.position = [0, 0, 0],
            Config3dRobot_Camera.resolution = [200, 100], Config3dRobot_Camera.fov = 90 \<rparr>],
       Config3dRobot.components =
         [\<lparr> Config3dRobot_Component.zeroedRotations = JArr [],
            Config3dRobot_Component.zeroedPosition = [0, 0, 0] \<rparr>],
       Config3dRobot.disableSimplification = False \<rparr>"
  have candF: "is_candidate (directory ''Field3d_F'')"
    and candR: "is_candidate (directory ''Robot_R'')" by code_simp+
  have cfgF: "has_config test_env fs_models ''/user'' (directory ''Field3d_F'') ?rawF"
    by code_simp
  have cfgR: "has_config test_env fs_models ''/user'' (directory ''Robot_R'') ?rawR"
    by code_simp
  have preF: "startsWith (Dirent.name (directory ''Field3d_F'')) ''Field3d_''"
    and preR: "startsWith (Dirent.name (directory ''Robot_R'')) ''Robot_''" by code_simp+
  have bF: "build_Config3dField test_env ''/user'' (Dirent.name (directory ''Field3d_F'')) ?rawF
      = Inr ?F" by code_simp
  have bR: "build_Config3dRobot test_env ''/user'' (Dirent.name (directory ''Robot_R'')) ?rawR
      = Inr ?R" by code_simp
  have files: "existsSync fs_models ''/user/Field3d_F/model.glb''"
    "existsSync fs_models ''/user/Field3d_F/model_0.glb''"
    "existsSync fs_models ''/user/Field3d_F/model_1.glb''"
    "existsSync fs_models ''/user/Robot_R/model.glb''"
    "\<not> existsSync fs_models ''/user/Robot_R/model_0.glb''"
    by code_simp+
  have aux: "slice_end ''/user/Field3d_F/model.glb'' 4 = ''/user/Field3d_F/model''"
    "slice_end ''/user/Robot_R/model.glb'' 4 = ''/user/Robot_R/model''"
    "nat_toString 0 = ''0''" "nat_toString (Suc 0) = ''1''"
    by code_simp+
  have two: "(\<forall>i < Suc (Suc 0). P i) \<longleftrightarrow> P 0 \<and> P (Suc 0)" for P :: "nat \<Rightarrow> bool"
    by (auto simp: less_Suc_eq)
  note F = auxiliary_models_decide_admission [OF candF cfgF,
      of ?F "''/user/Field3d_F/model.glb''" empty_assets]
  note R = auxiliary_models_decide_admission [OF candR cfgR,
      of _ _ empty_assets ?R "''/user/Robot_R/model.glb''"]
  have pjF: "path_join test_env [''/user'', Dirent.name (directory ''Field3d_F''), ''model.glb'']
      = ''/user/Field3d_F/model.glb''"
    and pjR: "path_join test_env [''/user'', Dirent.name (directory ''Robot_R''), ''model.glb'']
      = ''/user/Robot_R/model.glb''" by code_simp+
  have plF: "plain_drive (platform_of test_env)
      (path_join test_env [''/user'', Dirent.name (directory ''Field3d_F''), ''model.glb''])"
    and plR: "plain_drive (platform_of test_env)
      (path_join test_env [''/user'', Dirent.name (directory ''Robot_R''), ''model.glb''])"
    by code_simp+
  from F plF bF
  have "decodeURIComponent (Config3dField.path ?F)
      = Inr (path_join test_env [''/user'', Dirent.name (directory ''Field3d_F''), ''model.glb''])"
    by blast
  then have dF: "decodeURIComponent (Config3dField.path ?F) = Inr ''/user/Field3d_F/model.glb''"
    by (simp only: pjF)
  from R plR bR
  have "decodeURIComponent (Config3dRobot.path ?R)
      = Inr (path_join test_env [''/user'', Dirent.name (directory ''Robot_R''), ''model.glb''])"
    by blast
  then have dR: "decodeURIComponent (Config3dRobot.path ?R) = Inr ''/user/Robot_R/model.glb''"
    by (simp only: pjR)
  have okF: "Config3dField.name ?F \<noteq> []" "0 < Config3dField.widthInches ?F"
    "0 < Config3dField.heightInches ?F" by simp_all
  have okR: "Config3dRobot.name ?R \<noteq> []"
    "\<forall>camera \<in> set (Config3dRobot.cameras ?R). Config3dRobot_Camera.name camera \<noteq> []"
    by simp_all
  define resultF where "resultF = visit test_env fs_models ''/user'' empty_assets (directory ''Field3d_F'')"
  define resultR where "resultR = visit test_env fs_models ''/user'' empty_assets (directory ''Robot_R'')"
  from F preF bF okF dF
  have vF: "resultF =
      Inr (if existsSync fs_models ''/user/Field3d_F/model.glb''
              \<and> (\<forall>i < length (Config3dField.gamePieces ?F).
                    existsSync fs_models
                      (slice_end ''/user/Field3d_F/model.glb'' 4 @ ''_'' @ nat_toString i @ ''.glb''))
           then empty_assets\<lparr>field3ds := field3ds empty_assets @ [?F],
                  loadFailures := remove1 (Dirent.name (directory ''Field3d_F''))
                    (loadFailures empty_assets @ [Dirent.name (directory ''Field3d_F'')])\<rparr>
           else empty_assets\<lparr>loadFailures :=
                  loadFailures empty_assets @ [Dirent.name (directory ''Field3d_F'')]\<rparr>)"
    unfolding resultF_def by blast
  from R preR bR okR dR
  have vR: "resultR =
      Inr (if existsSync fs_models ''/user/Robot_R/model.glb''
              \<and> (\<forall>i < length (Config3dRobot.components ?R).
                    existsSync fs_models
                      (slice_end ''/user/Robot_R/model.glb'' 4 @ ''_'' @ nat_toString i @ ''.glb''))
           then empty_assets\<lparr>robots := robots empty_assets @ [?R],
                  loadFailures := remove1 (Dirent.name (directory ''Robot_R''))
                    (loadFailures empty_assets @ [Dirent.name (directory ''Robot_R'')])\<rparr>
           else empty_assets\<lparr>loadFailures :=
                  loadFailures empty_assets @ [Dirent.name (directory ''Robot_R'')]\<rparr>)"
    unfolding resultR_def by blast
  have 1: "visit test_env fs_models ''/user'' empty_assets (directory ''Field3d_F'')
             = Inr (empty_assets\<lparr>field3ds := [?F]\<rparr>)"
    using vF unfolding resultF_def [symmetric]
    by (simp add: files aux two empty_assets_def directory_def)
  have 2: "visit test_env fs_models ''/user'' empty_assets (directory ''Robot_R'')
       = Inr (empty_assets\<lparr>loadFailures := [''Robot_R'']\<rparr>)"
    using vR unfolding resultR_def [symmetric]
    by (simp add: files aux empty_assets_def directory_def)
  have "length (Config3dField.gamePieces ?F) = 2" by simp
  with 1 have "\<exists>field. length (Config3dField.gamePieces field) = 2
         \<and> visit test_env fs_models ''/user'' empty_assets (directory ''Field3d_F'')
             = Inr (empty_assets\<lparr>field3ds := [field]\<rparr>)"
    by blast
  with 2 files show ?thesis by simp
qed

text \<open>
  Claim C6.  For each of the four kinds, the names of the returned records are
  distinct, and the returned record of a display name is the first admitted record of
  that name in the order of the scan: the first one in the user folder if there is one,
  else the first one in the automatic folder, else the first one in the bundled folder.
  So among admitted records that share a display name the first in scan order is kept
  and the others are discarded, and a record of a folder of higher priority is the one
  retained.
\<close>

theorem duplicate_names_first_wins:
  assumes "loadAssets env fs = Inr out"
  shows "first_wins Config2d.name
           (folder_records field2ds env fs (user_folder env fs))
           (folder_records field2ds env fs (AUTO_ASSETS env))
           (folder_records field2ds env fs (BUNDLED_ASSETS env))
           (field2ds out)
       \<and> first_wins Config3dField.name
           (folder_records field3ds env fs (user_folder env fs))
           (folder_records field3ds env fs (AUTO_ASSETS env))
           (folder_records field3ds env fs (BUNDLED_ASSETS env))
           (field3ds out)
       \<and> first_wins Config3dRobot.name
           (folder_records robots env fs (user_folder env fs))
           (folder_records robots env fs (AUTO_ASSETS env))
           (folder_records robots env fs (BUNDLED_ASSETS env))
           (robots out)
       \<and> first_wins ConfigJoystick.name
           (folder_records joysticks env fs (user_folder env fs))
           (folder_records joysticks env fs (AUTO_ASSETS env))
           (folder_records joysticks env fs (BUNDLED_ASSETS env))
           (joysticks out)"
proof -
  have fw: "first_wins name_of (folder_records field env fs (user_folder env fs))
      (folder_records field env fs (AUTO_ASSETS env))
      (folder_records field env fs (BUNDLED_ASSETS env))
      (js_sort cmp (unique_names name_of (scanned field env fs)))"
    for name_of :: "'a \<Rightarrow> string" and field cmp
    unfolding first_wins_def
    by (simp add: unique_sorted_distinct unique_sorted_find scanned_def find_append_cases
        split: option.splits)
  note f = loadAssets_fields [OF assms]
  show ?thesis by (simp only: f(1-4) fw simp_thms)
qed

theorem duplicate_names_first_wins_witness:
  "loadAssets test_env fs_layers = Inr layers_loaded
   \<and> folder_records field2ds test_env fs_layers ''/user''
       = [field2d_record ''Field'' ''/user/Field2d_A/image.png'']
   \<and> folder_records field2ds test_env fs_layers ''/auto''
       = [field2d_record ''Field'' ''/auto/Field2d_B/image.png'']
   \<and> folder_records field2ds test_env fs_layers ''/bundled''
       = [field2d_record ''Evergreen'' ''/bundled/Field2d_E/image.png'']
   \<and> first_wins Config2d.name
        [field2d_record ''Field'' ''/user/Field2d_A/image.png'']
        [field2d_record ''Field'' ''/auto/Field2d_B/image.png'']
        [field2d_record ''Evergreen'' ''/bundled/Field2d_E/image.png'']
        (field2ds layers_loaded)
   \<and> find (\<lambda>other. Config2d.name other = ''Field'') (field2ds layers_loaded)
       = Some (field2d_record ''Field'' ''/user/Field2d_A/image.png'')"
proof -
  have l: "loadAssets test_env fs_layers = Inr layers_loaded" by code_simp
  have u: "user_folder test_env fs_layers = ''/user''" by code_simp
  have a: "AUTO_ASSETS test_env = ''/auto''" "BUNDLED_ASSETS test_env = ''/bundled''"
    by (simp_all add: test_env_def)
  have r: "folder_records field2ds test_env fs_layers ''/user''
       = [field2d_record ''Field'' ''/user/Field2d_A/image.png'']"
    "folder_records field2ds test_env fs_layers ''/auto''
       = [field2d_record ''Field'' ''/auto/Field2d_B/image.png'']"
    "folder_records field2ds test_env fs_layers ''/bundled''
       = [field2d_record ''Evergreen'' ''/bundled/Field2d_E/image.png'']"
    by code_simp+
  from duplicate_names_first_wins [OF l]
  have fw: "first_wins Config2d.name
        [field2d_record ''Field'' ''/user/Field2d_A/image.png'']
        [field2d_record ''Field'' ''/auto/Field2d_B/image.png'']
        [field2d_record ''Evergreen'' ''/bundled/Field2d_E/image.png'']
        (field2ds layers_loaded)"
    by (simp only: u a r)
  then have "find (\<lambda>other. Config2d.name other = ''Field'') (field2ds layers_loaded)
       = Some (field2d_record ''Field'' ''/user/Field2d_A/image.png'')"
    unfolding first_wins_def by (simp add: field2d_record_def)
  with l r fw show ?thesis by simp
qed

text \<open>
  Claim C7.  For a candidate with the prefix \<^verbatim>\<open>Field2d_\<close> whose descriptor is built into
  the record \<open>config\<close>, and whose image path decodes to \<open>imagePath\<close>, the callback
  admits the candidate (pushes the record and removes the name from the failure list)
  if and only if the name is not empty, both coordinates of \<^verbatim>\<open>topLeft\<close> and of
  \<^verbatim>\<open>bottomRight\<close> are non-negative, \<^verbatim>\<open>widthInches\<close> and \<^verbatim>\<open>heightInches\<close> are positive and
  the image exists; otherwise the name stays in the failure list.  When \<^verbatim>\<open>topLeft\<close> is
  still \<^verbatim>\<open>[-1, -1]\<close> the candidate is rejected whatever the other fields are, and
  \<^verbatim>\<open>topLeft\<close> is still \<^verbatim>\<open>[-1, -1]\<close> when the descriptor has no \<^verbatim>\<open>topLeft\<close> that is an
  array of two numbers.  The image path is \<^verbatim>\<open>image.png\<close> in the folder of the candidate
  (for a path whose leading segment holds no percent sign).
\<close>

theorem field2d_admission:
  assumes "is_candidate d" and "has_config env fs p d raw"
    and "startsWith (Dirent.name d) ''Field2d_''"
    and "build_Config2d env p (Dirent.name d) raw = Inr config"
  shows "(decodeURIComponent (Config2d.path config) = Inr imagePath \<longrightarrow>
          visit env fs p a d =
            Inr (if Config2d.name config \<noteq> []
                    \<and> 0 \<le> Config2d.topLeft config ! 0 \<and> 0 \<le> Config2d.topLeft config ! 1
                    \<and> 0 \<le> Config2d.bottomRight config ! 0
                    \<and> 0 \<le> Config2d.bottomRight config ! 1
                    \<and> 0 < Config2d.widthInches config \<and> 0 < Config2d.heightInches config
                    \<and> existsSync fs imagePath
                 then a\<lparr>field2ds := field2ds a @ [config],
                        loadFailures := remove1 (Dirent.name d) (loadFailures a @ [Dirent.name d])\<rparr>
                 else a\<lparr>loadFailures := loadFailures a @ [Dirent.name d]\<rparr>))
       \<and> (Config2d.topLeft config = [- 1, - 1] \<longrightarrow>
            visit env fs p a d = Inr (a\<lparr>loadFailures := loadFailures a @ [Dirent.name d]\<rparr>))
       \<and> (in_tuple ''topLeft'' raw ''number'' 2 = Inr False \<longrightarrow>
            Config2d.topLeft config = [- 1, - 1])
       \<and> (plain_drive (platform_of env) (path_join env [p, Dirent.name d, ''image.png'']) \<longrightarrow>
            decodeURIComponent (Config2d.path config)
              = Inr (path_join env [p, Dirent.name d, ''image.png'']))"
proof -
  note v = visit_field2d [OF assms(1-3), of a]
  have 1: "visit env fs p a d =
            Inr (if Config2d.name config \<noteq> []
                    \<and> 0 \<le> Config2d.topLeft config ! 0 \<and> 0 \<le> Config2d.topLeft config ! 1
                    \<and> 0 \<le> Config2d.bottomRight config ! 0
                    \<and> 0 \<le> Config2d.bottomRight config ! 1
                    \<and> 0 < Config2d.widthInches config \<and> 0 < Config2d.heightInches config
                    \<and> existsSync fs imagePath
                 then a\<lparr>field2ds := field2ds a @ [config],
                        loadFailures := remove1 (Dirent.name d) (loadFailures a @ [Dirent.name d])\<rparr>
                 else a\<lparr>loadFailures := loadFailures a @ [Dirent.name d]\<rparr>)"
    if "decodeURIComponent (Config2d.path config) = Inr imagePath"
    using v assms(4) admit_Config2d_decoded [OF that, of fs]
    by (simp add: bindE_def clear_candidate_def fail_candidate_def)
  have 2: "visit env fs p a d = Inr (a\<lparr>loadFailures := loadFailures a @ [Dirent.name d]\<rparr>)"
    if "Config2d.topLeft config = [- 1, - 1]"
  proof -
    have "admit_Config2d fs config = Inr False"
      using that by (simp add: admit_Config2d_def js_and_False)
    then show ?thesis using v assms(4) by (simp add: bindE_def fail_candidate_def)
  qed
  have 3: "Config2d.topLeft config = [- 1, - 1]"
    if "in_tuple ''topLeft'' raw ''number'' 2 = Inr False"
    using assms(4) that by (rule build_Config2d_default_topLeft)
  have 4: "decodeURIComponent (Config2d.path config)
              = Inr (path_join env [p, Dirent.name d, ''image.png''])"
    if "plain_drive (platform_of env) (path_join env [p, Dirent.name d, ''image.png''])"
    using that by (simp add: build_Config2d_path [OF assms(4)] decode_built_path)
  from 1 2 3 4 show ?thesis by blast
qed

theorem field2d_admission_witness:
  "decodeURIComponent (Config2d.path (field2d_record ''Alpha'' ''/user/Field2d_A/image.png''))
     = Inr ''/user/Field2d_A/image.png''
   \<and> visit test_env fs_models ''/user'' empty_assets (directory ''Field2d_A'')
     = Inr (empty_assets\<lparr>field2ds := [field2d_record ''Alpha'' ''/user/Field2d_A/image.png'']\<rparr>)
   \<and> in_tuple ''topLeft''
        (JObj [(''name'', JStr ''U''), (''bottomRight'', JArr [JNum 100, JNum 50]),
               (''widthInches'', JNum 648), (''heightInches'', JNum 324)]) ''number'' 2
       = Inr False
   \<and> visit test_env fs_models ''/user'' empty_assets (directory ''Field2d_U'')
       = Inr (empty_assets\<lparr>loadFailures := [''Field2d_U'']\<rparr>)"
proof -
  let ?rawU = "JObj [(''name'', JStr ''U''), (''bottomRight'', JArr [JNum 100, JNum 50]),
               (''widthInches'', JNum 648), (''heightInches'', JNum 324)]"
  let ?cU = "\<lparr> Config2d.name = ''U'', Config2d.path = ''/user/Field2d_U/image.png'',
       Config2d.sourceUrl = None, Config2d.topLeft = [- 1, - 1],
       Config2d.bottomRight = [100, 50], Config2d.widthInches = 648,
       Config2d.heightInches = 324, Config2d.defaultOrigin = ''auto'' \<rparr>"
  have candA: "is_candidate (directory ''Field2d_A'')"
    and candU: "is_candidate (directory ''Field2d_U'')" by code_simp+
  have cfgA: "has_config test_env fs_models ''/user'' (directory ''Field2d_A'')
      (field2d_descriptor ''Alpha'')" by code_simp
  have cfgU: "has_config test_env fs_models ''/user'' (directory ''Field2d_U'') ?rawU"
    by code_simp
  have preA: "startsWith (Dirent.name (directory ''Field2d_A'')) ''Field2d_''"
    and preU: "startsWith (Dirent.name (directory ''Field2d_U'')) ''Field2d_''" by code_simp+
  have bA: "build_Config2d test_env ''/user'' (Dirent.name (directory ''Field2d_A''))
      (field2d_descriptor ''Alpha'') = Inr (field2d_record ''Alpha'' ''/user/Field2d_A/image.png'')"
    by code_simp
  have bU: "build_Config2d test_env ''/user'' (Dirent.name (directory ''Field2d_U'')) ?rawU
      = Inr ?cU" by code_simp
  have eA: "existsSync fs_models ''/user/Field2d_A/image.png''" by code_simp
  have tU: "in_tuple ''topLeft'' ?rawU ''number'' 2 = Inr False" by code_simp
  note A = field2d_admission [OF candA cfgA preA bA, of "''/user/Field2d_A/image.png''"
      empty_assets]
  note U = field2d_admission [OF candU cfgU preU bU, of "''/user/Field2d_U/image.png''"
      empty_assets]
  have pj: "path_join test_env [''/user'', Dirent.name (directory ''Field2d_A''), ''image.png'']
      = ''/user/Field2d_A/image.png''" by code_simp
  have pl: "plain_drive (platform_of test_env)
      (path_join test_env [''/user'', Dirent.name (directory ''Field2d_A''), ''image.png''])"
    by code_simp
  from A pl
  have "decodeURIComponent (Config2d.path (field2d_record ''Alpha'' ''/user/Field2d_A/image.png''))
      = Inr (path_join test_env [''/user'', Dirent.name (directory ''Field2d_A''), ''image.png''])"
    by blast
  then have dA: "decodeURIComponent
      (Config2d.path (field2d_record ''Alpha'' ''/user/Field2d_A/image.png''))
      = Inr ''/user/Field2d_A/image.png''"
    by (simp only: pj)
  from A dA eA
  have 1: "visit test_env fs_models ''/user'' empty_assets (directory ''Field2d_A'')
     = Inr (empty_assets\<lparr>field2ds := [field2d_record ''Alpha'' ''/user/Field2d_A/image.png'']\<rparr>)"
    by (simp add: field2d_record_def empty_assets_def directory_def)
  from U tU
  have 2: "visit test_env fs_models ''/user'' empty_assets (directory ''Field2d_U'')
       = Inr (empty_assets\<lparr>loadFailures := [''Field2d_U'']\<rparr>)"
    by (simp add: empty_assets_def directory_def)
  from dA 1 2 tU show ?thesis by simp
qed

text \<open>
  Claim C8.  For a candidate with the prefix \<^verbatim>\<open>Joystick_\<close> whose descriptor is built into
  the record \<open>config\<close>, and whose image path decodes to \<open>imagePath\<close>, the callback
  admits the candidate if and only if the name is not empty, the image exists, every
  button and every axis has a positive width, a positive height and a non-negative
  source index, and every joystick component has a positive radius and non-negative x
  and y source indices; otherwise the name stays in the failure list.  A record that
  holds a button of size \<^verbatim>\<open>[0, 5]\<close> is rejected whatever its other fields are.  The image
  path is \<^verbatim>\<open>image.png\<close> in the folder of the candidate (for a path whose leading segment
  holds no percent sign).
\<close>

theorem joystick_admission:
  assumes "is_candidate d" and "has_config env fs p d raw"
    and "startsWith (Dirent.name d) ''Joystick_''"
    and "build_ConfigJoystick env p (Dirent.name d) raw = Inr config"
  shows "(decodeURIComponent (ConfigJoystick.path config) = Inr imagePath \<longrightarrow>
          visit env fs p a d =
            Inr (if ConfigJoystick.name config \<noteq> []
                    \<and> (\<forall>b. Button b \<in> set (ConfigJoystick.components config) \<longrightarrow>
                          0 < ConfigJoystick_Button.sizePx b ! 0
                          \<and> 0 < ConfigJoystick_Button.sizePx b ! 1
                          \<and> 0 \<le> ConfigJoystick_Button.sourceIndex b)
                    \<and> (\<forall>j. Joystick j \<in> set (ConfigJoystick.components config) \<longrightarrow>
                          0 < ConfigJoystick_Joystick.radiusPx j
                          \<and> 0 \<le> ConfigJoystick_Joystick.xSourceIndex j
                          \<and> 0 \<le> ConfigJoystick_Joystick.ySourceIndex j)
                    \<and> (\<forall>x. Axis x \<in> set (ConfigJoystick.components config) \<longrightarrow>
                          0 < ConfigJoystick_Axis.sizePx x ! 0
                          \<and> 0 < ConfigJoystick_Axis.sizePx x ! 1
                          \<and> 0 \<le> ConfigJoystick_Axis.sourceIndex x)
                    \<and> existsSync fs imagePath
                 then a\<lparr>joysticks := joysticks a @ [config],
                        loadFailures := remove1 (Dirent.name d) (loadFailures a @ [Dirent.name d])\<rparr>
                 else a\<lparr>loadFailures := loadFailures a @ [Dirent.name d]\<rparr>))
       \<and> (Button button \<in> set (ConfigJoystick.components config)
            \<and> ConfigJoystick_Button.sizePx button = [0, 5] \<longrightarrow>
            visit env fs p a d = Inr (a\<lparr>loadFailures := loadFailures a @ [Dirent.name d]\<rparr>))
       \<and> (plain_drive (platform_of env) (path_join env [p, Dirent.name d, ''image.png'']) \<longrightarrow>
            decodeURIComponent (ConfigJoystick.path config)
              = Inr (path_join env [p, Dirent.name d, ''image.png'']))"
proof -
  note v = visit_joystick [OF assms(1-3), of a]
  have 1: "visit env fs p a d =
            Inr (if ConfigJoystick.name config \<noteq> []
                    \<and> (\<forall>b. Button b \<in> set (ConfigJoystick.components config) \<longrightarrow>
                          0 < ConfigJoystick_Button.sizePx b ! 0
                          \<and> 0 < ConfigJoystick_Button.sizePx b ! 1
                          \<and> 0 \<le> ConfigJoystick_Button.sourceIndex b)
                    \<and> (\<forall>j. Joystick j \<in> set (ConfigJoystick.components config) \<longrightarrow>
                          0 < ConfigJoystick_Joystick.radiusPx j
                          \<and> 0 \<le> ConfigJoystick_Joystick.xSourceIndex j
                          \<and> 0 \<le> ConfigJoystick_Joystick.ySourceIndex j)
                    \<and> (\<forall>x. Axis x \<in> set (ConfigJoystick.components config) \<longrightarrow>
                          0 < ConfigJoystick_Axis.sizePx x ! 0
                          \<and> 0 < ConfigJoystick_Axis.sizePx x ! 1
                          \<and> 0 \<le> ConfigJoystick_Axis.sourceIndex x)
                    \<and> existsSync fs imagePath
                 then a\<lparr>joysticks := joysticks a @ [config],
                        loadFailures := remove1 (Dirent.name d) (loadFailures a @ [Dirent.name d])\<rparr>
                 else a\<lparr>loadFailures := loadFailures a @ [Dirent.name d]\<rparr>)"
    if dec: "decodeURIComponent (ConfigJoystick.path config) = Inr imagePath"
  proof -
    define admitted where "admitted \<longleftrightarrow> ConfigJoystick.name config \<noteq> []
                    \<and> (\<forall>b. Button b \<in> set (ConfigJoystick.components config) \<longrightarrow>
                          0 < ConfigJoystick_Button.sizePx b ! 0
                          \<and> 0 < ConfigJoystick_Button.sizePx b ! 1
                          \<and> 0 \<le> ConfigJoystick_Button.sourceIndex b)
                    \<and> (\<forall>j. Joystick j \<in> set (ConfigJoystick.components config) \<longrightarrow>
                          0 < ConfigJoystick_Joystick.radiusPx j
                          \<and> 0 \<le> ConfigJoystick_Joystick.xSourceIndex j
                          \<and> 0 \<le> ConfigJoystick_Joystick.ySourceIndex j)
                    \<and> (\<forall>x. Axis x \<in> set (ConfigJoystick.components config) \<longrightarrow>
                          0 < ConfigJoystick_Axis.sizePx x ! 0
                          \<and> 0 < ConfigJoystick_Axis.sizePx x ! 1
                          \<and> 0 \<le> ConfigJoystick_Axis.sourceIndex x)
                    \<and> existsSync fs imagePath"
    have adm: "admit_ConfigJoystick fs config = Inr admitted"
      unfolding admitted_def admit_ConfigJoystick_decoded [OF dec] component_ok_all
      by (simp only: conj_assoc)
    have "visit env fs p a d =
        Inr (if admitted
             then a\<lparr>joysticks := joysticks a @ [config],
                    loadFailures := remove1 (Dirent.name d) (loadFailures a @ [Dirent.name d])\<rparr>
             else a\<lparr>loadFailures := loadFailures a @ [Dirent.name d]\<rparr>)"
      using adm
      by (simp add: v assms(4) bindE_def clear_candidate_def fail_candidate_def)
    then show ?thesis by (simp only: admitted_def)
  qed
  have 2: "visit env fs p a d = Inr (a\<lparr>loadFailures := loadFailures a @ [Dirent.name d]\<rparr>)"
    if b: "Button button \<in> set (ConfigJoystick.components config)"
      and z: "ConfigJoystick_Button.sizePx button = [0, 5]"
  proof -
    have "\<not> component_ok (Button button)" using z by simp
    then have "\<not> list_all component_ok (ConfigJoystick.components config)"
      using b unfolding list_all_iff by blast
    then have "admit_ConfigJoystick fs config = Inr False"
      by (simp add: admit_ConfigJoystick_def js_and_False)
    then show ?thesis using v assms(4) by (simp add: bindE_def fail_candidate_def)
  qed
  have 3: "decodeURIComponent (ConfigJoystick.path config)
              = Inr (path_join env [p, Dirent.name d, ''image.png''])"
    if "plain_drive (platform_of env) (path_join env [p, Dirent.name d, ''image.png''])"
    using that by (simp add: build_ConfigJoystick_path [OF assms(4)] decode_built_path)
  from 1 2 3 show ?thesis by blast
qed

theorem joystick_admission_witness:
  "visit test_env fs_models ''/user'' empty_assets (directory ''Joystick_J'')
     = Inr (empty_assets\<lparr>joysticks :=
              [\<lparr> ConfigJoystick.name = ''J'', ConfigJoystick.path = ''/user/Joystick_J/image.png'',
                  ConfigJoystick.components = [] \<rparr>]\<rparr>)
   \<and> existsSync fs_models ''/user/Joystick_K/image.png''
   \<and> visit test_env fs_models ''/user'' empty_assets (directory ''Joystick_K'')
       = Inr (empty_assets\<lparr>loadFailures := [''Joystick_K'']\<rparr>)"
proof -
  let ?rawJ = "JObj [(''name'', JStr ''J'')]"
  let ?rawK = "JObj [(''name'', JStr ''K''),
                 (''components'',
                    JArr [JObj [(''type'', JStr ''button''), (''sizePx'', JArr [JNum 0, JNum 5]),
                                (''sourceIndex'', JNum 1)]])]"
  let ?J = "\<lparr> ConfigJoystick.name = ''J'', ConfigJoystick.path = ''/user/Joystick_J/image.png'',
                  ConfigJoystick.components = [] \<rparr>"
  let ?B = "\<lparr> ConfigJoystick_Button.isYellow = False, ConfigJoystick_Button.isEllipse = False,
       ConfigJoystick_Button.centerPx = [0, 0], ConfigJoystick_Button.sizePx = [0, 5],
       ConfigJoystick_Button.sourceIndex = 1, ConfigJoystick_Button.sourcePov = None \<rparr>"
  let ?K = "\<lparr> ConfigJoystick.name = ''K'', ConfigJoystick.path = ''/user/Joystick_K/image.png'',
                  ConfigJoystick.components = [Button ?B] \<rparr>"
  have candJ: "is_candidate (directory ''Joystick_J'')"
    and candK: "is_candidate (directory ''Joystick_K'')" by code_simp+
  have cfgJ: "has_config test_env fs_models ''/user'' (directory ''Joystick_J'') ?rawJ"
    by code_simp
  have cfgK: "has_config test_env fs_models ''/user'' (directory ''Joystick_K'') ?rawK"
    by code_simp
  have preJ: "startsWith (Dirent.name (directory ''Joystick_J'')) ''Joystick_''"
    and preK: "startsWith (Dirent.name (directory ''Joystick_K'')) ''Joystick_''" by code_simp+
  have bJ: "build_ConfigJoystick test_env ''/user'' (Dirent.name (directory ''Joystick_J'')) ?rawJ
      = Inr ?J" by code_simp
  have bK: "build_ConfigJoystick test_env ''/user'' (Dirent.name (directory ''Joystick_K'')) ?rawK
      = Inr ?K" by code_simp
  have files: "existsSync fs_models ''/user/Joystick_J/image.png''"
    "existsSync fs_models ''/user/Joystick_K/image.png''" by code_simp+
  have inK: "Button ?B \<in> set (ConfigJoystick.components ?K)
      \<and> ConfigJoystick_Button.sizePx ?B = [0, 5]" by simp
  define resultJ where "resultJ = visit test_env fs_models ''/user'' empty_assets (directory ''Joystick_J'')"
  define resultK where "resultK = visit test_env fs_models ''/user'' empty_assets (directory ''Joystick_K'')"
  note J = joystick_admission [OF candJ cfgJ preJ bJ, of "''/user/Joystick_J/image.png''"
      empty_assets]
  note K = joystick_admission [OF candK cfgK preK bK, of _ empty_assets ?B]
  have pj: "path_join test_env [''/user'', Dirent.name (directory ''Joystick_J''), ''image.png'']
      = ''/user/Joystick_J/image.png''" by code_simp
  have pl: "plain_drive (platform_of test_env)
      (path_join test_env [''/user'', Dirent.name (directory ''Joystick_J''), ''image.png''])"
    by code_simp
  from J pl
  have "decodeURIComponent (ConfigJoystick.path ?J)
      = Inr (path_join test_env [''/user'', Dirent.name (directory ''Joystick_J''), ''image.png''])"
    by blast
  then have dJ: "decodeURIComponent (ConfigJoystick.path ?J) = Inr ''/user/Joystick_J/image.png''"
    by (simp only: pj)
  from J dJ have "resultJ =
      Inr (if ConfigJoystick.name ?J \<noteq> []
              \<and> (\<forall>b. Button b \<in> set (ConfigJoystick.components ?J) \<longrightarrow>
                    0 < ConfigJoystick_Button.sizePx b ! 0
                    \<and> 0 < ConfigJoystick_Button.sizePx b ! 1
                    \<and> 0 \<le> ConfigJoystick_Button.sourceIndex b)
              \<and> (\<forall>j. Joystick j \<in> set (ConfigJoystick.components ?J) \<longrightarrow>
                    0 < ConfigJoystick_Joystick.radiusPx j
                    \<and> 0 \<le> ConfigJoystick_Joystick.xSourceIndex j
                    \<and> 0 \<le> ConfigJoystick_Joystick.ySourceIndex j)
              \<and> (\<forall>x. Axis x \<in> set (ConfigJoystick.components ?J) \<longrightarrow>
                    0 < ConfigJoystick_Axis.sizePx x ! 0
                    \<and> 0 < ConfigJoystick_Axis.sizePx x ! 1
                    \<and> 0 \<le> ConfigJoystick_Axis.sourceIndex x)
              \<and> existsSync fs_models ''/user/Joystick_J/image.png''
           then empty_assets\<lparr>joysticks := joysticks empty_assets @ [?J],
                  loadFailures := remove1 (Dirent.name (directory ''Joystick_J''))
                    (loadFailures empty_assets @ [Dirent.name (directory ''Joystick_J'')])\<rparr>
           else empty_assets\<lparr>loadFailures :=
                  loadFailures empty_assets @ [Dirent.name (directory ''Joystick_J'')]\<rparr>)"
    unfolding resultJ_def by blast
  then have 1: "visit test_env fs_models ''/user'' empty_assets (directory ''Joystick_J'')
     = Inr (empty_assets\<lparr>joysticks := [?J]\<rparr>)"
    unfolding resultJ_def [symmetric] by (simp add: files empty_assets_def directory_def)
  from K inK have "resultK =
      Inr (empty_assets\<lparr>loadFailures :=
             loadFailures empty_assets @ [Dirent.name (directory ''Joystick_K'')]\<rparr>)"
    unfolding resultK_def by blast
  then have 2: "visit test_env fs_models ''/user'' empty_assets (directory ''Joystick_K'')
       = Inr (empty_assets\<lparr>loadFailures := [''Joystick_K'']\<rparr>)"
    unfolding resultK_def [symmetric] by (simp add: empty_assets_def directory_def)
  from 1 2 files show ?thesis by simp
qed

text \<open>
  Claim C9.  \<^verbatim>\<open>encodePath\<close> splits the path on the platform separator, percent-encodes
  every segment on its own except a leading segment that ends in a colon, and joins the
  segments with the same separator.  No space and no \<^verbatim>\<open>#\<close> is left in a segment that is
  not a drive letter: a space is written \<^verbatim>\<open>%20\<close> and a \<^verbatim>\<open>#\<close> is written \<^verbatim>\<open>%23\<close>.
  Percent-decoding every segment of the result that is not a drive letter gives the
  original path back.
\<close>

theorem encodePath_segments_round_trip:
  "split_sep (path_sep pf) (encodePath pf p)
     = map (\<lambda>(index, component).
              if index = 0 \<and> endsWith component '':'' then component
              else encodeURIComponent component)
         (enumerate 0 (split_sep (path_sep pf) p))
   \<and> join_sep (path_sep pf) (split_sep (path_sep pf) (encodePath pf p)) = encodePath pf p
   \<and> (\<forall>ic \<in> set (enumerate 0 (split_sep (path_sep pf) (encodePath pf p))).
        \<not> (fst ic = 0 \<and> endsWith (snd ic) '':'') \<longrightarrow>
          CHR '' '' \<notin> set (snd ic) \<and> CHR ''#'' \<notin> set (snd ic))
   \<and> encodeURIComponent (a @ '' '' @ b) = encodeURIComponent a @ ''%20'' @ encodeURIComponent b
   \<and> encodeURIComponent (a @ ''#'' @ b) = encodeURIComponent a @ ''%23'' @ encodeURIComponent b
   \<and> decodePath pf (encodePath pf p) = Inr p"
proof -
  have comp: "encodePath_component =
      (\<lambda>(index, component).
         if index = 0 \<and> endsWith component '':'' then component
         else encodeURIComponent component)"
    by (rule ext) (simp add: encodePath_component_def)
  have 1: "split_sep (path_sep pf) (encodePath pf p)
     = map (\<lambda>(index, component).
              if index = 0 \<and> endsWith component '':'' then component
              else encodeURIComponent component)
         (enumerate 0 (split_sep (path_sep pf) p))"
    using split_encodePath [of pf p] by (simp only: comp)
  have 3: "\<forall>ic \<in> set (enumerate 0 (split_sep (path_sep pf) (encodePath pf p))).
        \<not> (fst ic = 0 \<and> endsWith (snd ic) '':'') \<longrightarrow>
          CHR '' '' \<notin> set (snd ic) \<and> CHR ''#'' \<notin> set (snd ic)"
    using encoded_segments_clean [of _ _ pf p] by (metis prod.collapse)
  have 2: "join_sep (path_sep pf) (split_sep (path_sep pf) (encodePath pf p)) = encodePath pf p"
    by (rule join_split_sep)
  have 4: "encodeURIComponent (a @ '' '' @ b)
      = encodeURIComponent a @ ''%20'' @ encodeURIComponent b"
    by (simp only: encodeURIComponent_append encodeURIComponent_space)
  have 5: "encodeURIComponent (a @ ''#'' @ b)
      = encodeURIComponent a @ ''%23'' @ encodeURIComponent b"
    by (simp only: encodeURIComponent_append encodeURIComponent_hash)
  have 6: "decodePath pf (encodePath pf p) = Inr p"
    by (rule decodePath_encodePath)
  from 1 2 3 4 5 6 show ?thesis by blast
qed

theorem encodePath_segments_round_trip_witness:
  "encodePath posix ''C:/my docs/a#b'' = ''C:/my%20docs/a%23b''
   \<and> split_sep CHR ''/'' ''C:/my%20docs/a%23b'' = [''C:'', ''my%20docs'', ''a%23b'']
   \<and> CHR '' '' \<notin> set ''my%20docs'' \<and> CHR ''#'' \<notin> set ''a%23b''
   \<and> decodePath posix ''C:/my%20docs/a%23b'' = Inr ''C:/my docs/a#b''"
proof -
  have e: "encodePath posix ''C:/my docs/a#b'' = ''C:/my%20docs/a%23b''" by code_simp
  have s: "split_sep CHR ''/'' ''C:/my%20docs/a%23b'' = [''C:'', ''my%20docs'', ''a%23b'']"
    by code_simp
  note t = encodePath_segments_round_trip [of posix "''C:/my docs/a#b''" "[]" "[]"]
  have m1: "(1, ''my%20docs'') \<in> set (enumerate 0 (split_sep (path_sep posix) (encodePath posix ''C:/my docs/a#b'')))"
    by (simp add: e s del: split_sep.simps)
  have m2: "(2, ''a%23b'') \<in> set (enumerate 0 (split_sep (path_sep posix) (encodePath posix ''C:/my docs/a#b'')))"
    by (simp add: e s del: split_sep.simps)
  from t m1 have c1: "CHR '' '' \<notin> set ''my%20docs''" by fastforce
  from t m2 have c2: "CHR ''#'' \<notin> set ''a%23b''" by fastforce
  from t have "decodePath posix (encodePath posix ''C:/my docs/a#b'') = Inr ''C:/my docs/a#b''"
    by blast
  with e s c1 c2 show ?thesis by simp
qed

text \<open>
  Claim C10.  The components of a joystick record are empty when the descriptor has no
  \<^verbatim>\<open>components\<close> that is an array, or when every element of the array is dropped (which
  includes the empty array); an element that is an object is dropped when it has no
  \<^verbatim>\<open>type\<close> that is a string or when the type is none of \<^verbatim>\<open>button\<close>, \<^verbatim>\<open>joystick\<close> and
  \<^verbatim>\<open>axis\<close>.  A joystick candidate whose record has no components is admitted when its
  name is not empty and its image exists.  In the same way a 3D field without game
  pieces, with a name and positive dimensions, and a robot without components, with a
  name and named cameras, are admitted when the primary model exists: no auxiliary file
  is asked for.  The image path of a joystick is \<^verbatim>\<open>image.png\<close> in the folder of the
  candidate (for a path whose leading segment holds no percent sign).
\<close>

theorem empty_lists_need_no_files:
  assumes "is_candidate d" and "has_config env fs p d raw"
  shows "(in_array ''components'' raw = Inr False
            \<or> (\<forall>item \<in> set (js_array (js_get raw ''components'')).
                  build_JoystickComponent item = Inr None)
          \<longrightarrow> (\<exists>config. build_ConfigJoystick env p (Dirent.name d) raw = Inr config
                  \<and> ConfigJoystick.components config = []))
       \<and> (item \<noteq> JNull \<and> typeof item = ''object''
           \<and> (in_typeof ''type'' item ''string'' = Inr False
               \<or> js_string (js_get item ''type'') \<notin> set [''button'', ''joystick'', ''axis''])
          \<longrightarrow> build_JoystickComponent item = Inr None)
       \<and> (startsWith (Dirent.name d) ''Joystick_''
           \<and> build_ConfigJoystick env p (Dirent.name d) raw = Inr joystick
           \<and> ConfigJoystick.components joystick = []
           \<and> ConfigJoystick.name joystick \<noteq> []
           \<and> decodeURIComponent (ConfigJoystick.path joystick) = Inr imagePath
           \<and> existsSync fs imagePath
          \<longrightarrow> visit env fs p a d =
                Inr (a\<lparr>joysticks := joysticks a @ [joystick],
                       loadFailures :=
                         remove1 (Dirent.name d) (loadFailures a @ [Dirent.name d])\<rparr>))
       \<and> (startsWith (Dirent.name d) ''Field3d_''
           \<and> build_Config3dField env p (Dirent.name d) raw = Inr field
           \<and> Config3dField.gamePieces field = []
           \<and> Config3dField.name field \<noteq> []
           \<and> 0 < Config3dField.widthInches field \<and> 0 < Config3dField.heightInches field
           \<and> decodeURIComponent (Config3dField.path field) = Inr model
           \<and> existsSync fs model
          \<longrightarrow> visit env fs p a d =
                Inr (a\<lparr>field3ds := field3ds a @ [field],
                       loadFailures :=
                         remove1 (Dirent.name d) (loadFailures a @ [Dirent.name d])\<rparr>))
       \<and> (startsWith (Dirent.name d) ''Robot_''
           \<and> build_Config3dRobot env p (Dirent.name d) raw = Inr robot
           \<and> Config3dRobot.components robot = []
           \<and> Config3dRobot.name robot \<noteq> []
           \<and> (\<forall>camera \<in> set (Config3dRobot.cameras robot). Config3dRobot_Camera.name camera \<noteq> [])
           \<and> decodeURIComponent (Config3dRobot.path robot) = Inr robotModel
           \<and> existsSync fs robotModel
          \<longrightarrow> visit env fs p a d =
                Inr (a\<lparr>robots := robots a @ [robot],
                       loadFailures :=
                         remove1 (Dirent.name d) (loadFailures a @ [Dirent.name d])\<rparr>))
       \<and> (build_ConfigJoystick env p (Dirent.name d) raw = Inr joystick
           \<and> plain_drive (platform_of env) (path_join env [p, Dirent.name d, ''image.png''])
          \<longrightarrow> decodeURIComponent (ConfigJoystick.path joystick)
                = Inr (path_join env [p, Dirent.name d, ''image.png'']))"
proof -
  have obj: "raw \<noteq> JNull" "typeof raw = ''object''"
    using assms(2) by (simp_all add: has_config_def)
  have 1: "\<exists>config. build_ConfigJoystick env p (Dirent.name d) raw = Inr config
                  \<and> ConfigJoystick.components config = []"
    if "in_array ''components'' raw = Inr False
            \<or> (\<forall>item \<in> set (js_array (js_get raw ''components'')).
                  build_JoystickComponent item = Inr None)"
    using obj that by (rule build_ConfigJoystick_empty)
  have 2: "build_JoystickComponent item = Inr None"
    if "item \<noteq> JNull" "typeof item = ''object''"
      "in_typeof ''type'' item ''string'' = Inr False
         \<or> js_string (js_get item ''type'') \<notin> set [''button'', ''joystick'', ''axis'']"
    using that by (rule build_JoystickComponent_dropped)
  have 3: "visit env fs p a d =
                Inr (a\<lparr>joysticks := joysticks a @ [joystick],
                       loadFailures :=
                         remove1 (Dirent.name d) (loadFailures a @ [Dirent.name d])\<rparr>)"
    if "startsWith (Dirent.name d) ''Joystick_''"
      "build_ConfigJoystick env p (Dirent.name d) raw = Inr joystick"
      "ConfigJoystick.components joystick = []" "ConfigJoystick.name joystick \<noteq> []"
      "decodeURIComponent (ConfigJoystick.path joystick) = Inr imagePath"
      "existsSync fs imagePath"
    using that admit_ConfigJoystick_decoded [OF that(5), of fs]
    by (simp add: visit_joystick [OF assms that(1)] bindE_def clear_candidate_def)
  have 4: "visit env fs p a d =
                Inr (a\<lparr>field3ds := field3ds a @ [field],
                       loadFailures :=
                         remove1 (Dirent.name d) (loadFailures a @ [Dirent.name d])\<rparr>)"
    if "startsWith (Dirent.name d) ''Field3d_''"
      "build_Config3dField env p (Dirent.name d) raw = Inr field"
      "Config3dField.gamePieces field = []" "Config3dField.name field \<noteq> []"
      "0 < Config3dField.widthInches field" "0 < Config3dField.heightInches field"
      "decodeURIComponent (Config3dField.path field) = Inr model" "existsSync fs model"
    using that admit_Config3dField_decoded [OF that(7), of fs]
    by (simp add: visit_field3d [OF assms that(1)] bindE_def clear_candidate_def)
  have 5: "visit env fs p a d =
                Inr (a\<lparr>robots := robots a @ [robot],
                       loadFailures :=
                         remove1 (Dirent.name d) (loadFailures a @ [Dirent.name d])\<rparr>)"
    if "startsWith (Dirent.name d) ''Robot_''"
      "build_Config3dRobot env p (Dirent.name d) raw = Inr robot"
      "Config3dRobot.components robot = []" "Config3dRobot.name robot \<noteq> []"
      "\<forall>camera \<in> set (Config3dRobot.cameras robot). Config3dRobot_Camera.name camera \<noteq> []"
      "decodeURIComponent (Config3dRobot.path robot) = Inr robotModel"
      "existsSync fs robotModel"
    using that admit_Config3dRobot_decoded [OF that(6), of fs]
    by (simp add: visit_robot [OF assms that(1)] bindE_def clear_candidate_def list_all_iff)
  have 6: "decodeURIComponent (ConfigJoystick.path joystick)
                = Inr (path_join env [p, Dirent.name d, ''image.png''])"
    if "build_ConfigJoystick env p (Dirent.name d) raw = Inr joystick"
      "plain_drive (platform_of env) (path_join env [p, Dirent.name d, ''image.png''])"
    using that by (simp add: build_ConfigJoystick_path [OF that(1)] decode_built_path)
  from 1 2 3 4 5 6 show ?thesis by blast
qed


theorem empty_lists_need_no_files_witness:
  "build_JoystickComponent (JObj [(''type'', JStr ''slider'')]) = Inr None
   \<and> in_array ''components'' (JObj [(''name'', JStr ''J'')]) = Inr False
   \<and> (\<exists>config. build_ConfigJoystick test_env ''/user'' ''Joystick_J'' (JObj [(''name'', JStr ''J'')])
                   = Inr config
         \<and> ConfigJoystick.components config = [])
   \<and> visit test_env fs_models ''/user'' empty_assets (directory ''Joystick_L'')
       = Inr (empty_assets\<lparr>joysticks :=
                [\<lparr> ConfigJoystick.name = ''L'', ConfigJoystick.path = ''/user/Joystick_L/image.png'',
                    ConfigJoystick.components = [] \<rparr>]\<rparr>)
   \<and> (\<exists>field. Config3dField.gamePieces field = []
         \<and> visit test_env fs_models ''/user'' empty_assets (directory ''Field3d_G'')
             = Inr (empty_assets\<lparr>field3ds := [field]\<rparr>))
   \<and> (\<exists>robot. Config3dRobot.components robot = []
         \<and> visit test_env fs_models ''/user'' empty_assets (directory ''Robot_S'')
             = Inr (empty_assets\<lparr>robots := [robot]\<rparr>))"
proof -
  let ?rawJ = "JObj [(''name'', JStr ''J'')]"
  let ?rawL = "JObj [(''name'', JStr ''L''),
                 (''components'', JArr [JObj [(''type'', JStr ''slider'')], JObj []])]"
  let ?rawG = "JObj [(''name'', JStr ''G''), (''widthInches'', JNum 100), (''heightInches'', JNum 50)]"
  let ?rawS = "JObj [(''name'', JStr ''S'')]"
  let ?L = "\<lparr> ConfigJoystick.name = ''L'', ConfigJoystick.path = ''/user/Joystick_L/image.png'',
                    ConfigJoystick.components = [] \<rparr>"
  let ?G = "\<lparr> Config3dField.name = ''G'', Config3dField.path = ''/user/Field3d_G/model.glb'',
       Config3dField.sourceUrl = None, Config3dField.rotations = JArr [],
       Config3dField.widthInches = 100, Config3dField.heightInches = 50,
       Config3dField.defaultOrigin = ''auto'', Config3dField.driverStations = JArr [],
       Config3dField.gamePieces = [] \<rparr>"
  let ?S = "\<lparr> Config3dRobot.name = ''S'', Config3dRobot.path = ''/user/Robot_S/model.glb'',
       Config3dRobot.sourceUrl = None, Config3dRobot.rotations = JArr [],
       Config3dRobot.position = [0, 0, 0], Config3dRobot.cameras = [],
       Config3dRobot.components = [], Config3dRobot.disableSimplification = False \<rparr>"
  have cand: "is_candidate (directory ''Joystick_J'')" "is_candidate (directory ''Joystick_L'')"
    "is_candidate (directory ''Field3d_G'')" "is_candidate (directory ''Robot_S'')"
    by code_simp+
  have cfgJ: "has_config test_env fs_models ''/user'' (directory ''Joystick_J'') ?rawJ"
    and cfgL: "has_config test_env fs_models ''/user'' (directory ''Joystick_L'') ?rawL"
    and cfgG: "has_config test_env fs_models ''/user'' (directory ''Field3d_G'') ?rawG"
    and cfgS: "has_config test_env fs_models ''/user'' (directory ''Robot_S'') ?rawS"
    by code_simp+
  have pre: "startsWith (Dirent.name (directory ''Joystick_L'')) ''Joystick_''"
    "startsWith (Dirent.name (directory ''Field3d_G'')) ''Field3d_''"
    "startsWith (Dirent.name (directory ''Robot_S'')) ''Robot_''"
    by code_simp+
  have bL: "build_ConfigJoystick test_env ''/user'' (Dirent.name (directory ''Joystick_L'')) ?rawL
      = Inr ?L" by code_simp
  have bG: "build_Config3dField test_env ''/user'' (Dirent.name (directory ''Field3d_G'')) ?rawG
      = Inr ?G" by code_simp
  have bS: "build_Config3dRobot test_env ''/user'' (Dirent.name (directory ''Robot_S'')) ?rawS
      = Inr ?S" by code_simp
  have dec: "decodeURIComponent (Config3dField.path ?G) = Inr ''/user/Field3d_G/model.glb''"
    "decodeURIComponent (Config3dRobot.path ?S) = Inr ''/user/Robot_S/model.glb''"
    by code_simp+
  have pj: "path_join test_env [''/user'', Dirent.name (directory ''Joystick_L''), ''image.png'']
      = ''/user/Joystick_L/image.png''" by code_simp
  have pl: "plain_drive (platform_of test_env)
      (path_join test_env [''/user'', Dirent.name (directory ''Joystick_L''), ''image.png''])"
    by code_simp
  have files: "existsSync fs_models ''/user/Joystick_L/image.png''"
    "existsSync fs_models ''/user/Field3d_G/model.glb''"
    "existsSync fs_models ''/user/Robot_S/model.glb''"
    by code_simp+
  have okL: "ConfigJoystick.components ?L = []" "ConfigJoystick.name ?L \<noteq> []" by simp_all
  have okG: "Config3dField.gamePieces ?G = []" "Config3dField.name ?G \<noteq> []"
    "0 < Config3dField.widthInches ?G" "0 < Config3dField.heightInches ?G" by simp_all
  have okS: "Config3dRobot.components ?S = []" "Config3dRobot.name ?S \<noteq> []"
    "\<forall>camera \<in> set (Config3dRobot.cameras ?S). Config3dRobot_Camera.name camera \<noteq> []"
    by simp_all
  have slider: "JObj [(''type'', JStr ''slider'')] \<noteq> JNull"
    "typeof (JObj [(''type'', JStr ''slider'')]) = ''object''"
    "js_string (js_get (JObj [(''type'', JStr ''slider'')]) ''type'')
       \<notin> set [''button'', ''joystick'', ''axis'']"
    by code_simp+
  have noarr: "in_array ''components'' ?rawJ = Inr False" by code_simp
  have nameJ: "Dirent.name (directory ''Joystick_J'') = ''Joystick_J''"
    by (simp add: directory_def)
  define resultL where "resultL = visit test_env fs_models ''/user'' empty_assets (directory ''Joystick_L'')"
  define resultG where "resultG = visit test_env fs_models ''/user'' empty_assets (directory ''Field3d_G'')"
  define resultS where "resultS = visit test_env fs_models ''/user'' empty_assets (directory ''Robot_S'')"
  note J = empty_lists_need_no_files [OF cand(1) cfgJ,
      of "JObj [(''type'', JStr ''slider'')]"]
  note L = empty_lists_need_no_files [OF cand(2) cfgL,
      of _ ?L "''/user/Joystick_L/image.png''" empty_assets]
  note G = empty_lists_need_no_files [OF cand(3) cfgG,
      of _ _ _ empty_assets ?G "''/user/Field3d_G/model.glb''"]
  note S = empty_lists_need_no_files [OF cand(4) cfgS,
      of _ _ _ empty_assets _ _ ?S "''/user/Robot_S/model.glb''"]
  from J slider have 1: "build_JoystickComponent (JObj [(''type'', JStr ''slider'')]) = Inr None"
    by blast
  from J noarr have "\<exists>config. build_ConfigJoystick test_env ''/user''
        (Dirent.name (directory ''Joystick_J'')) ?rawJ = Inr config
      \<and> ConfigJoystick.components config = []"
    by blast
  then have 2: "\<exists>config. build_ConfigJoystick test_env ''/user'' ''Joystick_J'' ?rawJ = Inr config
      \<and> ConfigJoystick.components config = []"
    by (simp only: nameJ)
  from L bL pl
  have "decodeURIComponent (ConfigJoystick.path ?L)
      = Inr (path_join test_env [''/user'', Dirent.name (directory ''Joystick_L''), ''image.png''])"
    by blast
  then have decL: "decodeURIComponent (ConfigJoystick.path ?L) = Inr ''/user/Joystick_L/image.png''"
    by (simp only: pj)
  from L pre(1) bL okL decL files(1)
  have "resultL = Inr (empty_assets\<lparr>joysticks := joysticks empty_assets @ [?L],
          loadFailures := remove1 (Dirent.name (directory ''Joystick_L''))
            (loadFailures empty_assets @ [Dirent.name (directory ''Joystick_L'')])\<rparr>)"
    unfolding resultL_def by blast
  then have 3: "visit test_env fs_models ''/user'' empty_assets (directory ''Joystick_L'')
       = Inr (empty_assets\<lparr>joysticks := [?L]\<rparr>)"
    unfolding resultL_def [symmetric] by (simp add: empty_assets_def directory_def)
  from G pre(2) bG okG dec(1) files(2)
  have "resultG = Inr (empty_assets\<lparr>field3ds := field3ds empty_assets @ [?G],
          loadFailures := remove1 (Dirent.name (directory ''Field3d_G''))
            (loadFailures empty_assets @ [Dirent.name (directory ''Field3d_G'')])\<rparr>)"
    unfolding resultG_def by blast
  then have "visit test_env fs_models ''/user'' empty_assets (directory ''Field3d_G'')
       = Inr (empty_assets\<lparr>field3ds := [?G]\<rparr>)"
    unfolding resultG_def [symmetric] by (simp add: empty_assets_def directory_def)
  with okG(1) have 4: "\<exists>field. Config3dField.gamePieces field = []
         \<and> visit test_env fs_models ''/user'' empty_assets (directory ''Field3d_G'')
             = Inr (empty_assets\<lparr>field3ds := [field]\<rparr>)"
    by blast
  from S pre(3) bS okS dec(2) files(3)
  have "resultS = Inr (empty_assets\<lparr>robots := robots empty_assets @ [?S],
          loadFailures := remove1 (Dirent.name (directory ''Robot_S''))
            (loadFailures empty_assets @ [Dirent.name (directory ''Robot_S'')])\<rparr>)"
    unfolding resultS_def by blast
  then have "visit test_env fs_models ''/user'' empty_assets (directory ''Robot_S'')
       = Inr (empty_assets\<lparr>robots := [?S]\<rparr>)"
    unfolding resultS_def [symmetric] by (simp add: empty_assets_def directory_def)
  with okS(1) have 5: "\<exists>robot. Config3dRobot.components robot = []
         \<and> visit test_env fs_models ''/user'' empty_assets (directory ''Robot_S'')
             = Inr (empty_assets\<lparr>robots := [robot]\<rparr>)"
    by blast
  from 1 noarr 2 3 4 5 show ?thesis by blast
qed

end
